theory Spec2Isabelle
  imports Main
begin

section \<open>derr.h: leveled error reporting with sink fan-out\<close>

text \<open>
  The library is a single header. Everything it does beyond reading and writing its
  global configuration is a call into libc, so a run is modelled by the list of libc
  calls it makes, in program order, together with the way it ends. The configuration
  \<open>g_derr\<close> is passed explicitly; what libc answers (the clock, the text of an error
  code, the captured stack, the value of \<open>errno\<close>) comes from an environment record;
  the preprocessor symbols that select code come from a platform record.
\<close>

subsection \<open>Severities\<close>

text \<open>
  \<open>enum derr_level\<close> has the enumerators 10, 20, 30, 40, 50. C lets any value of the
  underlying integer type be passed where the enum is expected, so a level is a number,
  not one of five constructors. Whether that type is signed is the compiler's choice; the
  levels here are the non-negative values, which compare the same either way.
\<close>

type_synonym derr_level = nat

definition DERR_DEBUG :: derr_level where "DERR_DEBUG = 10"
definition DERR_INFO :: derr_level where "DERR_INFO = 20"
definition DERR_WARN :: derr_level where "DERR_WARN = 30"
definition DERR_ERROR :: derr_level where "DERR_ERROR = 40"
definition DERR_FATAL :: derr_level where "DERR_FATAL = 50"

lemmas level_defs = DERR_DEBUG_def DERR_INFO_def DERR_WARN_def DERR_ERROR_def DERR_FATAL_def

subsection \<open>Platform, streams, libc calls\<close>

record platform =
  posix :: bool            \<comment> \<open>\<open>DERR_POSIX\<close>: \<open>defined(__unix__) || defined(__APPLE__)\<close>\<close>
  gnu_strerror :: bool     \<comment> \<open>\<open>defined(_GNU_SOURCE) && !defined(__APPLE__)\<close>\<close>
  execinfo_macro :: bool   \<comment> \<open>\<open>defined(EXECINFO_H)\<close>\<close>
  linux :: bool            \<comment> \<open>\<open>defined(__linux__) && !defined(__ANDROID__)\<close>\<close>

text \<open>The condition guarding the backtrace block:
  \<open>DERR_POSIX && defined(EXECINFO_H) || (defined(__linux__) && !defined(__ANDROID__))\<close>.\<close>

definition have_backtrace :: "platform \<Rightarrow> bool" where
  "have_backtrace P = (posix P \<and> execinfo_macro P \<or> linux P)"

datatype stream = Stderr | File nat

text \<open>An argument of a variadic call: a string, an \<open>int\<close>, or a value of any other type
  (a \<open>double\<close>, a \<open>long\<close>, a pointer), which the model keeps as its source text.\<close>

datatype arg = S string | I int | Other string

text \<open>The local arrays of \<open>vemit\<close>. A call that fills a buffer names the buffer it fills.\<close>

datatype buffer = Buf_tbuf | Buf_msg | Buf_ebuf

datatype syslog_priority = LOG_CRIT | LOG_ERR | LOG_WARNING | LOG_INFO | LOG_DEBUG

datatype event =
    Clock_gettime
  | Gmtime_r int
  | Localtime_r int
  | Snprintf buffer nat string "arg list"
  | Vsnprintf buffer nat string "arg list"
  | Strerror_r int buffer nat
  | Strerror int     \<comment> \<open>the variant that answers in a buffer of libc's own; \<open>derr.h\<close> never calls it\<close>
  | Mutex_lock
  | Mutex_unlock
  | Fprintf stream string "arg list"
  | Fflush stream
  | Fputc char stream
  | Syslog syslog_priority string "arg list"
  | Openlog string
  | Closelog
  | Backtrace nat
  | Fileno stream
  | Backtrace_symbols_fd "nat list" int

record tm =
  tm_year :: int
  tm_mon :: int
  tm_mday :: int
  tm_hour :: int
  tm_min :: int
  tm_sec :: int

text \<open>GNU \<open>strerror_r\<close> returns a pointer: either the caller's buffer, which it has
  filled, or a string of its own. XSI \<open>strerror_r\<close> returns 0 or an error number.
  The platform flag \<open>gnu_strerror\<close> is the header's test for the first; libc is taken
  to provide the variant the test selects.\<close>

datatype gnu_result = Into_buf string | Static_msg string

record env =
  clock_realtime :: "int \<times> nat"                    \<comment> \<open>\<open>tv_sec\<close>, \<open>tv_nsec\<close>\<close>
  gmtime :: "int \<Rightarrow> tm"
  localtime :: "int \<Rightarrow> tm"
  strerror_r_xsi :: "int \<Rightarrow> nat \<Rightarrow> int \<times> string"    \<comment> \<open>return code, text left in the buffer\<close>
  strerror_r_gnu :: "int \<Rightarrow> nat \<Rightarrow> gnu_result"
  call_stack :: "nat list option"                   \<comment> \<open>\<open>None\<close>: the capture fails\<close>
  libc_format :: "string \<Rightarrow> arg list \<Rightarrow> string option"
    \<comment> \<open>libc's expansion of a format the model does not expand itself; \<open>None\<close>: undefined\<close>
  cur_errno :: int

text \<open>How a run ends. \<open>Stuck\<close> is a \<open>printf\<close>-family call whose arguments do not fit its
  format: undefined behaviour in C, and nothing is known of the run after it.\<close>

datatype fmt_error = Bad_argument | Unsupported_conversion

datatype outcome = Returned | Exited int | Aborted | Stuck fmt_error

type_synonym run = "event list \<times> outcome"

definition EXIT_FAILURE :: int where "EXIT_FAILURE = 1"

definition STDERR_FILENO :: int where "STDERR_FILENO = 2"

text \<open>Statement sequencing: the second statement runs only if the first returns.\<close>

definition seq :: "run \<Rightarrow> run \<Rightarrow> run" where
  "seq a b = (case snd a of Returned \<Rightarrow> (fst a @ fst b, snd b) | _ \<Rightarrow> a)"

subsection \<open>Formatting\<close>

definition digit_char :: "nat \<Rightarrow> char" where
  "digit_char d = ''0123456789'' ! (d mod 10)"

fun dec_nat :: "nat \<Rightarrow> string" where
  "dec_nat n = (if n < 10 then [digit_char n] else dec_nat (n div 10) @ [digit_char (n mod 10)])"

declare dec_nat.simps [simp del]

text \<open>\<open>%d\<close>\<close>

definition dec :: "int \<Rightarrow> string" where
  "dec i = (if i < 0 then CHR ''-'' # dec_nat (nat (- i)) else dec_nat (nat i))"

text \<open>\<open>%0wd\<close>\<close>

definition pad0 :: "nat \<Rightarrow> int \<Rightarrow> string" where
  "pad0 w i =
     (let s = dec_nat (nat \<bar>i\<bar>)
      in if i < 0 then CHR ''-'' # replicate (w - 1 - length s) CHR ''0'' @ s
         else replicate (w - length s) CHR ''0'' @ s)"

text \<open>
  The expansion of a format over an argument list, for the conversions \<open>%s\<close>, \<open>%d\<close> and
  \<open>%%\<close>. A conversion that finds no argument, or one of the wrong type, is undefined
  behaviour (\<open>Bad_argument\<close>); arguments left over are ignored, as C has it. At any other
  conversion the expansion stops with \<open>Unsupported_conversion\<close>.
\<close>

fun c_format :: "string \<Rightarrow> arg list \<Rightarrow> fmt_error + string" where
  "c_format [] ap = Inr []"
| "c_format [c] ap = (if c = CHR ''%'' then Inl Unsupported_conversion else Inr [c])"
| "c_format (c # d # fs) ap =
     (if c \<noteq> CHR ''%'' then map_sum id ((#) c) (c_format (d # fs) ap)
      else if d = CHR ''%'' then map_sum id ((#) CHR ''%'') (c_format fs ap)
      else if d = CHR ''s'' then
        (case ap of S s # ap' \<Rightarrow> map_sum id ((@) s) (c_format fs ap') | _ \<Rightarrow> Inl Bad_argument)
      else if d = CHR ''d'' then
        (case ap of I i # ap' \<Rightarrow> map_sum id ((@) (dec i)) (c_format fs ap') | _ \<Rightarrow> Inl Bad_argument)
      else Inl Unsupported_conversion)"

text \<open>
  \<open>vsnprintf(buf, n, fmt, ap)\<close>: at most \<open>n - 1\<close> bytes of the expansion are kept. A format
  with a conversion beyond the three above is expanded by libc, that is, by the
  environment; so every format is covered, and \<open>Inl\<close> is undefined behaviour only.
\<close>

definition vsnprintf :: "env \<Rightarrow> nat \<Rightarrow> string \<Rightarrow> arg list \<Rightarrow> fmt_error + string" where
  "vsnprintf E n fmt ap =
     (case c_format fmt ap of
        Inr s \<Rightarrow> Inr (take (n - 1) s)
      | Inl Bad_argument \<Rightarrow> Inl Bad_argument
      | Inl Unsupported_conversion \<Rightarrow>
          (case libc_format E fmt ap of
             Some s \<Rightarrow> Inr (take (n - 1) s)
           | None \<Rightarrow> Inl Bad_argument))"

subsection \<open>Global state\<close>

text \<open>\<open>struct derr_state\<close>. The four \<open>int\<close> flags only ever hold 0 or 1 (the initialiser
  and every setter write nothing else), so they are booleans here; \<open>NULL\<close> is \<open>None\<close>.\<close>

record derr_state =
  progname :: "string option"
  min_level :: derr_level
  color :: bool
  utc :: bool
  include_errno :: bool
  file_fp :: "stream option"   \<comment> \<open>the field \<open>file\<close>\<close>
  use_syslog :: bool

definition g_derr :: derr_state where
  "g_derr = \<lparr> progname = None, min_level = DERR_DEBUG, color = True, utc = False,
              include_errno = True, file_fp = None, use_syslog = False \<rparr>"

definition level_str :: "derr_level \<Rightarrow> string" where
  "level_str l =
     (if l = DERR_DEBUG then ''DEBUG''
      else if l = DERR_INFO then ''INFO''
      else if l = DERR_WARN then ''WARN''
      else if l = DERR_ERROR then ''ERROR''
      else if l = DERR_FATAL then ''FATAL''
      else ''LOG'')"

definition level_color :: "derr_state \<Rightarrow> derr_level \<Rightarrow> string" where
  "level_color g l =
     (if \<not> color g then ''''
      else if l = DERR_DEBUG then CHR 0x1B # ''[2m''
      else if l = DERR_INFO then CHR 0x1B # ''[0m''
      else if l = DERR_WARN then CHR 0x1B # ''[33m''
      else if l = DERR_ERROR then CHR 0x1B # ''[31m''
      else if l = DERR_FATAL then CHR 0x1B # ''[1;31m''
      else CHR 0x1B # ''[0m'')"

definition color_reset :: "derr_state \<Rightarrow> string" where
  "color_reset g = (if color g then CHR 0x1B # ''[0m'' else '''')"

text \<open>\<open>ts_now(buf, n)\<close>: the timestamp left in the buffer, and the calls made.\<close>

definition ts_now :: "env \<Rightarrow> derr_state \<Rightarrow> buffer \<Rightarrow> nat \<Rightarrow> string \<times> event list" where
  "ts_now E g buf n =
     (let sec = fst (clock_realtime E);
          tmv = (if utc g then gmtime E sec else localtime E sec);
          ms = int (snd (clock_realtime E) div 1000000);
          z = (if utc g then ''Z'' else '''')
      in (take (n - 1)
            (pad0 4 (tm_year tmv + 1900) @ ''-'' @ pad0 2 (tm_mon tmv + 1) @ ''-'' @
             pad0 2 (tm_mday tmv) @ ''T'' @ pad0 2 (tm_hour tmv) @ '':'' @
             pad0 2 (tm_min tmv) @ '':'' @ pad0 2 (tm_sec tmv) @ ''.'' @ pad0 3 ms @ z),
          [Clock_gettime,
           if utc g then Gmtime_r sec else Localtime_r sec,
           Snprintf buf n ''%04d-%02d-%02dT%02d:%02d:%02d.%03d%s''
             [I (tm_year tmv + 1900), I (tm_mon tmv + 1), I (tm_mday tmv), I (tm_hour tmv),
              I (tm_min tmv), I (tm_sec tmv), I ms, S z]]))"

text \<open>\<open>strerror_portable(errnum, buf, n)\<close>: the text left in the caller's buffer, and the
  calls made. The buffer's previous content is never read.\<close>

definition strerror_portable ::
  "platform \<Rightarrow> env \<Rightarrow> int \<Rightarrow> buffer \<Rightarrow> nat \<Rightarrow> string \<times> event list" where
  "strerror_portable P E errnum buf n =
     (if gnu_strerror P then
        (case strerror_r_gnu E errnum n of
           Into_buf s \<Rightarrow> (s, [Strerror_r errnum buf n])
         | Static_msg m \<Rightarrow>
             (take (n - 1) m, [Strerror_r errnum buf n, Snprintf buf n ''%s'' [S m]]))
      else
        (case strerror_r_xsi E errnum n of
           (rc, s) \<Rightarrow>
             if rc \<noteq> 0 then
               (take (n - 1) (''errno '' @ dec errnum),
                [Strerror_r errnum buf n, Snprintf buf n ''errno %d'' [I errnum]])
             else (s, [Strerror_r errnum buf n])))"

text \<open>The expression \<open>g_derr.progname ? g_derr.progname : "program"\<close>.\<close>

definition pname_of :: "derr_state \<Rightarrow> string" where
  "pname_of g = (case progname g of Some p \<Rightarrow> p | None \<Rightarrow> ''program'')"

definition lock :: "platform \<Rightarrow> event list" where
  "lock P = (if posix P then [Mutex_lock] else [])"

definition unlock :: "platform \<Rightarrow> event list" where
  "unlock P = (if posix P then [Mutex_unlock] else [])"

subsection \<open>The emission pipeline\<close>

text \<open>The four sink blocks of \<open>vemit\<close>, in the order of the source. \<open>he\<close> stands for
  \<open>has_errno && g_derr.include_errno\<close>.\<close>

definition emit_stderr ::
  "bool \<Rightarrow> derr_level \<Rightarrow> int \<Rightarrow> string \<Rightarrow> string \<Rightarrow> string \<Rightarrow> string \<Rightarrow> string \<Rightarrow> string
   \<Rightarrow> event list" where
  "emit_stderr he lvl errnum tbuf msg ebuf pname c r =
     (if he then
        [Fprintf Stderr ''%s%s%s [%s] %s: %s (errno=%d)\<newline>''
           [S c, S tbuf, S r, S (level_str lvl), S pname, S msg, I errnum]]
      else
        [Fprintf Stderr ''%s%s%s [%s] %s: %s\<newline>''
           [S c, S tbuf, S r, S (level_str lvl), S pname, S msg]]) @
     (if he then [Fprintf Stderr ''%s        -> %s%s\<newline>'' [S c, S ebuf, S r]] else [])"

definition emit_file ::
  "derr_state \<Rightarrow> bool \<Rightarrow> derr_level \<Rightarrow> int \<Rightarrow> string \<Rightarrow> string \<Rightarrow> string \<Rightarrow> string
   \<Rightarrow> event list" where
  "emit_file g he lvl errnum tbuf msg ebuf pname =
     (case file_fp g of
        None \<Rightarrow> []
      | Some f \<Rightarrow>
          (if he then
             [Fprintf f ''%s [%s] %s: %s (errno=%d)\<newline>        -> %s\<newline>''
                [S tbuf, S (level_str lvl), S pname, S msg, I errnum, S ebuf]]
           else
             [Fprintf f ''%s [%s] %s: %s\<newline>'' [S tbuf, S (level_str lvl), S pname, S msg]]) @
          [Fflush f])"

definition syslog_level :: "derr_level \<Rightarrow> syslog_priority" where
  "syslog_level lvl =
     (if lvl = DERR_DEBUG then LOG_DEBUG
      else if lvl = DERR_INFO then LOG_INFO
      else if lvl = DERR_WARN then LOG_WARNING
      else if lvl = DERR_ERROR then LOG_ERR
      else if lvl = DERR_FATAL then LOG_CRIT
      else LOG_INFO)"

definition emit_syslog ::
  "platform \<Rightarrow> derr_state \<Rightarrow> bool \<Rightarrow> derr_level \<Rightarrow> int \<Rightarrow> string \<Rightarrow> string \<Rightarrow> string
   \<Rightarrow> event list" where
  "emit_syslog P g he lvl errnum msg ebuf pname =
     (if posix P \<and> use_syslog g then
        (if he then
           [Syslog (syslog_level lvl) ''%s: %s (errno=%d) -> %s'' [S pname, S msg, I errnum, S ebuf]]
         else
           [Syslog (syslog_level lvl) ''%s: %s'' [S pname, S msg]])
      else [])"

text \<open>\<open>backtrace(bt, size)\<close> fills at most \<open>size\<close> entries and returns how many.\<close>

definition backtrace :: "env \<Rightarrow> nat \<Rightarrow> nat list" where
  "backtrace E sz = (case call_stack E of None \<Rightarrow> [] | Some fs \<Rightarrow> take sz fs)"

definition emit_backtrace :: "platform \<Rightarrow> env \<Rightarrow> derr_level \<Rightarrow> string \<Rightarrow> string \<Rightarrow> event list" where
  "emit_backtrace P E lvl c r =
     (if have_backtrace P \<and> lvl \<ge> DERR_FATAL then
        (let bt = backtrace E 128; n = length bt
         in Backtrace 128 #
            (if n > 0 then
               [Fprintf Stderr ''%sBacktrace (%d frames):%s\<newline>'' [S c, I (int n), S r],
                Fileno Stderr,
                Backtrace_symbols_fd bt STDERR_FILENO,
                Fputc CHR ''\<newline>'' Stderr]
             else []))
      else [])"

definition vemit ::
  "platform \<Rightarrow> env \<Rightarrow> derr_state \<Rightarrow> derr_level \<Rightarrow> bool \<Rightarrow> int \<Rightarrow> string \<Rightarrow> arg list \<Rightarrow> run" where
  "vemit P E g lvl has_errno errnum fmt ap =
     (if lvl < min_level g then ([], Returned)
      else
        let (tbuf, ts_calls) = ts_now E g Buf_tbuf 40
        in case vsnprintf E 2048 fmt ap of
             Inl e \<Rightarrow> (ts_calls @ [Vsnprintf Buf_msg 2048 fmt ap], Stuck e)
           | Inr msg \<Rightarrow>
               let he = (has_errno \<and> include_errno g);
                   (ebuf, se_calls) =
                     (if he then strerror_portable P E errnum Buf_ebuf 256 else ([], []));
                   pname = pname_of g;
                   c = level_color g lvl;
                   r = color_reset g
               in (ts_calls @ [Vsnprintf Buf_msg 2048 fmt ap] @ se_calls @
                   lock P @
                   emit_stderr he lvl errnum tbuf msg ebuf pname c r @
                   emit_file g he lvl errnum tbuf msg ebuf pname @
                   emit_syslog P g he lvl errnum msg ebuf pname @
                   emit_backtrace P E lvl c r @
                   unlock P,
                   Returned))"

subsection \<open>The public API\<close>

definition derr_set_program_name :: "string option \<Rightarrow> derr_state \<Rightarrow> derr_state" where
  "derr_set_program_name name g = g\<lparr>progname := name\<rparr>"

definition derr_set_min_level :: "derr_level \<Rightarrow> derr_state \<Rightarrow> derr_state" where
  "derr_set_min_level lvl g = g\<lparr>min_level := lvl\<rparr>"

definition derr_enable_color :: "int \<Rightarrow> derr_state \<Rightarrow> derr_state" where
  "derr_enable_color enable g = g\<lparr>color := (enable \<noteq> 0)\<rparr>"

definition derr_set_timestamp_utc :: "int \<Rightarrow> derr_state \<Rightarrow> derr_state" where
  "derr_set_timestamp_utc use_utc g = g\<lparr>utc := (use_utc \<noteq> 0)\<rparr>"

definition derr_set_log_file :: "stream option \<Rightarrow> derr_state \<Rightarrow> derr_state" where
  "derr_set_log_file fp g = g\<lparr>file_fp := fp\<rparr>"

definition derr_set_include_errno_details :: "int \<Rightarrow> derr_state \<Rightarrow> derr_state" where
  "derr_set_include_errno_details enable g = g\<lparr>include_errno := (enable \<noteq> 0)\<rparr>"

definition derr_use_syslog :: "platform \<Rightarrow> int \<Rightarrow> derr_state \<Rightarrow> event list \<times> derr_state" where
  "derr_use_syslog P enable g =
     (if posix P then
        (if enable \<noteq> 0 \<and> \<not> use_syslog g then
           ([Openlog (pname_of g)], g\<lparr>use_syslog := True\<rparr>)
         else if enable = 0 \<and> use_syslog g then ([Closelog], g\<lparr>use_syslog := False\<rparr>)
         else ([], g))
      else ([], g))"

definition derr_log :: "platform \<Rightarrow> env \<Rightarrow> derr_state \<Rightarrow> derr_level \<Rightarrow> string \<Rightarrow> arg list \<Rightarrow> run" where
  "derr_log P E g lvl fmt ap = vemit P E g lvl False 0 fmt ap"

definition derr_log_errno ::
  "platform \<Rightarrow> env \<Rightarrow> derr_state \<Rightarrow> derr_level \<Rightarrow> int \<Rightarrow> string \<Rightarrow> arg list \<Rightarrow> run" where
  "derr_log_errno P E g lvl errnum fmt ap = vemit P E g lvl True errnum fmt ap"

definition derr_flush :: "platform \<Rightarrow> derr_state \<Rightarrow> run" where
  "derr_flush P g =
     (lock P @ [Fflush Stderr] @ (case file_fp g of Some f \<Rightarrow> [Fflush f] | None \<Rightarrow> []) @ unlock P,
      Returned)"

subsection \<open>The macros\<close>

definition DIE :: "platform \<Rightarrow> env \<Rightarrow> derr_state \<Rightarrow> string \<Rightarrow> arg list \<Rightarrow> run" where
  "DIE P E g fmt ap =
     seq (derr_log P E g DERR_FATAL fmt ap) (seq (derr_flush P g) ([], Exited EXIT_FAILURE))"

definition DIE_ERRNO :: "platform \<Rightarrow> env \<Rightarrow> derr_state \<Rightarrow> string \<Rightarrow> arg list \<Rightarrow> run" where
  "DIE_ERRNO P E g fmt ap =
     seq (derr_log_errno P E g DERR_FATAL (cur_errno E) fmt ap)
         (seq (derr_flush P g) ([], Exited EXIT_FAILURE))"

text \<open>
  \<open>DASSERT(cond, ...)\<close>: \<open>cond\<close> is the value of the condition, \<open>cond_str\<close> its text
  (\<open>#cond\<close>). The variadic part is a format literal \<open>ufmt\<close>, which the compiler joins to
  the literal \<open>"Assert failed: %s - "\<close> before it, and the arguments \<open>uargs\<close> of that
  format; the macro passes \<open>#cond\<close> after them. The dash of the source is U+2014, three
  bytes in UTF-8.
\<close>

definition assert_prefix :: string where
  "assert_prefix = ''Assert failed: %s '' @ [CHR 0xE2, CHR 0x80, CHR 0x94] @ '' ''"

definition DASSERT ::
  "platform \<Rightarrow> env \<Rightarrow> derr_state \<Rightarrow> bool \<Rightarrow> string \<Rightarrow> string \<Rightarrow> arg list \<Rightarrow> run" where
  "DASSERT P E g cond cond_str ufmt uargs =
     (if \<not> cond then
        seq (derr_log_errno P E g DERR_FATAL (cur_errno E) (assert_prefix @ ufmt) (uargs @ [S cond_str]))
            (seq (derr_flush P g) ([], Aborted))
      else ([], Returned))"

text \<open>
  The value of an integer expression after C's integer promotions: of a signed type
  (\<open>int\<close>, \<open>long\<close>, \<open>long long\<close>), or of an unsigned type at least as wide as \<open>int\<close>,
  given with its width in bits. (A narrower unsigned type is promoted to \<open>int\<close>.)
\<close>

datatype c_value = Signed int | Unsigned nat nat

text \<open>\<open>(expr) == -1\<close>: for an unsigned left operand the usual arithmetic conversions turn
  \<open>-1\<close> into the largest value of its type.\<close>

fun equals_minus_one :: "c_value \<Rightarrow> bool" where
  "equals_minus_one (Signed v) = (v = - 1)"
| "equals_minus_one (Unsigned w u) = (u = 2 ^ w - 1)"

text \<open>\<open>DTRY(expr)\<close>: \<open>v\<close> is the value of the expression, \<open>expr_str\<close> its text.\<close>

definition DTRY :: "platform \<Rightarrow> env \<Rightarrow> derr_state \<Rightarrow> c_value \<Rightarrow> string \<Rightarrow> run" where
  "DTRY P E g v expr_str =
     (if equals_minus_one v then DIE_ERRNO P E g ''%s failed'' [S expr_str]
      else ([], Returned))"

subsection \<open>A client program\<close>

text \<open>A client is a sequence of calls of the API, each seeing the environment of its
  moment. The process runs them in turn and stops at the first that does not return.\<close>

datatype api_call =
    Set_program_name "string option"
  | Set_min_level derr_level
  | Enable_color int
  | Set_timestamp_utc int
  | Set_log_file "stream option"
  | Set_include_errno_details int
  | Use_syslog int
  | Log derr_level string "arg list"
  | Log_errno derr_level int string "arg list"
  | Flush
  | Die string "arg list"
  | Die_errno string "arg list"
  | Dassert bool string string "arg list"
  | Dtry c_value string

fun api :: "platform \<Rightarrow> env \<Rightarrow> api_call \<Rightarrow> derr_state \<Rightarrow> run \<times> derr_state" where
  "api P E (Set_program_name name) g = (([], Returned), derr_set_program_name name g)"
| "api P E (Set_min_level lvl) g = (([], Returned), derr_set_min_level lvl g)"
| "api P E (Enable_color enable) g = (([], Returned), derr_enable_color enable g)"
| "api P E (Set_timestamp_utc use_utc) g = (([], Returned), derr_set_timestamp_utc use_utc g)"
| "api P E (Set_log_file fp) g = (([], Returned), derr_set_log_file fp g)"
| "api P E (Set_include_errno_details enable) g =
     (([], Returned), derr_set_include_errno_details enable g)"
| "api P E (Use_syslog enable) g =
     ((fst (derr_use_syslog P enable g), Returned), snd (derr_use_syslog P enable g))"
| "api P E (Log lvl fmt ap) g = (derr_log P E g lvl fmt ap, g)"
| "api P E (Log_errno lvl errnum fmt ap) g = (derr_log_errno P E g lvl errnum fmt ap, g)"
| "api P E Flush g = (derr_flush P g, g)"
| "api P E (Die fmt ap) g = (DIE P E g fmt ap, g)"
| "api P E (Die_errno fmt ap) g = (DIE_ERRNO P E g fmt ap, g)"
| "api P E (Dassert cond cond_str ufmt uargs) g = (DASSERT P E g cond cond_str ufmt uargs, g)"
| "api P E (Dtry v expr_str) g = (DTRY P E g v expr_str, g)"

fun run_calls :: "platform \<Rightarrow> (env \<times> api_call) list \<Rightarrow> derr_state \<Rightarrow> run \<times> derr_state" where
  "run_calls P [] g = (([], Returned), g)"
| "run_calls P ((E, c) # cs) g =
     (case api P E c g of
        ((tr, Returned), g') \<Rightarrow>
          (case run_calls P cs g' of ((tr', out), g'') \<Rightarrow> ((tr @ tr', out), g''))
      | (r, g') \<Rightarrow> (r, g'))"

subsection \<open>Observations on a run\<close>

text \<open>Where a call writes: a stream, or the system log. \<open>backtrace_symbols_fd\<close> writes to a
  file descriptor; descriptor 2 is the one under \<open>stderr\<close>.\<close>

datatype target = To_stream stream | To_syslog

fun write_target :: "event \<Rightarrow> target option" where
  "write_target (Fprintf s fmt ap) = Some (To_stream s)"
| "write_target (Fputc c s) = Some (To_stream s)"
| "write_target (Backtrace_symbols_fd fs fd) =
     (if fd = STDERR_FILENO then Some (To_stream Stderr) else None)"
| "write_target (Syslog p fmt ap) = Some To_syslog"
| "write_target e = None"

text \<open>The targets a run writes to, one entry per writing call, in order.\<close>

fun writes :: "event list \<Rightarrow> target list" where
  "writes [] = []"
| "writes (e # es) = (case write_target e of Some t \<Rightarrow> t # writes es | None \<Rightarrow> writes es)"

text \<open>The writing calls themselves, in order.\<close>

definition write_calls :: "event list \<Rightarrow> event list" where
  "write_calls tr = filter (\<lambda>e. write_target e \<noteq> None) tr"

fun starts_with :: "string \<Rightarrow> string \<Rightarrow> bool" where
  "starts_with [] s = True"
| "starts_with (p # ps) [] = False"
| "starts_with (p # ps) (c # cs) = (p = c \<and> starts_with ps cs)"

fun contains :: "string \<Rightarrow> string \<Rightarrow> bool" where
  "contains p [] = (p = [])"
| "contains p (c # cs) = (starts_with p (c # cs) \<or> contains p cs)"

text \<open>A writing call carries the errno detail when its format has the directive that
  prints the translated text after an arrow.\<close>

fun errno_detail :: "event \<Rightarrow> bool" where
  "errno_detail (Fprintf s fmt ap) = contains ''-> %s'' fmt"
| "errno_detail (Syslog p fmt ap) = contains ''-> %s'' fmt"
| "errno_detail e = False"

fun is_strerror :: "event \<Rightarrow> bool" where
  "is_strerror (Strerror_r errnum buf n) = True"
| "is_strerror (Strerror errnum) = True"
| "is_strerror e = False"

text \<open>Where a call leaves the text it produces: in the buffer it is handed, of the size
  it is told, or, for \<open>strerror\<close>, in a buffer that libc owns and every thread shares.\<close>

datatype destination = Caller buffer nat | Libc_static

fun text_destination :: "event \<Rightarrow> destination option" where
  "text_destination (Snprintf b n fmt ap) = Some (Caller b n)"
| "text_destination (Vsnprintf b n fmt ap) = Some (Caller b n)"
| "text_destination (Strerror_r errnum b n) = Some (Caller b n)"
| "text_destination (Strerror errnum) = Some Libc_static"
| "text_destination e = None"

fun is_backtrace :: "event \<Rightarrow> bool" where
  "is_backtrace (Backtrace n) = True"
| "is_backtrace (Backtrace_symbols_fd fs fd) = True"
| "is_backtrace e = False"

fun is_openlog :: "event \<Rightarrow> bool" where
  "is_openlog (Openlog ident) = True"
| "is_openlog e = False"

definition opens :: "event list \<Rightarrow> nat" where
  "opens tr = length (filter is_openlog tr)"

definition closes :: "event list \<Rightarrow> nat" where
  "closes tr = count_list tr Closelog"

text \<open>Whether the channel to the system log is open after a run that started with it
  in state \<open>b\<close>. \<open>syslog\<close> opens the channel by itself when it finds it closed.\<close>

fun channel_open :: "bool \<Rightarrow> event list \<Rightarrow> bool" where
  "channel_open b [] = b"
| "channel_open b (Openlog ident # es) = channel_open True es"
| "channel_open b (Closelog # es) = channel_open False es"
| "channel_open b (Syslog p fmt ap # es) = channel_open True es"
| "channel_open b (e # es) = channel_open b es"

subsection \<open>A concrete platform and environment\<close>

definition linux_gcc :: platform where
  "linux_gcc = \<lparr> posix = True, gnu_strerror = False, execinfo_macro = False, linux = True \<rparr>"

definition tm0 :: tm where
  "tm0 = \<lparr> tm_year = 125, tm_mon = 0, tm_mday = 7, tm_hour = 9, tm_min = 5, tm_sec = 3 \<rparr>"

definition env0 :: env where
  "env0 = \<lparr> clock_realtime = (1736240703, 42000000),
            gmtime = (\<lambda>t. tm0), localtime = (\<lambda>t. tm0),
            strerror_r_xsi =
              (\<lambda>e n. if e = 2 then (0, ''No such file or directory'') else (22, ''Unknown error'')),
            strerror_r_gnu =
              (\<lambda>e n. if e = 2 then Static_msg ''No such file or directory''
                      else Into_buf ''Unknown error''),
            call_stack = Some [17, 42],
            libc_format = (\<lambda>fmt ap. if fmt = ''%x'' \<and> ap = [I 255] then Some ''ff'' else None),
            cur_errno = 2 \<rparr>"

text \<open>A configuration reached through the setters: threshold WARN, a log file, the
  system log on.\<close>

definition g_full :: derr_state where
  "g_full =
     derr_set_log_file (Some (File 3))
       (snd (derr_use_syslog linux_gcc 1 (derr_set_min_level DERR_WARN g_derr)))"

text \<open>The arguments a formatting call passes after its format.\<close>

fun call_args :: "event \<Rightarrow> arg list" where
  "call_args (Fprintf s fmt ap) = ap"
| "call_args (Syslog p fmt ap) = ap"
| "call_args (Snprintf buf n fmt ap) = ap"
| "call_args (Vsnprintf buf n fmt ap) = ap"
| "call_args e = []"

text \<open>Whether a run uses the channel in step with its state, started with the channel
  in state \<open>b\<close>: \<open>openlog\<close> only when it is closed, \<open>closelog\<close> and \<open>syslog\<close> only when it
  is open.\<close>

fun toggles_ok :: "bool \<Rightarrow> event list \<Rightarrow> bool" where
  "toggles_ok b [] = True"
| "toggles_ok b (Openlog ident # es) = (\<not> b \<and> toggles_ok True es)"
| "toggles_ok b (Closelog # es) = (b \<and> toggles_ok False es)"
| "toggles_ok b (Syslog p fmt ap # es) = (b \<and> toggles_ok b es)"
| "toggles_ok b (e # es) = toggles_ok b es"

fun is_mutex_call :: "event \<Rightarrow> bool" where
  "is_mutex_call Mutex_lock = True"
| "is_mutex_call Mutex_unlock = True"
| "is_mutex_call e = False"

section \<open>Properties\<close>

subsection \<open>The shape of an emission\<close>

lemma writes_append: "writes (xs @ ys) = writes xs @ writes ys"
  by (induction xs) (auto split: option.splits)

lemma vemit_filtered: "lvl < min_level g \<Longrightarrow> vemit P E g lvl has_errno errnum fmt ap = ([], Returned)"
  by (simp add: vemit_def)

lemma vemit_stuck:
  "\<not> lvl < min_level g \<Longrightarrow> vsnprintf E 2048 fmt ap = Inl e \<Longrightarrow>
   vemit P E g lvl has_errno errnum fmt ap = (snd (ts_now E g Buf_tbuf 40) @ [Vsnprintf Buf_msg 2048 fmt ap], Stuck e)"
  by (simp add: vemit_def split: prod.splits)


lemma vemit_emitted:
  assumes "\<not> lvl < min_level g" and "vsnprintf E 2048 fmt ap = Inr msg"
  shows "vemit P E g lvl has_errno errnum fmt ap =
    (snd (ts_now E g Buf_tbuf 40) @ [Vsnprintf Buf_msg 2048 fmt ap] @
     (if has_errno \<and> include_errno g then snd (strerror_portable P E errnum Buf_ebuf 256) else []) @
     lock P @
     emit_stderr (has_errno \<and> include_errno g) lvl errnum (fst (ts_now E g Buf_tbuf 40)) msg
       (if has_errno \<and> include_errno g then fst (strerror_portable P E errnum Buf_ebuf 256) else [])
       (pname_of g) (level_color g lvl) (color_reset g) @
     emit_file g (has_errno \<and> include_errno g) lvl errnum (fst (ts_now E g Buf_tbuf 40)) msg
       (if has_errno \<and> include_errno g then fst (strerror_portable P E errnum Buf_ebuf 256) else [])
       (pname_of g) @
     emit_syslog P g (has_errno \<and> include_errno g) lvl errnum msg
       (if has_errno \<and> include_errno g then fst (strerror_portable P E errnum Buf_ebuf 256) else [])
       (pname_of g) @
     emit_backtrace P E lvl (level_color g lvl) (color_reset g) @
     unlock P, Returned)"
  using assms by (simp add: vemit_def Let_def split: prod.splits)

lemma writes_ts_now [simp]: "writes (snd (ts_now E g buf n)) = []"
  by (simp add: ts_now_def Let_def)

lemma writes_strerror [simp]: "writes (snd (strerror_portable P E errnum buf n)) = []"
  by (simp add: strerror_portable_def split: gnu_result.splits prod.splits)

lemma writes_lock [simp]: "writes (lock P) = []" "writes (unlock P) = []"
  by (simp_all add: lock_def unlock_def)

lemma writes_emit_stderr:
  "writes (emit_stderr he lvl errnum tbuf msg ebuf pname c r) =
     To_stream Stderr # (if he then [To_stream Stderr] else [])"
  by (simp add: emit_stderr_def)

lemma writes_emit_file:
  "writes (emit_file g he lvl errnum tbuf msg ebuf pname) =
     (case file_fp g of Some f \<Rightarrow> [To_stream f] | None \<Rightarrow> [])"
  by (simp add: emit_file_def split: option.splits)

lemma writes_emit_syslog:
  "writes (emit_syslog P g he lvl errnum msg ebuf pname) =
     (if posix P \<and> use_syslog g then [To_syslog] else [])"
  by (simp add: emit_syslog_def)

lemma writes_emit_backtrace:
  "writes (emit_backtrace P E lvl c r) =
     (if have_backtrace P \<and> DERR_FATAL \<le> lvl \<and> backtrace E 128 \<noteq> []
      then [To_stream Stderr, To_stream Stderr, To_stream Stderr] else [])"
  by (simp add: emit_backtrace_def Let_def)


lemma writes_vemit:
  assumes "\<not> lvl < min_level g" and "vsnprintf E 2048 fmt ap = Inr msg"
  shows "writes (fst (vemit P E g lvl has_errno errnum fmt ap)) =
     To_stream Stderr # (if has_errno \<and> include_errno g then [To_stream Stderr] else []) @
     (case file_fp g of Some f \<Rightarrow> [To_stream f] | None \<Rightarrow> []) @
     (if posix P \<and> use_syslog g then [To_syslog] else []) @
     (if have_backtrace P \<and> DERR_FATAL \<le> lvl \<and> backtrace E 128 \<noteq> []
      then [To_stream Stderr, To_stream Stderr, To_stream Stderr] else [])"
  unfolding vemit_emitted [OF assms]
  by (simp only: fst_conv writes_append writes_ts_now writes_strerror writes_lock
        writes_emit_stderr writes_emit_file writes_emit_syslog writes_emit_backtrace)
     (simp split: option.splits)

lemma file_write_flushed:
  assumes "\<not> lvl < min_level g" and "vsnprintf E 2048 fmt ap = Inr msg" and "file_fp g = Some f"
  shows "\<exists>a ffmt fap b. fst (vemit P E g lvl has_errno errnum fmt ap) =
            a @ [Fprintf f ffmt fap, Fflush f] @ b \<and>
          writes a = To_stream Stderr # (if has_errno \<and> include_errno g then [To_stream Stderr] else [])"
proof -
  let ?he = "has_errno \<and> include_errno g"
  let ?ebuf = "if ?he then fst (strerror_portable P E errnum Buf_ebuf 256) else []"
  let ?a = "snd (ts_now E g Buf_tbuf 40) @ [Vsnprintf Buf_msg 2048 fmt ap] @
     (if ?he then snd (strerror_portable P E errnum Buf_ebuf 256) else []) @ lock P @
     emit_stderr ?he lvl errnum (fst (ts_now E g Buf_tbuf 40)) msg ?ebuf (pname_of g)
       (level_color g lvl) (color_reset g)"
  let ?b = "emit_syslog P g ?he lvl errnum msg ?ebuf (pname_of g) @
     emit_backtrace P E lvl (level_color g lvl) (color_reset g) @ unlock P"
  obtain ffmt fap where ef: "emit_file g ?he lvl errnum (fst (ts_now E g Buf_tbuf 40)) msg ?ebuf (pname_of g)
      = [Fprintf f ffmt fap, Fflush f]"
    using assms(3) by (cases "has_errno \<and> include_errno g") (simp_all add: emit_file_def)
  have "fst (vemit P E g lvl has_errno errnum fmt ap) = ?a @ [Fprintf f ffmt fap, Fflush f] @ ?b"
    unfolding vemit_emitted [OF assms(1,2)] ef by simp
  moreover have "writes ?a = To_stream Stderr # (if ?he then [To_stream Stderr] else [])"
    by (simp add: writes_append writes_emit_stderr)
  ultimately show ?thesis by blast
qed

subsection \<open>Filtering and the order of the sinks\<close>

lemma write_calls_append: "write_calls (xs @ ys) = write_calls xs @ write_calls ys"
  by (simp add: write_calls_def)

lemma write_calls_quiet [simp]:
  "write_calls (snd (ts_now E g buf n)) = []"
  "write_calls (snd (strerror_portable P E errnum buf n)) = []"
  "write_calls (lock P) = []"
  "write_calls (unlock P) = []"
  by (simp_all add: write_calls_def ts_now_def strerror_portable_def lock_def unlock_def Let_def
        split: gnu_result.splits prod.splits)

lemma write_calls_emit_stderr:
  "write_calls (emit_stderr he lvl errnum tbuf msg ebuf pname c r) =
     (if he then
        [Fprintf Stderr ''%s%s%s [%s] %s: %s (errno=%d)\<newline>''
           [S c, S tbuf, S r, S (level_str lvl), S pname, S msg, I errnum],
         Fprintf Stderr ''%s        -> %s%s\<newline>'' [S c, S ebuf, S r]]
      else
        [Fprintf Stderr ''%s%s%s [%s] %s: %s\<newline>''
           [S c, S tbuf, S r, S (level_str lvl), S pname, S msg]])"
  by (simp add: write_calls_def emit_stderr_def)

lemma write_calls_emit_file:
  "write_calls (emit_file g he lvl errnum tbuf msg ebuf pname) =
     (case file_fp g of
        None \<Rightarrow> []
      | Some f \<Rightarrow>
          [if he then
             Fprintf f ''%s [%s] %s: %s (errno=%d)\<newline>        -> %s\<newline>''
               [S tbuf, S (level_str lvl), S pname, S msg, I errnum, S ebuf]
           else
             Fprintf f ''%s [%s] %s: %s\<newline>'' [S tbuf, S (level_str lvl), S pname, S msg]])"
  by (cases "file_fp g") (simp_all add: write_calls_def emit_file_def)

lemma write_calls_emit_syslog:
  "write_calls (emit_syslog P g he lvl errnum msg ebuf pname) =
     (if posix P \<and> use_syslog g then
        [if he then
           Syslog (syslog_level lvl) ''%s: %s (errno=%d) -> %s'' [S pname, S msg, I errnum, S ebuf]
         else Syslog (syslog_level lvl) ''%s: %s'' [S pname, S msg]]
      else [])"
  by (simp add: write_calls_def emit_syslog_def)

lemma write_calls_emit_backtrace:
  "write_calls (emit_backtrace P E lvl c r) =
     (if have_backtrace P \<and> DERR_FATAL \<le> lvl \<and> backtrace E 128 \<noteq> [] then
        [Fprintf Stderr ''%sBacktrace (%d frames):%s\<newline>''
           [S c, I (int (length (backtrace E 128))), S r],
         Backtrace_symbols_fd (backtrace E 128) STDERR_FILENO,
         Fputc CHR ''\<newline>'' Stderr]
      else [])"
  by (simp add: write_calls_def emit_backtrace_def Let_def)

lemma write_calls_vemit:
  assumes "\<not> lvl < min_level g" and "vsnprintf E 2048 fmt ap = Inr msg"
    and "he = (has_errno \<and> include_errno g)"
  shows "write_calls (fst (vemit P E g lvl has_errno errnum fmt ap)) =
     (if he then
        [Fprintf Stderr ''%s%s%s [%s] %s: %s (errno=%d)\<newline>''
           [S (level_color g lvl), S (fst (ts_now E g Buf_tbuf 40)), S (color_reset g),
            S (level_str lvl), S (pname_of g), S msg, I errnum],
         Fprintf Stderr ''%s        -> %s%s\<newline>''
           [S (level_color g lvl), S (fst (strerror_portable P E errnum Buf_ebuf 256)),
            S (color_reset g)]]
      else
        [Fprintf Stderr ''%s%s%s [%s] %s: %s\<newline>''
           [S (level_color g lvl), S (fst (ts_now E g Buf_tbuf 40)), S (color_reset g),
            S (level_str lvl), S (pname_of g), S msg]]) @
     (case file_fp g of
        None \<Rightarrow> []
      | Some f \<Rightarrow>
          [if he then
             Fprintf f ''%s [%s] %s: %s (errno=%d)\<newline>        -> %s\<newline>''
               [S (fst (ts_now E g Buf_tbuf 40)), S (level_str lvl), S (pname_of g), S msg,
                I errnum, S (fst (strerror_portable P E errnum Buf_ebuf 256))]
           else
             Fprintf f ''%s [%s] %s: %s\<newline>''
               [S (fst (ts_now E g Buf_tbuf 40)), S (level_str lvl), S (pname_of g), S msg]]) @
     (if posix P \<and> use_syslog g then
        [if he then
           Syslog (syslog_level lvl) ''%s: %s (errno=%d) -> %s''
             [S (pname_of g), S msg, I errnum, S (fst (strerror_portable P E errnum Buf_ebuf 256))]
         else Syslog (syslog_level lvl) ''%s: %s'' [S (pname_of g), S msg]]
      else []) @
     (if have_backtrace P \<and> DERR_FATAL \<le> lvl \<and> backtrace E 128 \<noteq> [] then
        [Fprintf Stderr ''%sBacktrace (%d frames):%s\<newline>''
           [S (level_color g lvl), I (int (length (backtrace E 128))), S (color_reset g)],
         Backtrace_symbols_fd (backtrace E 128) STDERR_FILENO,
         Fputc CHR ''\<newline>'' Stderr]
      else [])"
proof (cases he)
  case True
  then have h: "(has_errno \<and> include_errno g) = True" using assms(3) by simp
  show ?thesis
    unfolding vemit_emitted [OF assms(1,2)] h
    by (simp only: fst_conv write_calls_append write_calls_quiet write_calls_emit_stderr
          write_calls_emit_file write_calls_emit_syslog write_calls_emit_backtrace True
          if_True append_Nil append_Nil2 filter.simps)
       (simp add: write_calls_def)
next
  case False
  then have h: "(has_errno \<and> include_errno g) = False" using assms(3) by simp
  show ?thesis
    unfolding vemit_emitted [OF assms(1,2)] h
    by (simp only: fst_conv write_calls_append write_calls_quiet write_calls_emit_stderr
          write_calls_emit_file write_calls_emit_syslog write_calls_emit_backtrace False
          if_False append_Nil append_Nil2 filter.simps)
       (simp add: write_calls_def)
qed


lemma vemit_fanout:
  assumes he: "he = (has_errno \<and> include_errno g)"
  shows "(lvl < min_level g \<longrightarrow> (vemit P E g lvl has_errno errnum fmt ap) = ([], Returned)) \<and>
   (\<not> lvl < min_level g \<longrightarrow> vsnprintf E 2048 fmt ap = Inr msg \<longrightarrow>
      snd (vemit P E g lvl has_errno errnum fmt ap) = Returned \<and>
      write_calls (fst (vemit P E g lvl has_errno errnum fmt ap)) =
        (if he then
           [Fprintf Stderr ''%s%s%s [%s] %s: %s (errno=%d)\<newline>''
              [S (level_color g lvl), S (fst (ts_now E g Buf_tbuf 40)), S (color_reset g),
               S (level_str lvl), S (pname_of g), S msg, I errnum],
            Fprintf Stderr ''%s        -> %s%s\<newline>''
              [S (level_color g lvl), S (fst (strerror_portable P E errnum Buf_ebuf 256)),
               S (color_reset g)]]
         else
           [Fprintf Stderr ''%s%s%s [%s] %s: %s\<newline>''
              [S (level_color g lvl), S (fst (ts_now E g Buf_tbuf 40)), S (color_reset g),
               S (level_str lvl), S (pname_of g), S msg]]) @
        (case file_fp g of
           None \<Rightarrow> []
         | Some f \<Rightarrow>
             [if he then
                Fprintf f ''%s [%s] %s: %s (errno=%d)\<newline>        -> %s\<newline>''
                  [S (fst (ts_now E g Buf_tbuf 40)), S (level_str lvl), S (pname_of g), S msg,
                   I errnum, S (fst (strerror_portable P E errnum Buf_ebuf 256))]
              else
                Fprintf f ''%s [%s] %s: %s\<newline>''
                  [S (fst (ts_now E g Buf_tbuf 40)), S (level_str lvl), S (pname_of g), S msg]]) @
        (if posix P \<and> use_syslog g then
           [if he then
              Syslog (syslog_level lvl) ''%s: %s (errno=%d) -> %s''
                [S (pname_of g), S msg, I errnum,
                 S (fst (strerror_portable P E errnum Buf_ebuf 256))]
            else Syslog (syslog_level lvl) ''%s: %s'' [S (pname_of g), S msg]]
         else []) @
        (if have_backtrace P \<and> DERR_FATAL \<le> lvl \<and> backtrace E 128 \<noteq> [] then
           [Fprintf Stderr ''%sBacktrace (%d frames):%s\<newline>''
              [S (level_color g lvl), I (int (length (backtrace E 128))), S (color_reset g)],
            Backtrace_symbols_fd (backtrace E 128) STDERR_FILENO,
            Fputc CHR ''\<newline>'' Stderr]
         else []) \<and>
      writes (fst (vemit P E g lvl has_errno errnum fmt ap)) =
        To_stream Stderr # (if he then [To_stream Stderr] else []) @
        (case file_fp g of Some f \<Rightarrow> [To_stream f] | None \<Rightarrow> []) @
        (if posix P \<and> use_syslog g then [To_syslog] else []) @
        (if have_backtrace P \<and> DERR_FATAL \<le> lvl \<and> backtrace E 128 \<noteq> []
         then [To_stream Stderr, To_stream Stderr, To_stream Stderr] else []) \<and>
      (\<forall>f. file_fp g = Some f \<longrightarrow>
         (\<exists>a ffmt fap b. fst (vemit P E g lvl has_errno errnum fmt ap) = a @ [Fprintf f ffmt fap, Fflush f] @ b \<and>
            writes a = To_stream Stderr # (if he then [To_stream Stderr] else []))))"
  unfolding he
proof (intro conjI impI allI)
  assume "lvl < min_level g"
  then show "vemit P E g lvl has_errno errnum fmt ap = ([], Returned)" by (rule vemit_filtered)
next
  assume a: "\<not> lvl < min_level g" "vsnprintf E 2048 fmt ap = Inr msg"
  show "snd (vemit P E g lvl has_errno errnum fmt ap) = Returned"
    by (simp add: vemit_emitted [OF a])
  show "write_calls (fst (vemit P E g lvl has_errno errnum fmt ap)) =
        (if (has_errno \<and> include_errno g) then
           [Fprintf Stderr ''%s%s%s [%s] %s: %s (errno=%d)\<newline>''
              [S (level_color g lvl), S (fst (ts_now E g Buf_tbuf 40)), S (color_reset g),
               S (level_str lvl), S (pname_of g), S msg, I errnum],
            Fprintf Stderr ''%s        -> %s%s\<newline>''
              [S (level_color g lvl), S (fst (strerror_portable P E errnum Buf_ebuf 256)),
               S (color_reset g)]]
         else
           [Fprintf Stderr ''%s%s%s [%s] %s: %s\<newline>''
              [S (level_color g lvl), S (fst (ts_now E g Buf_tbuf 40)), S (color_reset g),
               S (level_str lvl), S (pname_of g), S msg]]) @
        (case file_fp g of
           None \<Rightarrow> []
         | Some f \<Rightarrow>
             [if (has_errno \<and> include_errno g) then
                Fprintf f ''%s [%s] %s: %s (errno=%d)\<newline>        -> %s\<newline>''
                  [S (fst (ts_now E g Buf_tbuf 40)), S (level_str lvl), S (pname_of g), S msg,
                   I errnum, S (fst (strerror_portable P E errnum Buf_ebuf 256))]
              else
                Fprintf f ''%s [%s] %s: %s\<newline>''
                  [S (fst (ts_now E g Buf_tbuf 40)), S (level_str lvl), S (pname_of g), S msg]]) @
        (if posix P \<and> use_syslog g then
           [if (has_errno \<and> include_errno g) then
              Syslog (syslog_level lvl) ''%s: %s (errno=%d) -> %s''
                [S (pname_of g), S msg, I errnum,
                 S (fst (strerror_portable P E errnum Buf_ebuf 256))]
            else Syslog (syslog_level lvl) ''%s: %s'' [S (pname_of g), S msg]]
         else []) @
        (if have_backtrace P \<and> DERR_FATAL \<le> lvl \<and> backtrace E 128 \<noteq> [] then
           [Fprintf Stderr ''%sBacktrace (%d frames):%s\<newline>''
              [S (level_color g lvl), I (int (length (backtrace E 128))), S (color_reset g)],
            Backtrace_symbols_fd (backtrace E 128) STDERR_FILENO,
            Fputc CHR ''\<newline>'' Stderr]
         else [])"
    by (rule write_calls_vemit [OF a refl])
  show "writes (fst (vemit P E g lvl has_errno errnum fmt ap)) =
        To_stream Stderr # (if (has_errno \<and> include_errno g) then [To_stream Stderr] else []) @
        (case file_fp g of Some f \<Rightarrow> [To_stream f] | None \<Rightarrow> []) @
        (if posix P \<and> use_syslog g then [To_syslog] else []) @
        (if have_backtrace P \<and> DERR_FATAL \<le> lvl \<and> backtrace E 128 \<noteq> []
         then [To_stream Stderr, To_stream Stderr, To_stream Stderr] else [])"
    by (rule writes_vemit [OF a])
  fix f assume "file_fp g = Some f"
  then show "\<exists>a ffmt fap b. fst (vemit P E g lvl has_errno errnum fmt ap) =
              a @ [Fprintf f ffmt fap, Fflush f] @ b \<and>
            writes a =
              To_stream Stderr # (if (has_errno \<and> include_errno g) then [To_stream Stderr] else [])"
    by (rule file_write_flushed [OF a])
qed

text \<open>
  C1, as the code has it. A call of \<open>derr_log\<close> or \<open>derr_log_errno\<close> below the threshold
  makes no library call at all and returns. A call at or above the threshold, on a format
  and arguments for which \<open>vsnprintf\<close> is defined, returns, and its writing calls are
  exactly these, in this order: the \<open>fprintf\<close> of the primary line to \<open>stderr\<close>; a second
  \<open>fprintf\<close> to \<open>stderr\<close>, the errno-detail line, exactly when the call is
  \<open>derr_log_errno\<close> and errno details are on; one \<open>fprintf\<close> to the log file, followed at
  once by its flush, exactly when a file is configured; one \<open>syslog\<close> exactly when the
  system log is enabled; and, at FATAL or above where the capture is compiled in and
  returns frames, three more writes to \<open>stderr\<close> for the backtrace. \<open>he\<close> says whether the
  record carries the errno detail.
\<close>

theorem emission_fanout_order:
  assumes "r = derr_log P E g lvl fmt ap \<and> he = False \<or>
           r = derr_log_errno P E g lvl errnum fmt ap \<and> he = include_errno g"
  shows "(lvl < min_level g \<longrightarrow> r = ([], Returned)) \<and>
   (\<not> lvl < min_level g \<longrightarrow> vsnprintf E 2048 fmt ap = Inr msg \<longrightarrow>
      snd r = Returned \<and>
      write_calls (fst r) =
        (if he then
           [Fprintf Stderr ''%s%s%s [%s] %s: %s (errno=%d)\<newline>''
              [S (level_color g lvl), S (fst (ts_now E g Buf_tbuf 40)), S (color_reset g),
               S (level_str lvl), S (pname_of g), S msg, I errnum],
            Fprintf Stderr ''%s        -> %s%s\<newline>''
              [S (level_color g lvl), S (fst (strerror_portable P E errnum Buf_ebuf 256)),
               S (color_reset g)]]
         else
           [Fprintf Stderr ''%s%s%s [%s] %s: %s\<newline>''
              [S (level_color g lvl), S (fst (ts_now E g Buf_tbuf 40)), S (color_reset g),
               S (level_str lvl), S (pname_of g), S msg]]) @
        (case file_fp g of
           None \<Rightarrow> []
         | Some f \<Rightarrow>
             [if he then
                Fprintf f ''%s [%s] %s: %s (errno=%d)\<newline>        -> %s\<newline>''
                  [S (fst (ts_now E g Buf_tbuf 40)), S (level_str lvl), S (pname_of g), S msg,
                   I errnum, S (fst (strerror_portable P E errnum Buf_ebuf 256))]
              else
                Fprintf f ''%s [%s] %s: %s\<newline>''
                  [S (fst (ts_now E g Buf_tbuf 40)), S (level_str lvl), S (pname_of g), S msg]]) @
        (if posix P \<and> use_syslog g then
           [if he then
              Syslog (syslog_level lvl) ''%s: %s (errno=%d) -> %s''
                [S (pname_of g), S msg, I errnum,
                 S (fst (strerror_portable P E errnum Buf_ebuf 256))]
            else Syslog (syslog_level lvl) ''%s: %s'' [S (pname_of g), S msg]]
         else []) @
        (if have_backtrace P \<and> DERR_FATAL \<le> lvl \<and> backtrace E 128 \<noteq> [] then
           [Fprintf Stderr ''%sBacktrace (%d frames):%s\<newline>''
              [S (level_color g lvl), I (int (length (backtrace E 128))), S (color_reset g)],
            Backtrace_symbols_fd (backtrace E 128) STDERR_FILENO,
            Fputc CHR ''\<newline>'' Stderr]
         else []) \<and>
      writes (fst r) =
        To_stream Stderr # (if he then [To_stream Stderr] else []) @
        (case file_fp g of Some f \<Rightarrow> [To_stream f] | None \<Rightarrow> []) @
        (if posix P \<and> use_syslog g then [To_syslog] else []) @
        (if have_backtrace P \<and> DERR_FATAL \<le> lvl \<and> backtrace E 128 \<noteq> []
         then [To_stream Stderr, To_stream Stderr, To_stream Stderr] else []) \<and>
      (\<forall>f. file_fp g = Some f \<longrightarrow>
         (\<exists>a ffmt fap b. fst r = a @ [Fprintf f ffmt fap, Fflush f] @ b \<and>
            writes a = To_stream Stderr # (if he then [To_stream Stderr] else []))))"
  using assms
proof (elim disjE conjE)
  assume r: "r = derr_log P E g lvl fmt ap" and h: "he = False"
  have "False = (False \<and> include_errno g)" by simp
  from vemit_fanout [OF this, where lvl = lvl and P = P and E = E and errnum = 0
      and fmt = fmt and ap = ap and msg = msg]
  show ?thesis unfolding r h derr_log_def if_False .
next
  assume r: "r = derr_log_errno P E g lvl errnum fmt ap" and h: "he = include_errno g"
  have "include_errno g = (True \<and> include_errno g)" by simp
  from vemit_fanout [OF this, where lvl = lvl and P = P and E = E and errnum = errnum
      and fmt = fmt and ap = ap and msg = msg]
  show ?thesis unfolding r h derr_log_errno_def .
qed


lemma g_full_eq:
  "g_full = \<lparr> progname = None, min_level = 30, color = True, utc = False,
              include_errno = True, file_fp = Some (File 3), use_syslog = True \<rparr>"
  by (simp add: g_full_def g_derr_def derr_set_log_file_def derr_use_syslog_def
        derr_set_min_level_def linux_gcc_def level_defs)

lemma pads:
  "pad0 4 2025 = ''2025''" "pad0 2 1 = ''01''" "pad0 2 7 = ''07''" "pad0 2 9 = ''09''"
  "pad0 2 5 = ''05''" "pad0 2 3 = ''03''" "pad0 3 42 = ''042''"
  by (simp_all add: pad0_def dec_nat.simps digit_char_def Let_def)

lemma ts_now_env0_local: "\<not> utc g \<Longrightarrow> fst (ts_now env0 g buf 40) = ''2025-01-07T09:05:03.042''"
  by (simp add: ts_now_def env0_def tm0_def Let_def pads)

lemma ts_now_env0: "fst (ts_now env0 g_derr Buf_tbuf 40) = ''2025-01-07T09:05:03.042''"
  by (rule ts_now_env0_local) (simp add: g_derr_def)

lemma strerror_env0_2:
  "fst (strerror_portable linux_gcc env0 2 buf 256) = ''No such file or directory''"
  by (simp add: strerror_portable_def linux_gcc_def env0_def)

text \<open>C1 at a concrete input: a DEBUG record under threshold WARN; an ERROR record with an
  error code, a log file and the system log; and a record whose format libc expands.\<close>

theorem emission_fanout_order_witness:
  "derr_log linux_gcc env0 g_full DERR_DEBUG ''tick'' [] = ([], Returned) \<and>
   write_calls (fst (derr_log_errno linux_gcc env0 g_full DERR_ERROR 2 ''open %s'' [S ''/nope''])) =
     [Fprintf Stderr ''%s%s%s [%s] %s: %s (errno=%d)\<newline>''
        [S (CHR 0x1B # ''[31m''), S ''2025-01-07T09:05:03.042'', S (CHR 0x1B # ''[0m''),
         S ''ERROR'', S ''program'', S ''open /nope'', I 2],
      Fprintf Stderr ''%s        -> %s%s\<newline>''
        [S (CHR 0x1B # ''[31m''), S ''No such file or directory'', S (CHR 0x1B # ''[0m'')],
      Fprintf (File 3) ''%s [%s] %s: %s (errno=%d)\<newline>        -> %s\<newline>''
        [S ''2025-01-07T09:05:03.042'', S ''ERROR'', S ''program'', S ''open /nope'', I 2,
         S ''No such file or directory''],
      Syslog LOG_ERR ''%s: %s (errno=%d) -> %s''
        [S ''program'', S ''open /nope'', I 2, S ''No such file or directory'']] \<and>
   write_calls (fst (derr_log linux_gcc env0 g_derr DERR_INFO ''%x'' [I 255])) =
     [Fprintf Stderr ''%s%s%s [%s] %s: %s\<newline>''
        [S (CHR 0x1B # ''[0m''), S ''2025-01-07T09:05:03.042'', S (CHR 0x1B # ''[0m''),
         S ''INFO'', S ''program'', S ''ff'']]"
proof -
  have lo: "DERR_DEBUG < min_level g_full" by (simp add: g_full_eq level_defs)
  have hi: "\<not> DERR_ERROR < min_level g_full" by (simp add: g_full_eq level_defs)
  have l3: "\<not> DERR_INFO < min_level g_derr" by (simp add: g_derr_def level_defs)
  have m: "vsnprintf env0 2048 ''open %s'' [S ''/nope''] = Inr ''open /nope''"
    by (simp add: vsnprintf_def)
  have mx: "vsnprintf env0 2048 ''%x'' [I 255] = Inr ''ff''"
    by (simp add: vsnprintf_def env0_def)
  have e1: "derr_log linux_gcc env0 g_full DERR_DEBUG ''tick'' [] =
      derr_log linux_gcc env0 g_full DERR_DEBUG ''tick'' [] \<and> False = False \<or>
      derr_log linux_gcc env0 g_full DERR_DEBUG ''tick'' [] =
      derr_log_errno linux_gcc env0 g_full DERR_DEBUG 0 ''tick'' [] \<and> False = include_errno g_full"
    by simp
  have e2: "derr_log_errno linux_gcc env0 g_full DERR_ERROR 2 ''open %s'' [S ''/nope''] =
      derr_log linux_gcc env0 g_full DERR_ERROR ''open %s'' [S ''/nope''] \<and> True = False \<or>
      derr_log_errno linux_gcc env0 g_full DERR_ERROR 2 ''open %s'' [S ''/nope''] =
      derr_log_errno linux_gcc env0 g_full DERR_ERROR 2 ''open %s'' [S ''/nope''] \<and>
      True = include_errno g_full"
    by (simp add: g_full_eq)
  have e3: "derr_log linux_gcc env0 g_derr DERR_INFO ''%x'' [I 255] =
      derr_log linux_gcc env0 g_derr DERR_INFO ''%x'' [I 255] \<and> False = False \<or>
      derr_log linux_gcc env0 g_derr DERR_INFO ''%x'' [I 255] =
      derr_log_errno linux_gcc env0 g_derr DERR_INFO 0 ''%x'' [I 255] \<and> False = include_errno g_derr"
    by simp
  have facts:
    "level_color g_full DERR_ERROR = CHR 0x1B # ''[31m''" "color_reset g_full = CHR 0x1B # ''[0m''"
    "level_str DERR_ERROR = ''ERROR''" "pname_of g_full = ''program''"
    "file_fp g_full = Some (File 3)" "posix linux_gcc" "use_syslog g_full"
    "syslog_level DERR_ERROR = LOG_ERR" "\<not> DERR_FATAL \<le> DERR_ERROR"
    "fst (ts_now env0 g_full Buf_tbuf 40) = ''2025-01-07T09:05:03.042''"
    "level_color g_derr DERR_INFO = CHR 0x1B # ''[0m''" "color_reset g_derr = CHR 0x1B # ''[0m''"
    "level_str DERR_INFO = ''INFO''" "pname_of g_derr = ''program''"
    "file_fp g_derr = None" "\<not> use_syslog g_derr" "\<not> DERR_FATAL \<le> DERR_INFO"
    by (simp_all add: g_full_eq g_derr_def level_color_def color_reset_def level_str_def
          pname_of_def linux_gcc_def syslog_level_def level_defs ts_now_env0_local)
  have 1: "derr_log linux_gcc env0 g_full DERR_DEBUG ''tick'' [] = ([], Returned)"
    using emission_fanout_order [OF e1, THEN conjunct1] lo by blast
  have 2: "write_calls (fst (derr_log_errno linux_gcc env0 g_full DERR_ERROR 2 ''open %s'' [S ''/nope''])) =
     [Fprintf Stderr ''%s%s%s [%s] %s: %s (errno=%d)\<newline>''
        [S (CHR 0x1B # ''[31m''), S ''2025-01-07T09:05:03.042'', S (CHR 0x1B # ''[0m''),
         S ''ERROR'', S ''program'', S ''open /nope'', I 2],
      Fprintf Stderr ''%s        -> %s%s\<newline>''
        [S (CHR 0x1B # ''[31m''), S ''No such file or directory'', S (CHR 0x1B # ''[0m'')],
      Fprintf (File 3) ''%s [%s] %s: %s (errno=%d)\<newline>        -> %s\<newline>''
        [S ''2025-01-07T09:05:03.042'', S ''ERROR'', S ''program'', S ''open /nope'', I 2,
         S ''No such file or directory''],
      Syslog LOG_ERR ''%s: %s (errno=%d) -> %s''
        [S ''program'', S ''open /nope'', I 2, S ''No such file or directory'']]"
    using emission_fanout_order [OF e2, THEN conjunct2, rule_format, OF hi m, THEN conjunct2,
        THEN conjunct1]
    by (simp add: facts strerror_env0_2 ts_now_env0)
  have 3: "write_calls (fst (derr_log linux_gcc env0 g_derr DERR_INFO ''%x'' [I 255])) =
     [Fprintf Stderr ''%s%s%s [%s] %s: %s\<newline>''
        [S (CHR 0x1B # ''[0m''), S ''2025-01-07T09:05:03.042'', S (CHR 0x1B # ''[0m''),
         S ''INFO'', S ''program'', S ''ff'']]"
    using emission_fanout_order [OF e3, THEN conjunct2, rule_format, OF l3 mx, THEN conjunct2,
        THEN conjunct1]
    by (simp add: facts ts_now_env0)
  from 1 2 3 show ?thesis by blast
qed

text \<open>
  C1 as the specification words it asks for exactly one console write, and for the
  system-log write to come last. A record with an error code writes \<open>stderr\<close> twice, and
  a FATAL record writes \<open>stderr\<close> again after the system log.
\<close>

theorem emission_single_console_write_counterexample:
  "\<not> DERR_ERROR < min_level g_derr \<and>
   count_list (writes (fst (derr_log_errno linux_gcc env0 g_derr DERR_ERROR 2 ''open'' [])))
     (To_stream Stderr) = 2 \<and>
   \<not> DERR_FATAL < min_level g_full \<and>
   writes (fst (derr_log linux_gcc env0 g_full DERR_FATAL ''boom'' [])) =
     [To_stream Stderr, To_stream (File 3), To_syslog,
      To_stream Stderr, To_stream Stderr, To_stream Stderr]"
proof -
  have m1: "vsnprintf env0 2048 ''open'' [] = Inr ''open''" by (simp add: vsnprintf_def)
  have m2: "vsnprintf env0 2048 ''boom'' [] = Inr ''boom''" by (simp add: vsnprintf_def)
  have l1: "\<not> DERR_ERROR < min_level g_derr" by (simp add: g_derr_def level_defs)
  have l2: "\<not> DERR_FATAL < min_level g_full" by (simp add: g_full_eq level_defs)
  have bt: "backtrace env0 128 = [17, 42]" by (simp add: backtrace_def env0_def)
  show ?thesis
    using l1 l2 writes_vemit [OF l1 m1, where P = linux_gcc and has_errno = True and errnum = 2]
      writes_vemit [OF l2 m2, where P = linux_gcc and has_errno = False and errnum = 0] bt
    by (simp add: derr_log_def derr_log_errno_def g_full_eq g_derr_def linux_gcc_def
          have_backtrace_def level_defs)
qed

subsection \<open>The errno detail\<close>

lemma detail_formats:
  "contains ''-> %s'' ''%s%s%s [%s] %s: %s (errno=%d)\<newline>'' = False"
  "contains ''-> %s'' ''%s%s%s [%s] %s: %s\<newline>'' = False"
  "contains ''-> %s'' ''%s        -> %s%s\<newline>'' = True"
  "contains ''-> %s'' ''%s [%s] %s: %s (errno=%d)\<newline>        -> %s\<newline>'' = True"
  "contains ''-> %s'' ''%s [%s] %s: %s\<newline>'' = False"
  "contains ''-> %s'' ''%s: %s (errno=%d) -> %s'' = True"
  "contains ''-> %s'' ''%s: %s'' = False"
  "contains ''-> %s'' ''%sBacktrace (%d frames):%s\<newline>'' = False"
  by simp_all

lemma detail_emit_stderr:
  "(\<exists>e\<in>set (emit_stderr he lvl errnum tbuf msg ebuf pname c r). errno_detail e) = he"
  "(\<exists>e\<in>set (emit_stderr he lvl errnum tbuf msg ebuf pname c r).
      write_target e = Some (To_stream Stderr) \<and> errno_detail e) = he"
  by (simp_all add: emit_stderr_def detail_formats)

lemma detail_emit_file:
  "(\<exists>e\<in>set (emit_file g he lvl errnum tbuf msg ebuf pname). errno_detail e) =
     (he \<and> file_fp g \<noteq> None)"
  "file_fp g = Some f \<Longrightarrow>
   (\<exists>e\<in>set (emit_file g he lvl errnum tbuf msg ebuf pname).
      write_target e = Some (To_stream f) \<and> errno_detail e) = he"
  by (cases "file_fp g"; cases he; simp add: emit_file_def detail_formats)+

lemma detail_emit_syslog:
  "(\<exists>e\<in>set (emit_syslog P g he lvl errnum msg ebuf pname). errno_detail e) =
     (he \<and> posix P \<and> use_syslog g)"
  "(\<exists>e\<in>set (emit_syslog P g he lvl errnum msg ebuf pname).
      write_target e = Some To_syslog \<and> errno_detail e) = (he \<and> posix P \<and> use_syslog g)"
  by (simp_all add: emit_syslog_def detail_formats)

lemma detail_other [simp]:
  "\<forall>e\<in>set (snd (ts_now E g buf n)). \<not> errno_detail e"
  "\<forall>e\<in>set (snd (strerror_portable P E errnum buf n)). \<not> errno_detail e"
  "\<forall>e\<in>set (lock P). \<not> errno_detail e"
  "\<forall>e\<in>set (unlock P). \<not> errno_detail e"
  "\<forall>e\<in>set (emit_backtrace P E lvl c r). \<not> errno_detail e"
  by (auto simp add: ts_now_def Let_def strerror_portable_def lock_def unlock_def
        emit_backtrace_def detail_formats split: gnu_result.splits prod.splits)


lemma strerror_other [simp]:
  "\<forall>e\<in>set (snd (ts_now E g buf n)). \<not> is_strerror e"
  "\<forall>e\<in>set (lock P). \<not> is_strerror e"
  "\<forall>e\<in>set (unlock P). \<not> is_strerror e"
  "\<forall>e\<in>set (emit_stderr he lvl errnum tbuf msg ebuf pname c r). \<not> is_strerror e"
  "\<forall>e\<in>set (emit_file g he lvl errnum tbuf msg ebuf pname). \<not> is_strerror e"
  "\<forall>e\<in>set (emit_syslog P g he lvl errnum msg ebuf pname). \<not> is_strerror e"
  "\<forall>e\<in>set (emit_backtrace P E lvl c r). \<not> is_strerror e"
  by (auto simp add: ts_now_def Let_def lock_def unlock_def emit_stderr_def emit_file_def
        emit_syslog_def emit_backtrace_def split: option.splits if_splits)

lemma strerror_called: "\<exists>e\<in>set (snd (strerror_portable P E errnum buf n)). is_strerror e"
  by (simp add: strerror_portable_def split: gnu_result.splits prod.splits)

lemma vemit_strerror_iff:
  assumes "\<not> lvl < min_level g" and "vsnprintf E 2048 fmt ap = Inr msg"
  shows "(\<exists>e\<in>set (fst (vemit P E g lvl has_errno errnum fmt ap)). is_strerror e) =
           (has_errno \<and> include_errno g)"
  unfolding vemit_emitted [OF assms]
  using strerror_called [of P E errnum Buf_ebuf 256] by (auto simp: bex_Un)

lemma quiet_calls:
  "\<forall>e\<in>set (snd (ts_now E g buf n)). \<not> errno_detail e \<and> \<not> is_strerror e"
  "\<forall>e\<in>set (lock P). \<not> errno_detail e \<and> \<not> is_strerror e"
  "\<forall>e\<in>set (unlock P). \<not> errno_detail e \<and> \<not> is_strerror e"
  "\<forall>e\<in>set (emit_backtrace P E lvl c r). \<not> errno_detail e \<and> \<not> is_strerror e"
  "\<forall>e\<in>set (emit_stderr False lvl errnum tbuf msg ebuf pname c r).
      \<not> errno_detail e \<and> \<not> is_strerror e"
  "\<forall>e\<in>set (emit_file g False lvl errnum tbuf msg ebuf pname).
      \<not> errno_detail e \<and> \<not> is_strerror e"
  "\<forall>e\<in>set (emit_syslog P g False lvl errnum msg ebuf pname).
      \<not> errno_detail e \<and> \<not> is_strerror e"
  by (cases "file_fp g";
      simp add: ts_now_def Let_def lock_def unlock_def emit_stderr_def emit_file_def
        emit_syslog_def emit_backtrace_def detail_formats)+

lemma vemit_no_detail:
  assumes "\<not> (has_errno \<and> include_errno g)"
  shows "\<forall>e\<in>set (fst (vemit P E g lvl has_errno errnum fmt ap)).
           \<not> errno_detail e \<and> \<not> is_strerror e"
proof (cases "lvl < min_level g")
  case True
  then show ?thesis by (simp add: vemit_filtered)
next
  case False
  show ?thesis
  proof (cases "vsnprintf E 2048 fmt ap")
    case (Inl err)
    show ?thesis
      unfolding vemit_stuck [OF False Inl] using quiet_calls(1) [of E g Buf_tbuf 40]
      by (simp add: ball_Un)
  next
    case (Inr msg)
    have he: "(has_errno \<and> include_errno g) = False" using assms by simp
    show ?thesis
      unfolding vemit_emitted [OF False Inr] he
      using quiet_calls(1) [of E g Buf_tbuf 40] quiet_calls(2) [of P] quiet_calls(3) [of P]
        quiet_calls(4) [of P E lvl "level_color g lvl" "color_reset g"]
        quiet_calls(5) [of lvl errnum "fst (ts_now E g Buf_tbuf 40)" msg "[]" "pname_of g"
          "level_color g lvl" "color_reset g"]
        quiet_calls(6) [of g lvl errnum "fst (ts_now E g Buf_tbuf 40)" msg "[]" "pname_of g"]
        quiet_calls(7) [of P g lvl errnum msg "[]" "pname_of g"]
      by (simp add: ball_Un)
  qed
qed

lemma vemit_detail_if:
  assumes "\<not> lvl < min_level g" and "vsnprintf E 2048 fmt ap = Inr msg"
    and "has_errno \<and> include_errno g"
    and "t \<in> set (writes (fst (vemit P E g lvl has_errno errnum fmt ap)))"
  shows "\<exists>e\<in>set (fst (vemit P E g lvl has_errno errnum fmt ap)).
           write_target e = Some t \<and> errno_detail e"
proof -
  from assms(4) have "t = To_stream Stderr \<or> file_fp g = Some (case t of To_stream f \<Rightarrow> f | _ \<Rightarrow> Stderr) \<and> t \<noteq> To_syslog \<or>
     t = To_syslog \<and> posix P \<and> use_syslog g"
    unfolding writes_vemit [OF assms(1,2)] by (auto split: option.splits if_splits)
  then consider (c) "t = To_stream Stderr" | (f) f where "t = To_stream f" "file_fp g = Some f"
    | (s) "t = To_syslog" "posix P" "use_syslog g"
    by (cases t) auto
  then show ?thesis
  proof cases
    case c
    then show ?thesis
      unfolding vemit_emitted [OF assms(1,2)] using detail_emit_stderr(2) assms(3)
      by (simp add: bex_Un)
  next
    case f
    then show ?thesis
      unfolding vemit_emitted [OF assms(1,2)] using detail_emit_file(2) assms(3)
      by (simp add: bex_Un)
  next
    case s
    then show ?thesis
      unfolding vemit_emitted [OF assms(1,2)] using detail_emit_syslog(2) assms(3)
      by (simp add: bex_Un)
  qed
qed


lemma detail_text_parts:
  "\<forall>e\<in>set (emit_stderr True lvl errnum tbuf msg ebuf pname c r).
      errno_detail e \<longrightarrow> S ebuf \<in> set (call_args e)"
  "\<forall>e\<in>set (emit_file g True lvl errnum tbuf msg ebuf pname).
      errno_detail e \<longrightarrow> S ebuf \<in> set (call_args e)"
  "\<forall>e\<in>set (emit_syslog P g True lvl errnum msg ebuf pname).
      errno_detail e \<longrightarrow> S ebuf \<in> set (call_args e)"
  by (cases "file_fp g"; simp add: emit_stderr_def emit_file_def emit_syslog_def detail_formats)+

lemma vemit_detail_text:
  "\<forall>e\<in>set (fst (vemit P E g lvl has_errno errnum fmt ap)).
     errno_detail e \<longrightarrow> S (fst (strerror_portable P E errnum Buf_ebuf 256)) \<in> set (call_args e)"
proof (cases "has_errno \<and> include_errno g")
  case False
  then show ?thesis using vemit_no_detail [of has_errno g P E lvl errnum fmt ap] by blast
next
  case he: True
  show ?thesis
  proof (cases "lvl < min_level g")
    case True
    then show ?thesis by (simp add: vemit_filtered)
  next
    case False
    show ?thesis
    proof (cases "vsnprintf E 2048 fmt ap")
      case (Inl err)
      show ?thesis
        unfolding vemit_stuck [OF False Inl] using quiet_calls(1) [of E g Buf_tbuf 40]
        by (simp add: ball_Un)
    next
      case (Inr msg)
      have h: "(has_errno \<and> include_errno g) = True" using he by simp
      let ?eb = "fst (strerror_portable P E errnum Buf_ebuf 256)"
      show ?thesis
        unfolding vemit_emitted [OF False Inr] h
        using quiet_calls(1) [of E g Buf_tbuf 40] quiet_calls(2) [of P] quiet_calls(3) [of P]
          quiet_calls(4) [of P E lvl "level_color g lvl" "color_reset g"]
          detail_other(2) [of P E errnum Buf_ebuf 256]
          detail_text_parts(1) [of lvl errnum "fst (ts_now E g Buf_tbuf 40)" msg ?eb "pname_of g"
            "level_color g lvl" "color_reset g"]
          detail_text_parts(2) [of g lvl errnum "fst (ts_now E g Buf_tbuf 40)" msg ?eb "pname_of g"]
          detail_text_parts(3) [of P g lvl errnum msg ?eb "pname_of g"]
        by (simp add: ball_Un)
    qed
  qed
qed

lemma write_calls_plain:
  assumes "\<not> lvl < min_level g" and "vsnprintf E 2048 fmt ap = Inr msg"
  shows "write_calls (fst (vemit P E g lvl False errnum fmt ap)) =
        [Fprintf Stderr ''%s%s%s [%s] %s: %s\<newline>''
           [S (level_color g lvl), S (fst (ts_now E g Buf_tbuf 40)), S (color_reset g),
            S (level_str lvl), S (pname_of g), S msg]] @
        (case file_fp g of
           None \<Rightarrow> []
         | Some f \<Rightarrow>
             [Fprintf f ''%s [%s] %s: %s\<newline>''
                [S (fst (ts_now E g Buf_tbuf 40)), S (level_str lvl), S (pname_of g), S msg]]) @
        (if posix P \<and> use_syslog g then
           [Syslog (syslog_level lvl) ''%s: %s'' [S (pname_of g), S msg]]
         else []) @
        (if have_backtrace P \<and> DERR_FATAL \<le> lvl \<and> backtrace E 128 \<noteq> [] then
           [Fprintf Stderr ''%sBacktrace (%d frames):%s\<newline>''
              [S (level_color g lvl), I (int (length (backtrace E 128))), S (color_reset g)],
            Backtrace_symbols_fd (backtrace E 128) STDERR_FILENO,
            Fputc CHR ''\<newline>'' Stderr]
         else [])"
proof -
  have "False = (False \<and> include_errno g)" by simp
  from write_calls_vemit [OF assms this, where P = P and errnum = errnum]
  show ?thesis unfolding if_False .
qed

lemma vemit_detail_sinks:
  assumes "\<not> lvl < min_level g" and "vsnprintf E 2048 fmt ap = Inr msg"
  shows "(\<exists>e\<in>set (fst (vemit P E g lvl has_errno errnum fmt ap)).
            write_target e = Some (To_stream Stderr) \<and> errno_detail e) =
         (has_errno \<and> include_errno g)"
    and "file_fp g = Some f \<Longrightarrow>
         (\<exists>e\<in>set (fst (vemit P E g lvl has_errno errnum fmt ap)).
            write_target e = Some (To_stream f) \<and> errno_detail e) =
         (has_errno \<and> include_errno g)"
    and "posix P \<Longrightarrow> use_syslog g \<Longrightarrow>
         (\<exists>e\<in>set (fst (vemit P E g lvl has_errno errnum fmt ap)).
            write_target e = Some To_syslog \<and> errno_detail e) =
         (has_errno \<and> include_errno g)"
proof -
  note w = writes_vemit [OF assms, where P = P and has_errno = has_errno and errnum = errnum]
  have none: "\<not> (has_errno \<and> include_errno g) \<Longrightarrow>
      \<not> (\<exists>e\<in>set (fst (vemit P E g lvl has_errno errnum fmt ap)). write_target e = Some t \<and> errno_detail e)"
    for t
    using vemit_no_detail [where has_errno = has_errno and g = g and P = P and E = E and lvl = lvl
        and errnum = errnum and fmt = fmt and ap = ap] by blast
  have some: "has_errno \<and> include_errno g \<Longrightarrow>
      t \<in> set (writes (fst (vemit P E g lvl has_errno errnum fmt ap))) \<Longrightarrow>
      \<exists>e\<in>set (fst (vemit P E g lvl has_errno errnum fmt ap)). write_target e = Some t \<and> errno_detail e"
    for t
    by (rule vemit_detail_if [OF assms])
  have in1: "To_stream Stderr \<in> set (writes (fst (vemit P E g lvl has_errno errnum fmt ap)))"
    unfolding w by simp
  show "(\<exists>e\<in>set (fst (vemit P E g lvl has_errno errnum fmt ap)).
            write_target e = Some (To_stream Stderr) \<and> errno_detail e) =
         (has_errno \<and> include_errno g)"
    using none [of "To_stream Stderr"] some [OF _ in1] by blast
  show "(\<exists>e\<in>set (fst (vemit P E g lvl has_errno errnum fmt ap)).
            write_target e = Some (To_stream f) \<and> errno_detail e) =
         (has_errno \<and> include_errno g)" if f: "file_fp g = Some f"
  proof -
    have "To_stream f \<in> set (writes (fst (vemit P E g lvl has_errno errnum fmt ap)))"
      unfolding w using f by simp
    then show ?thesis using none [of "To_stream f"] some [of "To_stream f"] by blast
  qed
  show "(\<exists>e\<in>set (fst (vemit P E g lvl has_errno errnum fmt ap)).
            write_target e = Some To_syslog \<and> errno_detail e) =
         (has_errno \<and> include_errno g)" if "posix P" "use_syslog g"
  proof -
    have "To_syslog \<in> set (writes (fst (vemit P E g lvl has_errno errnum fmt ap)))"
      unfolding w using that by simp
    then show ?thesis using none [of To_syslog] some [of To_syslog] by blast
  qed
qed

text \<open>
  C2. Take a call that passes the filter, on a format and arguments for which \<open>vsnprintf\<close>
  is defined. Through \<open>derr_log_errno\<close> its writing calls are exactly the ones listed:
  with \<open>include_errno\<close> on, the primary line with the error number and the detail line on
  \<open>stderr\<close>, the two-line record in the log file if one is set, the message with number
  and text in the system log if it is enabled, each with the text \<open>strerror_portable\<close> left
  in the buffer; with \<open>include_errno\<close> off, the plain forms. So on \<open>stderr\<close>, in a
  configured file and in an enabled system log alike, a call carrying the errno detail is
  present if and only if \<open>include_errno\<close> is on, and \<open>strerror_r\<close> is called if and only if
  it is on. Through \<open>derr_log\<close> the writing calls are the plain forms. Whether filtered or
  not, no call of a \<open>derr_log_errno\<close> run carries the detail or translates the code when
  the flag is off, and none of a \<open>derr_log\<close> run ever does.
\<close>

theorem errno_detail_iff:
  "(\<not> lvl < min_level g \<longrightarrow> vsnprintf E 2048 fmt ap = Inr msg \<longrightarrow>
      write_calls (fst (derr_log_errno P E g lvl errnum fmt ap)) =
        (if include_errno g then
           [Fprintf Stderr ''%s%s%s [%s] %s: %s (errno=%d)\<newline>''
              [S (level_color g lvl), S (fst (ts_now E g Buf_tbuf 40)), S (color_reset g),
               S (level_str lvl), S (pname_of g), S msg, I errnum],
            Fprintf Stderr ''%s        -> %s%s\<newline>''
              [S (level_color g lvl), S (fst (strerror_portable P E errnum Buf_ebuf 256)),
               S (color_reset g)]]
         else
           [Fprintf Stderr ''%s%s%s [%s] %s: %s\<newline>''
              [S (level_color g lvl), S (fst (ts_now E g Buf_tbuf 40)), S (color_reset g),
               S (level_str lvl), S (pname_of g), S msg]]) @
        (case file_fp g of
           None \<Rightarrow> []
         | Some f \<Rightarrow>
             [if include_errno g then
                Fprintf f ''%s [%s] %s: %s (errno=%d)\<newline>        -> %s\<newline>''
                  [S (fst (ts_now E g Buf_tbuf 40)), S (level_str lvl), S (pname_of g), S msg,
                   I errnum, S (fst (strerror_portable P E errnum Buf_ebuf 256))]
              else
                Fprintf f ''%s [%s] %s: %s\<newline>''
                  [S (fst (ts_now E g Buf_tbuf 40)), S (level_str lvl), S (pname_of g), S msg]]) @
        (if posix P \<and> use_syslog g then
           [if include_errno g then
              Syslog (syslog_level lvl) ''%s: %s (errno=%d) -> %s''
                [S (pname_of g), S msg, I errnum,
                 S (fst (strerror_portable P E errnum Buf_ebuf 256))]
            else Syslog (syslog_level lvl) ''%s: %s'' [S (pname_of g), S msg]]
         else []) @
        (if have_backtrace P \<and> DERR_FATAL \<le> lvl \<and> backtrace E 128 \<noteq> [] then
           [Fprintf Stderr ''%sBacktrace (%d frames):%s\<newline>''
              [S (level_color g lvl), I (int (length (backtrace E 128))), S (color_reset g)],
            Backtrace_symbols_fd (backtrace E 128) STDERR_FILENO,
            Fputc CHR ''\<newline>'' Stderr]
         else []) \<and>
      write_calls (fst (derr_log P E g lvl fmt ap)) =
        [Fprintf Stderr ''%s%s%s [%s] %s: %s\<newline>''
           [S (level_color g lvl), S (fst (ts_now E g Buf_tbuf 40)), S (color_reset g),
            S (level_str lvl), S (pname_of g), S msg]] @
        (case file_fp g of
           None \<Rightarrow> []
         | Some f \<Rightarrow>
             [Fprintf f ''%s [%s] %s: %s\<newline>''
                [S (fst (ts_now E g Buf_tbuf 40)), S (level_str lvl), S (pname_of g), S msg]]) @
        (if posix P \<and> use_syslog g then
           [Syslog (syslog_level lvl) ''%s: %s'' [S (pname_of g), S msg]]
         else []) @
        (if have_backtrace P \<and> DERR_FATAL \<le> lvl \<and> backtrace E 128 \<noteq> [] then
           [Fprintf Stderr ''%sBacktrace (%d frames):%s\<newline>''
              [S (level_color g lvl), I (int (length (backtrace E 128))), S (color_reset g)],
            Backtrace_symbols_fd (backtrace E 128) STDERR_FILENO,
            Fputc CHR ''\<newline>'' Stderr]
         else []) \<and>
      (\<exists>e\<in>set (fst (derr_log_errno P E g lvl errnum fmt ap)).
         write_target e = Some (To_stream Stderr) \<and> errno_detail e) = include_errno g \<and>
      (\<forall>f. file_fp g = Some f \<longrightarrow>
         (\<exists>e\<in>set (fst (derr_log_errno P E g lvl errnum fmt ap)).
            write_target e = Some (To_stream f) \<and> errno_detail e) = include_errno g) \<and>
      (posix P \<longrightarrow> use_syslog g \<longrightarrow>
         (\<exists>e\<in>set (fst (derr_log_errno P E g lvl errnum fmt ap)).
            write_target e = Some To_syslog \<and> errno_detail e) = include_errno g) \<and>
      (\<forall>t\<in>set (writes (fst (derr_log_errno P E g lvl errnum fmt ap))).
         (\<exists>e\<in>set (fst (derr_log_errno P E g lvl errnum fmt ap)).
            write_target e = Some t \<and> errno_detail e) = include_errno g) \<and>
      (\<exists>e\<in>set (fst (derr_log_errno P E g lvl errnum fmt ap)). is_strerror e) = include_errno g) \<and>
   (\<forall>e\<in>set (fst (derr_log_errno P E g lvl errnum fmt ap)).
      (errno_detail e \<or> is_strerror e \<longrightarrow> include_errno g) \<and>
      (errno_detail e \<longrightarrow>
         S (fst (strerror_portable P E errnum Buf_ebuf 256)) \<in> set (call_args e))) \<and>
   (\<forall>e\<in>set (fst (derr_log P E g lvl fmt ap)). \<not> errno_detail e \<and> \<not> is_strerror e)"
proof (intro conjI impI ballI allI)
  fix e assume "e \<in> set (fst (derr_log P E g lvl fmt ap))"
  then show "\<not> errno_detail e" "\<not> is_strerror e"
    using vemit_no_detail [where has_errno = False and g = g and P = P and E = E and lvl = lvl
        and errnum = 0 and fmt = fmt and ap = ap]
    by (simp_all add: derr_log_def)
next
  fix e assume e: "e \<in> set (fst (derr_log_errno P E g lvl errnum fmt ap))"
  show "include_errno g" if "errno_detail e \<or> is_strerror e"
    using that e vemit_no_detail [where has_errno = True and g = g and P = P and E = E
        and lvl = lvl and errnum = errnum and fmt = fmt and ap = ap]
    by (auto simp add: derr_log_errno_def)
  show "S (fst (strerror_portable P E errnum Buf_ebuf 256)) \<in> set (call_args e)" if "errno_detail e"
    using that e vemit_detail_text [where has_errno = True and g = g and P = P and E = E
        and lvl = lvl and errnum = errnum and fmt = fmt and ap = ap]
    by (simp add: derr_log_errno_def)
next
  assume a: "\<not> lvl < min_level g" "vsnprintf E 2048 fmt ap = Inr msg"
  have he: "include_errno g = (True \<and> include_errno g)" by simp
  show "write_calls (fst (derr_log_errno P E g lvl errnum fmt ap)) =
        (if include_errno g then
           [Fprintf Stderr ''%s%s%s [%s] %s: %s (errno=%d)\<newline>''
              [S (level_color g lvl), S (fst (ts_now E g Buf_tbuf 40)), S (color_reset g),
               S (level_str lvl), S (pname_of g), S msg, I errnum],
            Fprintf Stderr ''%s        -> %s%s\<newline>''
              [S (level_color g lvl), S (fst (strerror_portable P E errnum Buf_ebuf 256)),
               S (color_reset g)]]
         else
           [Fprintf Stderr ''%s%s%s [%s] %s: %s\<newline>''
              [S (level_color g lvl), S (fst (ts_now E g Buf_tbuf 40)), S (color_reset g),
               S (level_str lvl), S (pname_of g), S msg]]) @
        (case file_fp g of
           None \<Rightarrow> []
         | Some f \<Rightarrow>
             [if include_errno g then
                Fprintf f ''%s [%s] %s: %s (errno=%d)\<newline>        -> %s\<newline>''
                  [S (fst (ts_now E g Buf_tbuf 40)), S (level_str lvl), S (pname_of g), S msg,
                   I errnum, S (fst (strerror_portable P E errnum Buf_ebuf 256))]
              else
                Fprintf f ''%s [%s] %s: %s\<newline>''
                  [S (fst (ts_now E g Buf_tbuf 40)), S (level_str lvl), S (pname_of g), S msg]]) @
        (if posix P \<and> use_syslog g then
           [if include_errno g then
              Syslog (syslog_level lvl) ''%s: %s (errno=%d) -> %s''
                [S (pname_of g), S msg, I errnum,
                 S (fst (strerror_portable P E errnum Buf_ebuf 256))]
            else Syslog (syslog_level lvl) ''%s: %s'' [S (pname_of g), S msg]]
         else []) @
        (if have_backtrace P \<and> DERR_FATAL \<le> lvl \<and> backtrace E 128 \<noteq> [] then
           [Fprintf Stderr ''%sBacktrace (%d frames):%s\<newline>''
              [S (level_color g lvl), I (int (length (backtrace E 128))), S (color_reset g)],
            Backtrace_symbols_fd (backtrace E 128) STDERR_FILENO,
            Fputc CHR ''\<newline>'' Stderr]
         else [])"
    unfolding derr_log_errno_def by (rule write_calls_vemit [OF a he])
  show "write_calls (fst (derr_log P E g lvl fmt ap)) =
        [Fprintf Stderr ''%s%s%s [%s] %s: %s\<newline>''
           [S (level_color g lvl), S (fst (ts_now E g Buf_tbuf 40)), S (color_reset g),
            S (level_str lvl), S (pname_of g), S msg]] @
        (case file_fp g of
           None \<Rightarrow> []
         | Some f \<Rightarrow>
             [Fprintf f ''%s [%s] %s: %s\<newline>''
                [S (fst (ts_now E g Buf_tbuf 40)), S (level_str lvl), S (pname_of g), S msg]]) @
        (if posix P \<and> use_syslog g then
           [Syslog (syslog_level lvl) ''%s: %s'' [S (pname_of g), S msg]]
         else []) @
        (if have_backtrace P \<and> DERR_FATAL \<le> lvl \<and> backtrace E 128 \<noteq> [] then
           [Fprintf Stderr ''%sBacktrace (%d frames):%s\<newline>''
              [S (level_color g lvl), I (int (length (backtrace E 128))), S (color_reset g)],
            Backtrace_symbols_fd (backtrace E 128) STDERR_FILENO,
            Fputc CHR ''\<newline>'' Stderr]
         else [])"
    unfolding derr_log_def by (rule write_calls_plain [OF a])
  note sinks = vemit_detail_sinks [OF a, where P = P and has_errno = True and errnum = errnum]
  show "(\<exists>e\<in>set (fst (derr_log_errno P E g lvl errnum fmt ap)).
         write_target e = Some (To_stream Stderr) \<and> errno_detail e) = include_errno g"
    using sinks(1) by (simp add: derr_log_errno_def)
  show "(\<exists>e\<in>set (fst (derr_log_errno P E g lvl errnum fmt ap)).
            write_target e = Some (To_stream f) \<and> errno_detail e) = include_errno g"
    if "file_fp g = Some f" for f
    using sinks(2) [OF that] by (simp add: derr_log_errno_def)
  show "(\<exists>e\<in>set (fst (derr_log_errno P E g lvl errnum fmt ap)).
            write_target e = Some To_syslog \<and> errno_detail e) = include_errno g"
    if "posix P" "use_syslog g"
    using sinks(3) [OF that] by (simp add: derr_log_errno_def)
  show "(\<exists>e\<in>set (fst (derr_log_errno P E g lvl errnum fmt ap)). is_strerror e) = include_errno g"
    using vemit_strerror_iff [OF a, where P = P and has_errno = True and errnum = errnum]
    by (simp add: derr_log_errno_def)
  fix t assume t: "t \<in> set (writes (fst (derr_log_errno P E g lvl errnum fmt ap)))"
  show "(\<exists>e\<in>set (fst (derr_log_errno P E g lvl errnum fmt ap)).
            write_target e = Some t \<and> errno_detail e) = include_errno g"
  proof (cases "include_errno g")
    case True
    then show ?thesis
      using vemit_detail_if [OF a, where has_errno = True and P = P and errnum = errnum and t = t] t
      by (simp add: derr_log_errno_def)
  next
    case False
    then show ?thesis
      using vemit_no_detail [where has_errno = True and g = g and P = P and E = E and lvl = lvl
          and errnum = errnum and fmt = fmt and ap = ap]
      by (auto simp add: derr_log_errno_def)
  qed
qed

lemma g_full_off_eq:
  "derr_set_include_errno_details 0 g_full =
     \<lparr> progname = None, min_level = 30, color = True, utc = False,
       include_errno = False, file_fp = Some (File 3), use_syslog = True \<rparr>"
  by (simp add: derr_set_include_errno_details_def g_full_eq)

text \<open>C2 at a concrete input: an ERROR record with error code 2, a log file and the
  system log: with the flag on, with the flag off, and through \<open>derr_log\<close>.\<close>

theorem errno_detail_iff_witness:
  "write_calls (fst (derr_log_errno linux_gcc env0 g_full DERR_ERROR 2 ''open'' [])) =
     [Fprintf Stderr ''%s%s%s [%s] %s: %s (errno=%d)\<newline>''
        [S (CHR 0x1B # ''[31m''), S ''2025-01-07T09:05:03.042'', S (CHR 0x1B # ''[0m''),
         S ''ERROR'', S ''program'', S ''open'', I 2],
      Fprintf Stderr ''%s        -> %s%s\<newline>''
        [S (CHR 0x1B # ''[31m''), S ''No such file or directory'', S (CHR 0x1B # ''[0m'')],
      Fprintf (File 3) ''%s [%s] %s: %s (errno=%d)\<newline>        -> %s\<newline>''
        [S ''2025-01-07T09:05:03.042'', S ''ERROR'', S ''program'', S ''open'', I 2,
         S ''No such file or directory''],
      Syslog LOG_ERR ''%s: %s (errno=%d) -> %s''
        [S ''program'', S ''open'', I 2, S ''No such file or directory'']] \<and>
   write_calls (fst (derr_log_errno linux_gcc env0 (derr_set_include_errno_details 0 g_full)
       DERR_ERROR 2 ''open'' [])) =
     [Fprintf Stderr ''%s%s%s [%s] %s: %s\<newline>''
        [S (CHR 0x1B # ''[31m''), S ''2025-01-07T09:05:03.042'', S (CHR 0x1B # ''[0m''),
         S ''ERROR'', S ''program'', S ''open''],
      Fprintf (File 3) ''%s [%s] %s: %s\<newline>''
        [S ''2025-01-07T09:05:03.042'', S ''ERROR'', S ''program'', S ''open''],
      Syslog LOG_ERR ''%s: %s'' [S ''program'', S ''open'']] \<and>
   write_calls (fst (derr_log linux_gcc env0 g_full DERR_ERROR ''open'' [])) =
     [Fprintf Stderr ''%s%s%s [%s] %s: %s\<newline>''
        [S (CHR 0x1B # ''[31m''), S ''2025-01-07T09:05:03.042'', S (CHR 0x1B # ''[0m''),
         S ''ERROR'', S ''program'', S ''open''],
      Fprintf (File 3) ''%s [%s] %s: %s\<newline>''
        [S ''2025-01-07T09:05:03.042'', S ''ERROR'', S ''program'', S ''open''],
      Syslog LOG_ERR ''%s: %s'' [S ''program'', S ''open'']] \<and>
   list_ex is_strerror (fst (derr_log_errno linux_gcc env0 g_full DERR_ERROR 2 ''open'' [])) \<and>
   \<not> list_ex is_strerror
      (fst (derr_log_errno linux_gcc env0 (derr_set_include_errno_details 0 g_full)
              DERR_ERROR 2 ''open'' []))"
proof -
  have hi: "\<not> DERR_ERROR < min_level g_full" by (simp add: g_full_eq level_defs)
  have hi': "\<not> DERR_ERROR < min_level (derr_set_include_errno_details 0 g_full)"
    by (simp add: g_full_off_eq level_defs)
  have m: "vsnprintf env0 2048 ''open'' [] = Inr ''open''" by (simp add: vsnprintf_def)
  have facts:
    "level_color g_full DERR_ERROR = CHR 0x1B # ''[31m''" "color_reset g_full = CHR 0x1B # ''[0m''"
    "level_str DERR_ERROR = ''ERROR''" "pname_of g_full = ''program''"
    "file_fp g_full = Some (File 3)" "posix linux_gcc" "use_syslog g_full" "include_errno g_full"
    "syslog_level DERR_ERROR = LOG_ERR" "\<not> DERR_FATAL \<le> DERR_ERROR"
    "fst (ts_now env0 g_full Buf_tbuf 40) = ''2025-01-07T09:05:03.042''"
    by (simp_all add: g_full_eq level_color_def color_reset_def level_str_def
          pname_of_def linux_gcc_def syslog_level_def level_defs ts_now_env0_local)
  have facts':
    "level_color (derr_set_include_errno_details 0 g_full) DERR_ERROR = CHR 0x1B # ''[31m''"
    "color_reset (derr_set_include_errno_details 0 g_full) = CHR 0x1B # ''[0m''"
    "pname_of (derr_set_include_errno_details 0 g_full) = ''program''"
    "file_fp (derr_set_include_errno_details 0 g_full) = Some (File 3)"
    "use_syslog (derr_set_include_errno_details 0 g_full)"
    "\<not> include_errno (derr_set_include_errno_details 0 g_full)"
    "fst (ts_now env0 (derr_set_include_errno_details 0 g_full) Buf_tbuf 40) =
       ''2025-01-07T09:05:03.042''"
    by (simp_all add: g_full_off_eq level_color_def color_reset_def pname_of_def level_defs
          ts_now_env0_local)
  note A = errno_detail_iff [where lvl = DERR_ERROR and g = g_full and E = env0 and P = linux_gcc
      and errnum = 2 and fmt = "''open''" and ap = "[]" and msg = "''open''",
      THEN conjunct1, rule_format, OF hi m]
  note B = errno_detail_iff [where lvl = DERR_ERROR and g = "derr_set_include_errno_details 0 g_full"
      and E = env0 and P = linux_gcc and errnum = 2 and fmt = "''open''" and ap = "[]"
      and msg = "''open''", THEN conjunct1, rule_format, OF hi' m]
  have 1: "write_calls (fst (derr_log_errno linux_gcc env0 g_full DERR_ERROR 2 ''open'' [])) =
     [Fprintf Stderr ''%s%s%s [%s] %s: %s (errno=%d)\<newline>''
        [S (CHR 0x1B # ''[31m''), S ''2025-01-07T09:05:03.042'', S (CHR 0x1B # ''[0m''),
         S ''ERROR'', S ''program'', S ''open'', I 2],
      Fprintf Stderr ''%s        -> %s%s\<newline>''
        [S (CHR 0x1B # ''[31m''), S ''No such file or directory'', S (CHR 0x1B # ''[0m'')],
      Fprintf (File 3) ''%s [%s] %s: %s (errno=%d)\<newline>        -> %s\<newline>''
        [S ''2025-01-07T09:05:03.042'', S ''ERROR'', S ''program'', S ''open'', I 2,
         S ''No such file or directory''],
      Syslog LOG_ERR ''%s: %s (errno=%d) -> %s''
        [S ''program'', S ''open'', I 2, S ''No such file or directory'']]"
    using A [THEN conjunct1] by (simp add: facts strerror_env0_2)
  have 2: "write_calls (fst (derr_log_errno linux_gcc env0 (derr_set_include_errno_details 0 g_full)
       DERR_ERROR 2 ''open'' [])) =
     [Fprintf Stderr ''%s%s%s [%s] %s: %s\<newline>''
        [S (CHR 0x1B # ''[31m''), S ''2025-01-07T09:05:03.042'', S (CHR 0x1B # ''[0m''),
         S ''ERROR'', S ''program'', S ''open''],
      Fprintf (File 3) ''%s [%s] %s: %s\<newline>''
        [S ''2025-01-07T09:05:03.042'', S ''ERROR'', S ''program'', S ''open''],
      Syslog LOG_ERR ''%s: %s'' [S ''program'', S ''open'']]"
    using B [THEN conjunct1] by (simp add: facts facts')
  have 3: "write_calls (fst (derr_log linux_gcc env0 g_full DERR_ERROR ''open'' [])) =
     [Fprintf Stderr ''%s%s%s [%s] %s: %s\<newline>''
        [S (CHR 0x1B # ''[31m''), S ''2025-01-07T09:05:03.042'', S (CHR 0x1B # ''[0m''),
         S ''ERROR'', S ''program'', S ''open''],
      Fprintf (File 3) ''%s [%s] %s: %s\<newline>''
        [S ''2025-01-07T09:05:03.042'', S ''ERROR'', S ''program'', S ''open''],
      Syslog LOG_ERR ''%s: %s'' [S ''program'', S ''open'']]"
    using A [THEN conjunct2, THEN conjunct1] by (simp add: facts)
  have 4: "list_ex is_strerror (fst (derr_log_errno linux_gcc env0 g_full DERR_ERROR 2 ''open'' []))"
    using A facts(8) by (simp add: list_ex_iff)
  have 5: "\<not> list_ex is_strerror
      (fst (derr_log_errno linux_gcc env0 (derr_set_include_errno_details 0 g_full)
              DERR_ERROR 2 ''open'' []))"
    using B facts'(6) by (simp add: list_ex_iff)
  from 1 2 3 4 5 show ?thesis by blast
qed

subsection \<open>The fatal macros\<close>

lemma c_format_plain_char:
  "c \<noteq> CHR ''%'' \<Longrightarrow> c_format (c # fs) ap = map_sum id ((#) c) (c_format fs ap)"
  by (cases fs) simp_all

lemma c_format_string_conv:
  "c_format (CHR ''%'' # CHR ''s'' # fs) (S s # ap) = map_sum id ((@) s) (c_format fs ap)"
  by simp

lemma c_format_plain: "CHR ''%'' \<notin> set fs \<Longrightarrow> c_format fs ap = Inr fs"
  by (induction fs) (auto simp add: c_format_plain_char)

lemma c_format_failed: "c_format ''%s failed'' [S e] = Inr (e @ '' failed'')"
  by simp

lemma c_format_assert_plain:
  "CHR ''%'' \<notin> set ufmt \<Longrightarrow>
   c_format (assert_prefix @ ufmt) [S cond_str] =
     Inr (''Assert failed: '' @ cond_str @ CHR '' '' # CHR 0xE2 # CHR 0x80 # CHR 0x94 # CHR '' '' # ufmt)"
  by (simp add: assert_prefix_def c_format_plain_char c_format_string_conv c_format_plain
        del: c_format.simps)

lemma c_format_assert_int_first:
  "c_format (assert_prefix @ ufmt) (I i # ap) = Inl Bad_argument"
  by (simp add: assert_prefix_def)

lemma seq_Returned [simp]: "seq (tr, Returned) b = (tr @ fst b, snd b)"
  by (simp add: seq_def)

lemma seq_Stuck [simp]: "seq (tr, Stuck e) b = (tr, Stuck e)"
  by (simp add: seq_def)

lemma derr_flush_eq:
  "derr_flush P g = (lock P @ Fflush Stderr # (case file_fp g of Some f \<Rightarrow> [Fflush f] | None \<Rightarrow> []) @ unlock P, Returned)"
  by (simp add: derr_flush_def)

lemma vemit_outcome:
  "snd (vemit P E g lvl has_errno errnum fmt ap) =
     (if lvl < min_level g then Returned
      else case vsnprintf E 2048 fmt ap of Inl e \<Rightarrow> Stuck e | Inr msg \<Rightarrow> Returned)"
  by (simp add: vemit_def Let_def split: prod.splits sum.splits)

lemma fatal_path:
  assumes "snd (vemit P E g lvl has_errno errnum fmt ap) = Returned"
  shows "seq (vemit P E g lvl has_errno errnum fmt ap) (seq (derr_flush P g) ([], out)) =
     (fst (vemit P E g lvl has_errno errnum fmt ap) @ fst (derr_flush P g), out)"
  using assms by (cases "vemit P E g lvl has_errno errnum fmt ap") (simp add: derr_flush_def)


lemma vemit_primary_line:
  assumes "\<not> lvl < min_level g" and "vsnprintf E 2048 fmt ap = Inr msg"
  shows "(if has_errno \<and> include_errno g then
            Fprintf Stderr ''%s%s%s [%s] %s: %s (errno=%d)\<newline>''
              [S (level_color g lvl), S (fst (ts_now E g Buf_tbuf 40)), S (color_reset g),
               S (level_str lvl), S (pname_of g), S msg, I errnum]
          else
            Fprintf Stderr ''%s%s%s [%s] %s: %s\<newline>''
              [S (level_color g lvl), S (fst (ts_now E g Buf_tbuf 40)), S (color_reset g),
               S (level_str lvl), S (pname_of g), S msg])
         \<in> set (fst (vemit P E g lvl has_errno errnum fmt ap))"
  unfolding vemit_emitted [OF assms] by (simp add: emit_stderr_def)

lemma vsnprintf_failed:
  "vsnprintf E 2048 ''%s failed'' [S e] = Inr (take 2047 (e @ '' failed''))"
  by (simp add: vsnprintf_def)

lemma DIE_ERRNO_failed:
  "DIE_ERRNO P E g ''%s failed'' [S e] =
     (fst (derr_log_errno P E g DERR_FATAL (cur_errno E) ''%s failed'' [S e]) @ fst (derr_flush P g),
      Exited EXIT_FAILURE)"
  unfolding DIE_ERRNO_def derr_log_errno_def
  by (rule fatal_path) (simp add: vemit_outcome vsnprintf_failed)

lemma equals_minus_one_iff:
  "equals_minus_one v = (v = Signed (- 1) \<or> (\<exists>w. v = Unsigned w (2 ^ w - 1)))"
  by (cases v) auto

lemma DIE_ERRNO_filtered:
  "lvl = DERR_FATAL \<Longrightarrow> lvl < min_level g \<Longrightarrow>
   DIE_ERRNO P E g fmt ap = (fst (derr_flush P g), Exited EXIT_FAILURE)"
  by (simp add: DIE_ERRNO_def derr_log_errno_def vemit_filtered derr_flush_def)

text \<open>
  C4, as the code has it. The test of \<open>DTRY(expr)\<close> is \<open>(expr) == -1\<close> in C arithmetic: it
  holds of the signed value -1, and of the largest value of an unsigned type, to which
  -1 is converted. Where it fails, the macro makes no call and returns. Where it holds,
  the macro is \<open>DIE_ERRNO("%s failed", #expr)\<close>: the run is that of \<open>derr_log_errno\<close> at
  FATAL with the current \<open>errno\<close>, then the flush of \<open>stderr\<close> and of the log file under
  the lock, and it ends in \<open>exit(EXIT_FAILURE)\<close>; it never returns and its formatting is
  always defined. Unless the threshold is above FATAL, the record is on \<open>stderr\<close> with the
  level FATAL and the message "<expr> failed"; with the threshold above FATAL nothing
  but the flush happens before the exit.
\<close>

theorem DTRY_fatal_or_noop:
  "equals_minus_one v = (v = Signed (- 1) \<or> (\<exists>w. v = Unsigned w (2 ^ w - 1))) \<and>
   (\<not> equals_minus_one v \<longrightarrow> DTRY P E g v expr_str = ([], Returned)) \<and>
   (equals_minus_one v \<longrightarrow>
      DTRY P E g v expr_str = DIE_ERRNO P E g ''%s failed'' [S expr_str] \<and>
      DTRY P E g v expr_str =
        (fst (derr_log_errno P E g DERR_FATAL (cur_errno E) ''%s failed'' [S expr_str]) @
         lock P @ Fflush Stderr # (case file_fp g of Some f \<Rightarrow> [Fflush f] | None \<Rightarrow> []) @ unlock P,
         Exited EXIT_FAILURE) \<and>
      (\<not> DERR_FATAL < min_level g \<longrightarrow>
         (if include_errno g then
            Fprintf Stderr ''%s%s%s [%s] %s: %s (errno=%d)\<newline>''
              [S (level_color g DERR_FATAL), S (fst (ts_now E g Buf_tbuf 40)), S (color_reset g),
               S ''FATAL'', S (pname_of g), S (take 2047 (expr_str @ '' failed'')), I (cur_errno E)]
          else
            Fprintf Stderr ''%s%s%s [%s] %s: %s\<newline>''
              [S (level_color g DERR_FATAL), S (fst (ts_now E g Buf_tbuf 40)), S (color_reset g),
               S ''FATAL'', S (pname_of g), S (take 2047 (expr_str @ '' failed''))])
         \<in> set (fst (DTRY P E g v expr_str))) \<and>
      (DERR_FATAL < min_level g \<longrightarrow>
         DTRY P E g v expr_str =
           (lock P @ Fflush Stderr # (case file_fp g of Some f \<Rightarrow> [Fflush f] | None \<Rightarrow> []) @ unlock P,
            Exited EXIT_FAILURE)))"
proof (intro conjI impI)
  show "equals_minus_one v = (v = Signed (- 1) \<or> (\<exists>w. v = Unsigned w (2 ^ w - 1)))"
    by (rule equals_minus_one_iff)
next
  assume "\<not> equals_minus_one v"
  then show "DTRY P E g v expr_str = ([], Returned)" by (simp add: DTRY_def)
next
  assume v: "equals_minus_one v"
  then show "DTRY P E g v expr_str = DIE_ERRNO P E g ''%s failed'' [S expr_str]"
    by (simp add: DTRY_def)
  show run: "DTRY P E g v expr_str =
        (fst (derr_log_errno P E g DERR_FATAL (cur_errno E) ''%s failed'' [S expr_str]) @
         lock P @ Fflush Stderr # (case file_fp g of Some f \<Rightarrow> [Fflush f] | None \<Rightarrow> []) @ unlock P,
         Exited EXIT_FAILURE)"
    using v by (simp add: DTRY_def DIE_ERRNO_failed derr_flush_def)
  show "DTRY P E g v expr_str =
           (lock P @ Fflush Stderr # (case file_fp g of Some f \<Rightarrow> [Fflush f] | None \<Rightarrow> []) @ unlock P,
            Exited EXIT_FAILURE)" if "DERR_FATAL < min_level g"
    using v that by (simp add: DTRY_def DIE_ERRNO_filtered [OF refl that] derr_flush_def)
  assume lv: "\<not> DERR_FATAL < min_level g"
  have fatal: "level_str DERR_FATAL = ''FATAL''" by (simp add: level_str_def level_defs)
  show "(if include_errno g then
            Fprintf Stderr ''%s%s%s [%s] %s: %s (errno=%d)\<newline>''
              [S (level_color g DERR_FATAL), S (fst (ts_now E g Buf_tbuf 40)), S (color_reset g),
               S ''FATAL'', S (pname_of g), S (take 2047 (expr_str @ '' failed'')), I (cur_errno E)]
          else
            Fprintf Stderr ''%s%s%s [%s] %s: %s\<newline>''
              [S (level_color g DERR_FATAL), S (fst (ts_now E g Buf_tbuf 40)), S (color_reset g),
               S ''FATAL'', S (pname_of g), S (take 2047 (expr_str @ '' failed''))])
         \<in> set (fst (DTRY P E g v expr_str))"
    (is "?line \<in> _")
  proof -
    have "?line \<in> set (fst (derr_log_errno P E g DERR_FATAL (cur_errno E) ''%s failed'' [S expr_str]))"
      using vemit_primary_line [OF lv vsnprintf_failed, where has_errno = True and P = P
          and errnum = "cur_errno E" and e1 = expr_str]
      unfolding fatal derr_log_errno_def by simp
    then show ?thesis
      unfolding run by (simp only: fst_conv set_append Un_iff) blast
  qed
qed

text \<open>C4 at a concrete input: the value 3; the value -1 with \<open>errno\<close> 2 under the initial
  configuration; and the value \<open>SIZE_MAX\<close> of a 64-bit unsigned expression.\<close>

theorem DTRY_fatal_or_noop_witness:
  "DTRY linux_gcc env0 g_derr (Signed 3) ''open(p)'' = ([], Returned) \<and>
   snd (DTRY linux_gcc env0 g_derr (Signed (- 1)) ''open(p)'') = Exited 1 \<and>
   Fprintf Stderr ''%s%s%s [%s] %s: %s (errno=%d)\<newline>''
     [S (CHR 0x1B # ''[1;31m''), S ''2025-01-07T09:05:03.042'', S (CHR 0x1B # ''[0m''),
      S ''FATAL'', S ''program'', S ''open(p) failed'', I 2]
     \<in> set (fst (DTRY linux_gcc env0 g_derr (Signed (- 1)) ''open(p)'')) \<and>
   snd (DTRY linux_gcc env0 g_derr (Unsigned 64 18446744073709551615) ''n'') = Exited 1"
proof -
  have lv: "\<not> DERR_FATAL < min_level g_derr" by (simp add: g_derr_def level_defs)
  have no: "\<not> equals_minus_one (Signed 3)" and yes: "equals_minus_one (Signed (- 1))"
    and big: "equals_minus_one (Unsigned 64 18446744073709551615)"
    by simp_all
  have a: "DTRY linux_gcc env0 g_derr (Signed 3) ''open(p)'' = ([], Returned)"
    using DTRY_fatal_or_noop [where v = "Signed 3" and P = linux_gcc and E = env0 and g = g_derr
        and expr_str = "''open(p)''", THEN conjunct2, THEN conjunct1, rule_format, OF no] .
  note B = DTRY_fatal_or_noop [where v = "Signed (- 1)" and P = linux_gcc and E = env0
      and g = g_derr and expr_str = "''open(p)''", THEN conjunct2, THEN conjunct2,
      rule_format, OF yes]
  note C = DTRY_fatal_or_noop [where v = "Unsigned 64 18446744073709551615" and P = linux_gcc
      and E = env0 and g = g_derr and expr_str = "''n''", THEN conjunct2, THEN conjunct2,
      rule_format, OF big]
  have b: "snd (DTRY linux_gcc env0 g_derr (Signed (- 1)) ''open(p)'') = Exited 1"
    by (simp add: B [THEN conjunct2, THEN conjunct1] EXIT_FAILURE_def)
  have g: "include_errno g_derr" "level_color g_derr DERR_FATAL = CHR 0x1B # ''[1;31m''"
    "color_reset g_derr = CHR 0x1B # ''[0m''" "pname_of g_derr = ''program''"
    "cur_errno env0 = 2"
    by (simp_all add: g_derr_def level_color_def color_reset_def pname_of_def level_defs env0_def)
  have c: "Fprintf Stderr ''%s%s%s [%s] %s: %s (errno=%d)\<newline>''
     [S (CHR 0x1B # ''[1;31m''), S ''2025-01-07T09:05:03.042'', S (CHR 0x1B # ''[0m''),
      S ''FATAL'', S ''program'', S ''open(p) failed'', I 2]
     \<in> set (fst (DTRY linux_gcc env0 g_derr (Signed (- 1)) ''open(p)''))"
    using B [THEN conjunct2, THEN conjunct2, THEN conjunct1, rule_format, OF lv]
    by (simp only: g ts_now_env0 if_True) simp
  have d: "snd (DTRY linux_gcc env0 g_derr (Unsigned 64 18446744073709551615) ''n'') = Exited 1"
    by (simp add: C [THEN conjunct2, THEN conjunct1] EXIT_FAILURE_def)
  from a b c d show ?thesis by blast
qed

text \<open>
  C4 as the specification words it makes every value other than -1 a no-op, and has the
  macro emit a FATAL record whenever it fires. An \<open>unsigned int\<close> expression of value
  4294967295 is not -1 and yet is fatal; and with the threshold at 60 the value -1 ends
  the process after the flush alone, with no record written.
\<close>

theorem DTRY_other_value_counterexample:
  "DTRY linux_gcc env0 g_derr (Unsigned 32 4294967295) ''u'' \<noteq> ([], Returned) \<and>
   snd (DTRY linux_gcc env0 g_derr (Unsigned 32 4294967295) ''u'') = Exited 1 \<and>
   DTRY linux_gcc env0 (derr_set_min_level 60 g_derr) (Signed (- 1)) ''f()'' =
     ([Mutex_lock, Fflush Stderr, Mutex_unlock], Exited 1)"
proof -
  have u: "equals_minus_one (Unsigned 32 4294967295)" by simp
  have run: "DTRY linux_gcc env0 g_derr (Unsigned 32 4294967295) ''u'' =
      (fst (derr_log_errno linux_gcc env0 g_derr DERR_FATAL (cur_errno env0) ''%s failed'' [S ''u'']) @
       fst (derr_flush linux_gcc g_derr), Exited EXIT_FAILURE)"
    using u by (simp only: DTRY_def if_True DIE_ERRNO_failed)
  have hi: "DERR_FATAL < min_level (derr_set_min_level 60 g_derr)"
    by (simp add: derr_set_min_level_def level_defs)
  have "DTRY linux_gcc env0 (derr_set_min_level 60 g_derr) (Signed (- 1)) ''f()'' =
     ([Mutex_lock, Fflush Stderr, Mutex_unlock], Exited 1)"
  proof -
    have "DTRY linux_gcc env0 (derr_set_min_level 60 g_derr) (Signed (- 1)) ''f()'' =
        (fst (derr_flush linux_gcc (derr_set_min_level 60 g_derr)), Exited EXIT_FAILURE)"
      by (simp only: DTRY_def equals_minus_one.simps DIE_ERRNO_filtered [OF refl hi]) simp
    moreover have "fst (derr_flush linux_gcc (derr_set_min_level 60 g_derr)) =
        [Mutex_lock, Fflush Stderr, Mutex_unlock]"
      by (simp add: derr_flush_def lock_def unlock_def linux_gcc_def derr_set_min_level_def
            g_derr_def)
    ultimately show ?thesis by (simp add: EXIT_FAILURE_def)
  qed
  then show ?thesis by (simp add: run EXIT_FAILURE_def)
qed

subsection \<open>The assertion macro\<close>

text \<open>With a true condition \<open>DASSERT\<close> does nothing. With a false condition and a message
  that has no conversion of its own, the record carries the text of the condition, the
  streams are flushed and the process aborts.\<close>

lemma DASSERT_true_noop: "DASSERT P E g True cond_str ufmt uargs = ([], Returned)"
  by (simp add: DASSERT_def)

lemma vsnprintf_assert_plain:
  "CHR ''%'' \<notin> set ufmt \<Longrightarrow>
   vsnprintf E 2048 (assert_prefix @ ufmt) [S cond_str] =
     Inr (take 2047 (''Assert failed: '' @ cond_str @
            CHR '' '' # CHR 0xE2 # CHR 0x80 # CHR 0x94 # CHR '' '' # ufmt))"
proof -
  assume "CHR ''%'' \<notin> set ufmt"
  then have "c_format (assert_prefix @ ufmt) [S cond_str] =
     Inr (''Assert failed: '' @ cond_str @ CHR '' '' # CHR 0xE2 # CHR 0x80 # CHR 0x94 # CHR '' '' # ufmt)"
    by (rule c_format_assert_plain)
  then show ?thesis unfolding vsnprintf_def by simp
qed

lemma DASSERT_plain_message:
  assumes "CHR ''%'' \<notin> set ufmt"
  shows "DASSERT P E g False cond_str ufmt [] =
     (fst (derr_log_errno P E g DERR_FATAL (cur_errno E) (assert_prefix @ ufmt) [S cond_str]) @
      fst (derr_flush P g), Aborted)"
    and "\<not> DERR_FATAL < min_level g \<Longrightarrow>
     (if include_errno g then
        Fprintf Stderr ''%s%s%s [%s] %s: %s (errno=%d)\<newline>''
          [S (level_color g DERR_FATAL), S (fst (ts_now E g Buf_tbuf 40)), S (color_reset g),
           S (level_str DERR_FATAL), S (pname_of g),
           S (take 2047 (''Assert failed: '' @ cond_str @
                CHR '' '' # CHR 0xE2 # CHR 0x80 # CHR 0x94 # CHR '' '' # ufmt)),
           I (cur_errno E)]
      else
        Fprintf Stderr ''%s%s%s [%s] %s: %s\<newline>''
          [S (level_color g DERR_FATAL), S (fst (ts_now E g Buf_tbuf 40)), S (color_reset g),
           S (level_str DERR_FATAL), S (pname_of g),
           S (take 2047 (''Assert failed: '' @ cond_str @
                CHR '' '' # CHR 0xE2 # CHR 0x80 # CHR 0x94 # CHR '' '' # ufmt))])
     \<in> set (fst (derr_log_errno P E g DERR_FATAL (cur_errno E) (assert_prefix @ ufmt) [S cond_str]))"
proof -
  show "DASSERT P E g False cond_str ufmt [] =
     (fst (derr_log_errno P E g DERR_FATAL (cur_errno E) (assert_prefix @ ufmt) [S cond_str]) @
      fst (derr_flush P g), Aborted)"
    unfolding DASSERT_def derr_log_errno_def
    using fatal_path [of P E g DERR_FATAL True "cur_errno E" "assert_prefix @ ufmt" "[S cond_str]" Aborted]
    by (simp add: vemit_outcome vsnprintf_assert_plain [OF assms])
next
  assume lv: "\<not> DERR_FATAL < min_level g"
  show "(if include_errno g then
        Fprintf Stderr ''%s%s%s [%s] %s: %s (errno=%d)\<newline>''
          [S (level_color g DERR_FATAL), S (fst (ts_now E g Buf_tbuf 40)), S (color_reset g),
           S (level_str DERR_FATAL), S (pname_of g),
           S (take 2047 (''Assert failed: '' @ cond_str @
                CHR '' '' # CHR 0xE2 # CHR 0x80 # CHR 0x94 # CHR '' '' # ufmt)),
           I (cur_errno E)]
      else
        Fprintf Stderr ''%s%s%s [%s] %s: %s\<newline>''
          [S (level_color g DERR_FATAL), S (fst (ts_now E g Buf_tbuf 40)), S (color_reset g),
           S (level_str DERR_FATAL), S (pname_of g),
           S (take 2047 (''Assert failed: '' @ cond_str @
                CHR '' '' # CHR 0xE2 # CHR 0x80 # CHR 0x94 # CHR '' '' # ufmt))])
     \<in> set (fst (derr_log_errno P E g DERR_FATAL (cur_errno E) (assert_prefix @ ufmt) [S cond_str]))"
    using vemit_primary_line [OF lv vsnprintf_assert_plain [OF assms], where has_errno = True
        and P = P and E = E and errnum = "cur_errno E" and cond_str1 = cond_str]
    unfolding derr_log_errno_def by simp
qed

text \<open>The macro passes \<open>#cond\<close> after the arguments of the caller's message, while the
  \<open>%s\<close> meant for it comes first in the format. With one string argument the path and
  the condition change places.\<close>

lemma DASSERT_string_argument_swapped:
  "c_format (assert_prefix @ ''cannot open %s'') ([S ''/etc/x''] @ [S ''fd >= 0'']) =
     Inr (''Assert failed: /etc/x '' @ [CHR 0xE2, CHR 0x80, CHR 0x94] @ '' cannot open fd >= 0'')"
  by (simp add: assert_prefix_def)

text \<open>
  C3 says that a failed \<open>DASSERT\<close> emits a FATAL record with the text of the condition,
  flushes and aborts. At \<open>DASSERT(x == 10, "x is %d", x)\<close> with \<open>x\<close> = 5 the call is
  \<open>derr_log_errno(DERR_FATAL, errno, "Assert failed: %s - x is %d", x, "x == 10")\<close>: the
  \<open>%s\<close> is given the integer. The run stops in \<open>vsnprintf\<close> with undefined behaviour,
  before any sink is written, any flush, or \<open>abort\<close>.
\<close>

theorem DASSERT_arguments_misplaced:
  "DASSERT P E g_derr False ''x == 10'' ''x is %d'' [I 5] =
     (snd (ts_now E g_derr Buf_tbuf 40) @ [Vsnprintf Buf_msg 2048 (assert_prefix @ ''x is %d'') [I 5, S ''x == 10'']],
      Stuck Bad_argument)"
proof -
  have lv: "\<not> DERR_FATAL < min_level g_derr" by (simp add: g_derr_def level_defs)
  have bad: "vsnprintf E 2048 (assert_prefix @ ''x is %d'') [I 5, S ''x == 10''] = Inl Bad_argument"
    by (simp only: vsnprintf_def c_format_assert_int_first) simp
  show ?thesis
    by (simp add: DASSERT_def derr_log_errno_def vemit_stuck [OF lv bad])
qed

subsection \<open>The system-log channel\<close>

lemma channel_open_append:
  "channel_open b (xs @ ys) = channel_open (channel_open b xs) ys"
  by (induction b xs rule: channel_open.induct) simp_all

lemma toggles_ok_append:
  "toggles_ok b (xs @ ys) = (toggles_ok b xs \<and> toggles_ok (channel_open b xs) ys)"
  by (induction b xs rule: toggles_ok.induct) auto

lemma channel_quiet_parts [simp]:
  "channel_open b (snd (ts_now E g buf n)) = b" "toggles_ok b (snd (ts_now E g buf n))"
  "channel_open b (snd (strerror_portable P E errnum buf n)) = b"
  "toggles_ok b (snd (strerror_portable P E errnum buf n))"
  "channel_open b (lock P) = b" "toggles_ok b (lock P)"
  "channel_open b (unlock P) = b" "toggles_ok b (unlock P)"
  "channel_open b (emit_stderr he lvl errnum tbuf msg ebuf pname c r) = b"
  "toggles_ok b (emit_stderr he lvl errnum tbuf msg ebuf pname c r)"
  "channel_open b (emit_backtrace P E lvl c r) = b"
  "toggles_ok b (emit_backtrace P E lvl c r)"
  by (simp_all add: ts_now_def strerror_portable_def lock_def unlock_def emit_stderr_def
        emit_backtrace_def Let_def split: gnu_result.splits prod.splits)

lemma channel_emit_file [simp]:
  "channel_open b (emit_file g he lvl errnum tbuf msg ebuf pname) = b"
  "toggles_ok b (emit_file g he lvl errnum tbuf msg ebuf pname)"
  by (cases "file_fp g"; simp add: emit_file_def)+

lemma channel_emit_syslog [simp]:
  "channel_open (use_syslog g) (emit_syslog P g he lvl errnum msg ebuf pname) = use_syslog g"
  "toggles_ok (use_syslog g) (emit_syslog P g he lvl errnum msg ebuf pname)"
  by (simp_all add: emit_syslog_def)

lemma vemit_channel:
  "channel_open (use_syslog g) (fst (vemit P E g lvl has_errno errnum fmt ap)) = use_syslog g \<and>
   toggles_ok (use_syslog g) (fst (vemit P E g lvl has_errno errnum fmt ap))"
proof (cases "lvl < min_level g")
  case True
  then show ?thesis by (simp add: vemit_filtered)
next
  case False
  show ?thesis
  proof (cases "vsnprintf E 2048 fmt ap")
    case (Inl err)
    show ?thesis
      unfolding vemit_stuck [OF False Inl] by (simp add: channel_open_append toggles_ok_append)
  next
    case (Inr msg)
    show ?thesis
      unfolding vemit_emitted [OF False Inr] by (simp add: channel_open_append toggles_ok_append)
  qed
qed

lemma derr_flush_channel:
  "channel_open b (fst (derr_flush P g)) = b \<and> toggles_ok b (fst (derr_flush P g))"
  by (cases "file_fp g"; simp add: derr_flush_def channel_open_append toggles_ok_append)

lemma fatal_seq_channel:
  assumes "channel_open (use_syslog g) (fst r) = use_syslog g \<and> toggles_ok (use_syslog g) (fst r)"
  shows "channel_open (use_syslog g) (fst (seq r (seq (derr_flush P g) ([], out)))) = use_syslog g \<and>
         toggles_ok (use_syslog g) (fst (seq r (seq (derr_flush P g) ([], out))))"
  using assms derr_flush_channel [of "use_syslog g" P g]
  by (cases r; cases "snd r")
     (simp_all add: seq_def derr_flush_def channel_open_append toggles_ok_append)

lemma derr_use_syslog_channel:
  "channel_open (use_syslog g) (fst (derr_use_syslog P enable g)) =
     use_syslog (snd (derr_use_syslog P enable g)) \<and>
   toggles_ok (use_syslog g) (fst (derr_use_syslog P enable g))"
  by (simp add: derr_use_syslog_def)

lemma api_channel:
  "channel_open (use_syslog g) (fst (fst (api P E c g))) = use_syslog (snd (api P E c g)) \<and>
   toggles_ok (use_syslog g) (fst (fst (api P E c g)))"
proof (cases c)
  case (Use_syslog enable)
  then show ?thesis using derr_use_syslog_channel [of g P enable] by simp
next
  case (Log lvl fmt ap)
  then show ?thesis using vemit_channel [of g P E lvl False 0 fmt ap] by (simp add: derr_log_def)
next
  case (Log_errno lvl errnum fmt ap)
  then show ?thesis
    using vemit_channel [of g P E lvl True errnum fmt ap] by (simp add: derr_log_errno_def)
next
  case Flush
  then show ?thesis using derr_flush_channel [of "use_syslog g" P g] by simp
next
  case (Die fmt ap)
  then show ?thesis
    using fatal_seq_channel [OF vemit_channel [of g P E DERR_FATAL False 0 fmt ap]]
    by (simp add: DIE_def derr_log_def)
next
  case (Die_errno fmt ap)
  then show ?thesis
    using fatal_seq_channel [OF vemit_channel [of g P E DERR_FATAL True "cur_errno E" fmt ap]]
    by (simp add: DIE_ERRNO_def derr_log_errno_def)
next
  case (Dassert cond cond_str ufmt uargs)
  then show ?thesis
    using fatal_seq_channel [OF vemit_channel [of g P E DERR_FATAL True "cur_errno E"
          "assert_prefix @ ufmt" "uargs @ [S cond_str]"]]
    by (simp add: DASSERT_def derr_log_errno_def)
next
  case (Dtry v expr_str)
  then show ?thesis
    using fatal_seq_channel [OF vemit_channel [of g P E DERR_FATAL True "cur_errno E"
          "''%s failed''" "[S expr_str]"]]
    by (simp add: DTRY_def DIE_ERRNO_def derr_log_errno_def)
qed (simp_all add: derr_set_program_name_def derr_set_min_level_def derr_enable_color_def
      derr_set_timestamp_utc_def derr_set_log_file_def derr_set_include_errno_details_def)

lemma run_calls_channel:
  "channel_open (use_syslog g) (fst (fst (run_calls P cs g))) = use_syslog (snd (run_calls P cs g)) \<and>
   toggles_ok (use_syslog g) (fst (fst (run_calls P cs g)))"
proof (induction cs arbitrary: g)
  case Nil
  show ?case by simp
next
  case (Cons a cs)
  obtain E c where a: "a = (E, c)" by (cases a)
  obtain tr out g' where ap: "api P E c g = ((tr, out), g')" by (cases "api P E c g") auto
  from api_channel [of g P E c] ap
  have one: "channel_open (use_syslog g) tr = use_syslog g'" "toggles_ok (use_syslog g) tr"
    by simp_all
  show ?case
  proof (cases out)
    case Returned
    obtain tr' out' g'' where rest: "run_calls P cs g' = ((tr', out'), g'')"
      by (cases "run_calls P cs g'") auto
    from Cons.IH [of g'] rest
    have two: "channel_open (use_syslog g') tr' = use_syslog g''" "toggles_ok (use_syslog g') tr'"
      by simp_all
    show ?thesis
      using one two by (simp add: a ap Returned rest channel_open_append toggles_ok_append)
  qed (use one in \<open>simp_all add: a ap\<close>)
qed


text \<open>
  C5. On a POSIX build one call of \<open>derr_use_syslog\<close> calls \<open>openlog\<close> once if it enables
  and the flag was off, and not at all otherwise; it calls \<open>closelog\<close> once if it disables
  and the flag was on, and not at all otherwise; the flag then says what was asked; and
  a second call asking the same again does nothing. For every client program run from
  the initial state, on any build, the flag at the end says whether the channel is open,
  and along the run \<open>openlog\<close> only ever met a closed channel, \<open>closelog\<close> and \<open>syslog\<close> an
  open one.
\<close>

theorem derr_use_syslog_idempotent:
  "(posix P \<longrightarrow>
      opens (fst (derr_use_syslog P enable g)) = (if enable \<noteq> 0 \<and> \<not> use_syslog g then 1 else 0) \<and>
      closes (fst (derr_use_syslog P enable g)) = (if enable = 0 \<and> use_syslog g then 1 else 0) \<and>
      use_syslog (snd (derr_use_syslog P enable g)) = (enable \<noteq> 0) \<and>
      ((enable \<noteq> 0) = (again \<noteq> 0) \<longrightarrow>
         derr_use_syslog P again (snd (derr_use_syslog P enable g)) =
           ([], snd (derr_use_syslog P enable g)))) \<and>
   use_syslog (snd (run_calls P cs g_derr)) = channel_open False (fst (fst (run_calls P cs g_derr))) \<and>
   toggles_ok False (fst (fst (run_calls P cs g_derr)))"
proof (intro conjI impI)
  assume p: "posix P"
  show "opens (fst (derr_use_syslog P enable g)) = (if enable \<noteq> 0 \<and> \<not> use_syslog g then 1 else 0)"
    using p by (simp add: derr_use_syslog_def opens_def)
  show "closes (fst (derr_use_syslog P enable g)) = (if enable = 0 \<and> use_syslog g then 1 else 0)"
    using p by (simp add: derr_use_syslog_def closes_def)
  show "use_syslog (snd (derr_use_syslog P enable g)) = (enable \<noteq> 0)"
    using p by (simp add: derr_use_syslog_def)
  assume "(enable \<noteq> 0) = (again \<noteq> 0)"
  then show "derr_use_syslog P again (snd (derr_use_syslog P enable g)) =
           ([], snd (derr_use_syslog P enable g))"
    using p by (auto simp add: derr_use_syslog_def)
next
  have g0: "use_syslog g_derr = False" by (simp add: g_derr_def)
  from run_calls_channel [of g_derr P cs]
  show "use_syslog (snd (run_calls P cs g_derr)) = channel_open False (fst (fst (run_calls P cs g_derr)))"
    and "toggles_ok False (fst (fst (run_calls P cs g_derr)))"
    unfolding g0 by simp_all
qed

text \<open>C5 at a concrete input: enabling twice from the initial state, and a program that
  enables twice, logs, disables and enables again.\<close>

theorem derr_use_syslog_idempotent_witness:
  "opens (fst (derr_use_syslog linux_gcc 1 g_derr)) = 1 \<and>
   closes (fst (derr_use_syslog linux_gcc 1 g_derr)) = 0 \<and>
   use_syslog (snd (derr_use_syslog linux_gcc 1 g_derr)) \<and>
   fst (derr_use_syslog linux_gcc 1 (snd (derr_use_syslog linux_gcc 1 g_derr))) = [] \<and>
   use_syslog (snd (run_calls linux_gcc
      [(env0, Use_syslog 1), (env0, Use_syslog 1), (env0, Log DERR_INFO ''up'' []),
       (env0, Use_syslog 0), (env0, Use_syslog 1)] g_derr)) =
   channel_open False (fst (fst (run_calls linux_gcc
      [(env0, Use_syslog 1), (env0, Use_syslog 1), (env0, Log DERR_INFO ''up'' []),
       (env0, Use_syslog 0), (env0, Use_syslog 1)] g_derr)))"
proof -
  have p: "posix linux_gcc" by (simp add: linux_gcc_def)
  have off: "\<not> use_syslog g_derr" by (simp add: g_derr_def)
  note A = derr_use_syslog_idempotent [of linux_gcc 1 g_derr 1
      "[(env0, Use_syslog 1), (env0, Use_syslog 1), (env0, Log DERR_INFO ''up'' []),
        (env0, Use_syslog 0), (env0, Use_syslog 1)]"]
  note A1 = A [THEN conjunct1, rule_format, OF p]
  have 1: "opens (fst (derr_use_syslog linux_gcc 1 g_derr)) = 1"
    using A1 [THEN conjunct1] off by simp
  have 2: "closes (fst (derr_use_syslog linux_gcc 1 g_derr)) = 0"
    using A1 [THEN conjunct2, THEN conjunct1] by simp
  have 3: "use_syslog (snd (derr_use_syslog linux_gcc 1 g_derr))"
    using A1 [THEN conjunct2, THEN conjunct2, THEN conjunct1] by simp
  have 4: "fst (derr_use_syslog linux_gcc 1 (snd (derr_use_syslog linux_gcc 1 g_derr))) = []"
    using A1 [THEN conjunct2, THEN conjunct2, THEN conjunct2] by simp
  from 1 2 3 4 A [THEN conjunct2, THEN conjunct1] show ?thesis by blast
qed

text \<open>Enable, enable, disable, disable, enable: one open, one close, one open.\<close>

lemma toggle_on_off_on:
  "fst (fst (run_calls linux_gcc
      [(env0, Use_syslog 1), (env0, Use_syslog 1), (env0, Use_syslog 0), (env0, Use_syslog 0),
       (env0, Use_syslog 1)] g_derr)) =
   [Openlog ''program'', Closelog, Openlog ''program'']"
  by (simp add: derr_use_syslog_def linux_gcc_def g_derr_def pname_of_def)

subsection \<open>The critical section\<close>

text \<open>
  What one thread does with the mutex on a POSIX build. A filtered call makes no call at
  all; a call whose formatting goes wrong stops before it locks or writes; every other
  call locks once, after the formatting and before the first write, unlocks once, as its
  last call, and does all its writes in between. How the runs of several threads
  interleave is outside this sequential model.
\<close>

lemma no_mutex_parts:
  "\<forall>e\<in>set (snd (ts_now E g buf n)). \<not> is_mutex_call e"
  "\<forall>e\<in>set (snd (strerror_portable P E errnum buf n)). \<not> is_mutex_call e"
  "\<forall>e\<in>set (emit_stderr he lvl errnum tbuf msg ebuf pname c r). \<not> is_mutex_call e"
  "\<forall>e\<in>set (emit_syslog P g he lvl errnum msg ebuf pname). \<not> is_mutex_call e"
  "\<forall>e\<in>set (emit_backtrace P E lvl c r). \<not> is_mutex_call e"
  by (auto simp add: ts_now_def strerror_portable_def emit_stderr_def emit_syslog_def
        emit_backtrace_def Let_def split: gnu_result.splits prod.splits)

lemma no_mutex_file:
  "\<forall>e\<in>set (emit_file g he lvl errnum tbuf msg ebuf pname). \<not> is_mutex_call e"
  by (cases "file_fp g"; simp add: emit_file_def)

lemma vemit_critical_section:
  assumes "posix P"
  shows "(lvl < min_level g \<longrightarrow> fst (vemit P E g lvl has_errno errnum fmt ap) = []) \<and>
    (\<not> lvl < min_level g \<longrightarrow> vsnprintf E 2048 fmt ap = Inl err \<longrightarrow>
       writes (fst (vemit P E g lvl has_errno errnum fmt ap)) = [] \<and>
       (\<forall>e\<in>set (fst (vemit P E g lvl has_errno errnum fmt ap)). \<not> is_mutex_call e)) \<and>
    (\<not> lvl < min_level g \<longrightarrow> vsnprintf E 2048 fmt ap = Inr msg \<longrightarrow>
       (\<exists>pre body. fst (vemit P E g lvl has_errno errnum fmt ap) =
            pre @ [Mutex_lock] @ body @ [Mutex_unlock] \<and>
          writes pre = [] \<and>
          (\<forall>e\<in>set (pre @ body). \<not> is_mutex_call e)))"
proof (intro conjI impI)
  assume "lvl < min_level g"
  then show "fst (vemit P E g lvl has_errno errnum fmt ap) = []" by (simp add: vemit_filtered)
next
  assume a: "\<not> lvl < min_level g" "vsnprintf E 2048 fmt ap = Inl err"
  show "writes (fst (vemit P E g lvl has_errno errnum fmt ap)) = []"
    by (simp add: vemit_stuck [OF a] writes_append)
  show "\<forall>e\<in>set (fst (vemit P E g lvl has_errno errnum fmt ap)). \<not> is_mutex_call e"
    using no_mutex_parts(1) [of E g Buf_tbuf 40] by (simp add: vemit_stuck [OF a] ball_Un)
next
  assume a: "\<not> lvl < min_level g" "vsnprintf E 2048 fmt ap = Inr msg"
  define he where "he = (has_errno \<and> include_errno g)"
  define ebuf where "ebuf = (if he then fst (strerror_portable P E errnum Buf_ebuf 256) else [])"
  define pre where "pre = snd (ts_now E g Buf_tbuf 40) @ [Vsnprintf Buf_msg 2048 fmt ap] @
     (if he then snd (strerror_portable P E errnum Buf_ebuf 256) else [])"
  define body where "body =
     emit_stderr he lvl errnum (fst (ts_now E g Buf_tbuf 40)) msg ebuf (pname_of g)
       (level_color g lvl) (color_reset g) @
     emit_file g he lvl errnum (fst (ts_now E g Buf_tbuf 40)) msg ebuf (pname_of g) @
     emit_syslog P g he lvl errnum msg ebuf (pname_of g) @
     emit_backtrace P E lvl (level_color g lvl) (color_reset g)"
  have "fst (vemit P E g lvl has_errno errnum fmt ap) = pre @ [Mutex_lock] @ body @ [Mutex_unlock]"
    unfolding pre_def body_def ebuf_def he_def
    using assms by (simp add: vemit_emitted [OF a] lock_def unlock_def)
  moreover have "writes pre = []" by (simp add: pre_def writes_append)
  moreover have "\<forall>e\<in>set pre. \<not> is_mutex_call e"
    using no_mutex_parts(1) [of E g Buf_tbuf 40] no_mutex_parts(2) [of P E errnum Buf_ebuf 256]
    by (simp add: pre_def ball_Un)
  moreover have "\<forall>e\<in>set body. \<not> is_mutex_call e"
    using no_mutex_parts(3) [of he lvl errnum "fst (ts_now E g Buf_tbuf 40)" msg ebuf "pname_of g"
        "level_color g lvl" "color_reset g"]
      no_mutex_file [of g he lvl errnum "fst (ts_now E g Buf_tbuf 40)" msg ebuf "pname_of g"]
      no_mutex_parts(4) [of P g he lvl errnum msg ebuf "pname_of g"]
      no_mutex_parts(5) [of P E lvl "level_color g lvl" "color_reset g"]
    by (simp add: body_def ball_Un)
  ultimately show "\<exists>pre body. fst (vemit P E g lvl has_errno errnum fmt ap) =
            pre @ [Mutex_lock] @ body @ [Mutex_unlock] \<and>
          writes pre = [] \<and>
          (\<forall>e\<in>set (pre @ body). \<not> is_mutex_call e)"
    by (intro exI [of _ pre] exI [of _ body]) (simp add: ball_Un)
qed

subsection \<open>The backtrace of a fatal record\<close>

lemma no_backtrace_parts:
  "\<forall>e\<in>set (snd (ts_now E g buf n)). \<not> is_backtrace e"
  "\<forall>e\<in>set (snd (strerror_portable P E errnum buf n)). \<not> is_backtrace e"
  "\<forall>e\<in>set (lock P). \<not> is_backtrace e"
  "\<forall>e\<in>set (unlock P). \<not> is_backtrace e"
  "\<forall>e\<in>set (emit_stderr he lvl errnum tbuf msg ebuf pname c r). \<not> is_backtrace e"
  "\<forall>e\<in>set (emit_syslog P g he lvl errnum msg ebuf pname). \<not> is_backtrace e"
  by (simp_all add: ts_now_def strerror_portable_def lock_def unlock_def emit_stderr_def
        emit_syslog_def Let_def split: gnu_result.splits prod.splits)

lemma no_backtrace_file:
  "\<forall>e\<in>set (emit_file g he lvl errnum tbuf msg ebuf pname). \<not> is_backtrace e"
  by (cases "file_fp g"; simp add: emit_file_def)

lemma env_call_stack_irrelevant [simp]:
  "ts_now (E\<lparr>call_stack := stk\<rparr>) g buf n = ts_now E g buf n"
  "strerror_portable P (E\<lparr>call_stack := stk\<rparr>) errnum buf n = strerror_portable P E errnum buf n"
  by (simp_all add: ts_now_def strerror_portable_def)

lemma vsnprintf_call_stack_irrelevant [simp]:
  "vsnprintf (E\<lparr>call_stack := stk\<rparr>) n fmt ap = vsnprintf E n fmt ap"
  by (simp add: vsnprintf_def split: sum.splits fmt_error.splits)

lemma backtrace_length: "length (backtrace E 128) \<le> 128"
  by (simp add: backtrace_def split: option.splits)

lemma emit_backtrace_events:
  "(Backtrace n \<in> set (emit_backtrace P E lvl c r)) = (n = 128 \<and> have_backtrace P \<and> DERR_FATAL \<le> lvl)"
  "(Backtrace_symbols_fd fs fd \<in> set (emit_backtrace P E lvl c r)) =
     (fs = backtrace E 128 \<and> fd = STDERR_FILENO \<and> have_backtrace P \<and> DERR_FATAL \<le> lvl \<and>
      backtrace E 128 \<noteq> [])"
  by (auto simp add: emit_backtrace_def Let_def)

lemma vemit_shape:
  assumes "\<not> lvl < min_level g" and "vsnprintf E 2048 fmt ap = Inr msg"
  shows "\<exists>pre line mid.
     (\<forall>stk. fst (vemit P (E\<lparr>call_stack := stk\<rparr>) g lvl has_errno errnum fmt ap) =
        pre @ lock P @ line # mid @
        emit_backtrace P (E\<lparr>call_stack := stk\<rparr>) lvl (level_color g lvl) (color_reset g) @
        unlock P) \<and>
     writes pre = [] \<and> (\<exists>lfmt lap. line = Fprintf Stderr lfmt lap \<and> S msg \<in> set lap) \<and>
     (\<forall>e\<in>set (pre @ lock P @ line # mid). \<not> is_backtrace e) \<and>
     (\<forall>e\<in>set (pre @ line # mid). \<not> is_mutex_call e)"
proof -
  define he where "he = (has_errno \<and> include_errno g)"
  define ebuf where "ebuf = (if he then fst (strerror_portable P E errnum Buf_ebuf 256) else [])"
  define pre where "pre = snd (ts_now E g Buf_tbuf 40) @ [Vsnprintf Buf_msg 2048 fmt ap] @
     (if he then snd (strerror_portable P E errnum Buf_ebuf 256) else [])"
  define con where "con = emit_stderr he lvl errnum (fst (ts_now E g Buf_tbuf 40)) msg ebuf (pname_of g)
       (level_color g lvl) (color_reset g)"
  define rest where "rest = emit_file g he lvl errnum (fst (ts_now E g Buf_tbuf 40)) msg ebuf (pname_of g) @
     emit_syslog P g he lvl errnum msg ebuf (pname_of g)"
  have em: "fst (vemit P (E\<lparr>call_stack := stk\<rparr>) g lvl has_errno errnum fmt ap) =
        pre @ lock P @ con @ rest @
        emit_backtrace P (E\<lparr>call_stack := stk\<rparr>) lvl (level_color g lvl) (color_reset g) @
        unlock P" for stk
  proof -
    have a2: "vsnprintf (E\<lparr>call_stack := stk\<rparr>) 2048 fmt ap = Inr msg" using assms(2) by simp
    show ?thesis
      unfolding pre_def con_def rest_def ebuf_def he_def
      by (simp add: vemit_emitted [OF assms(1) a2])
  qed
  obtain line more where con: "con = line # more"
    "\<exists>lfmt lap. line = Fprintf Stderr lfmt lap \<and> S msg \<in> set lap"
    by (cases he) (simp_all add: con_def emit_stderr_def)
  have shape: "\<forall>stk. fst (vemit P (E\<lparr>call_stack := stk\<rparr>) g lvl has_errno errnum fmt ap) =
        pre @ lock P @ line # (more @ rest) @
        emit_backtrace P (E\<lparr>call_stack := stk\<rparr>) lvl (level_color g lvl) (color_reset g) @
        unlock P"
    by (simp add: em con(1))
  have quiet: "writes pre = []" by (simp add: pre_def writes_append)
  have "\<forall>e\<in>set con. \<not> is_backtrace e" unfolding con_def by (rule no_backtrace_parts(5))
  then have nb1: "\<forall>e\<in>set (line # more). \<not> is_backtrace e" unfolding con(1) .
  have nb2: "\<forall>e\<in>set pre. \<not> is_backtrace e"
    using no_backtrace_parts(1) [of E g Buf_tbuf 40] no_backtrace_parts(2) [of P E errnum Buf_ebuf 256]
    by (simp add: pre_def ball_Un)
  have nb3: "\<forall>e\<in>set rest. \<not> is_backtrace e"
    using no_backtrace_parts(6) [of P g he lvl errnum msg ebuf "pname_of g"]
      no_backtrace_file [of g he lvl errnum "fst (ts_now E g Buf_tbuf 40)" msg ebuf "pname_of g"]
    by (simp add: rest_def ball_Un)
  have nb: "\<forall>e\<in>set (pre @ lock P @ line # (more @ rest)). \<not> is_backtrace e"
    using nb1 nb2 nb3 no_backtrace_parts(3) [of P] by (simp add: ball_Un)
  have "\<forall>e\<in>set con. \<not> is_mutex_call e" unfolding con_def by (rule no_mutex_parts(3))
  then have nm1: "\<forall>e\<in>set (line # more). \<not> is_mutex_call e" unfolding con(1) .
  have nm2: "\<forall>e\<in>set pre. \<not> is_mutex_call e"
    using no_mutex_parts(1) [of E g Buf_tbuf 40] no_mutex_parts(2) [of P E errnum Buf_ebuf 256]
    by (simp add: pre_def ball_Un)
  have nm3: "\<forall>e\<in>set rest. \<not> is_mutex_call e"
    using no_mutex_parts(4) [of P g he lvl errnum msg ebuf "pname_of g"]
      no_mutex_file [of g he lvl errnum "fst (ts_now E g Buf_tbuf 40)" msg ebuf "pname_of g"]
    by (simp add: rest_def ball_Un)
  have nm: "\<forall>e\<in>set (pre @ line # (more @ rest)). \<not> is_mutex_call e"
    using nm1 nm2 nm3 by (simp add: ball_Un)
  from shape quiet con(2) nb nm show ?thesis by blast
qed

lemma vemit_backtrace_events:
  assumes "\<not> lvl < min_level g" and "vsnprintf E 2048 fmt ap = Inr msg" and "is_backtrace e"
  shows "(e \<in> set (fst (vemit P E g lvl has_errno errnum fmt ap))) =
         (e \<in> set (emit_backtrace P E lvl (level_color g lvl) (color_reset g)))"
proof -
  from vemit_shape [OF assms(1,2), where P = P and has_errno = has_errno and errnum = errnum]
  obtain pre line mid where
    sh: "\<forall>stk. fst (vemit P (E\<lparr>call_stack := stk\<rparr>) g lvl has_errno errnum fmt ap) =
        pre @ lock P @ line # mid @
        emit_backtrace P (E\<lparr>call_stack := stk\<rparr>) lvl (level_color g lvl) (color_reset g) @
        unlock P"
    and nb: "\<forall>e\<in>set (pre @ lock P @ line # mid). \<not> is_backtrace e"
    by blast
  from sh have "fst (vemit P (E\<lparr>call_stack := call_stack E\<rparr>) g lvl has_errno errnum fmt ap) =
        pre @ lock P @ line # mid @
        emit_backtrace P (E\<lparr>call_stack := call_stack E\<rparr>) lvl (level_color g lvl) (color_reset g) @
        unlock P" by blast
  then have eq: "fst (vemit P E g lvl has_errno errnum fmt ap) =
        (pre @ lock P @ line # mid) @
        emit_backtrace P E lvl (level_color g lvl) (color_reset g) @ unlock P" by simp
  show ?thesis
    unfolding eq using nb assms(3) no_backtrace_parts(4) [of P] by (auto simp del: append_assoc)
qed

lemma vemit_shape_posix:
  assumes "\<not> lvl < min_level g" and "vsnprintf E 2048 fmt ap = Inr msg" and "posix P"
  shows "(\<exists>pre line mid.
          (\<forall>stk. fst (vemit P (E\<lparr>call_stack := stk\<rparr>) g lvl has_errno errnum fmt ap) =
             pre @ Mutex_lock # line # mid @
             emit_backtrace P (E\<lparr>call_stack := stk\<rparr>) lvl (level_color g lvl) (color_reset g) @
             [Mutex_unlock]) \<and>
          writes pre = [] \<and> (\<exists>lfmt lap. line = Fprintf Stderr lfmt lap \<and> S msg \<in> set lap) \<and>
          (\<forall>e\<in>set (pre @ line # mid). \<not> is_backtrace e \<and> \<not> is_mutex_call e) \<and>
          (\<forall>stk. \<forall>e\<in>set (emit_backtrace P (E\<lparr>call_stack := stk\<rparr>) lvl
                            (level_color g lvl) (color_reset g)). \<not> is_mutex_call e))"
proof -
  from vemit_shape [OF assms(1,2), where P = P and has_errno = has_errno and errnum = errnum]
  obtain pre line mid where
    sh: "\<forall>stk. fst (vemit P (E\<lparr>call_stack := stk\<rparr>) g lvl has_errno errnum fmt ap) =
        pre @ lock P @ line # mid @
        emit_backtrace P (E\<lparr>call_stack := stk\<rparr>) lvl (level_color g lvl) (color_reset g) @
        unlock P"
    and q: "writes pre = []"
    and l: "\<exists>lfmt lap. line = Fprintf Stderr lfmt lap \<and> S msg \<in> set lap"
    and nb: "\<forall>e\<in>set (pre @ lock P @ line # mid). \<not> is_backtrace e"
    and nm: "\<forall>e\<in>set (pre @ line # mid). \<not> is_mutex_call e"
    by blast
  have lk: "lock P = [Mutex_lock]" "unlock P = [Mutex_unlock]"
    using assms(3) by (simp_all add: lock_def unlock_def)
  have sh': "\<forall>stk. fst (vemit P (E\<lparr>call_stack := stk\<rparr>) g lvl has_errno errnum fmt ap) =
        pre @ Mutex_lock # line # mid @
        emit_backtrace P (E\<lparr>call_stack := stk\<rparr>) lvl (level_color g lvl) (color_reset g) @
        [Mutex_unlock]"
    using sh unfolding lk by simp
  have nbm: "\<forall>e\<in>set (pre @ line # mid). \<not> is_backtrace e \<and> \<not> is_mutex_call e"
    using nb nm by (simp add: ball_Un)
  have bm: "\<forall>stk. \<forall>e\<in>set (emit_backtrace P (E\<lparr>call_stack := stk\<rparr>) lvl
                            (level_color g lvl) (color_reset g)). \<not> is_mutex_call e"
    using no_mutex_parts(5) by blast
  from sh' q l nbm bm show ?thesis by blast
qed

lemma emit_backtrace_block:
  "emit_backtrace P E lvl c r =
       (if have_backtrace P \<and> DERR_FATAL \<le> lvl then
          Backtrace 128 #
          (if backtrace E 128 \<noteq> [] then
             [Fprintf Stderr ''%sBacktrace (%d frames):%s\<newline>''
                [S c, I (int (length (backtrace E 128))), S r],
              Fileno Stderr,
              Backtrace_symbols_fd (backtrace E 128) STDERR_FILENO,
              Fputc CHR ''\<newline>'' Stderr]
           else [])
        else [])"
  by (simp add: emit_backtrace_def Let_def)

text \<open>
  C6. In an emission that passes the filter, \<open>backtrace\<close> is called, with a buffer of 128
  entries and with no other size, exactly when the level is FATAL or above on a build
  that compiles the block in; the frames are written, to descriptor 2, exactly when in
  addition the capture returned at least one; they are the captured frames, at most
  128, the first 128 of the stack. The block is: \<open>backtrace\<close>, then, if it returned frames,
  the header line on \<open>stderr\<close>, \<open>backtrace_symbols_fd\<close> and a newline. On a POSIX build the
  run is a prefix that writes nothing, \<open>pthread_mutex_lock\<close>, the primary line on
  \<open>stderr\<close>, the rest of the sink writes, the backtrace block, \<open>pthread_mutex_unlock\<close>,
  with no other call on the mutex anywhere: the block runs under the lock taken for the
  primary line. Nothing before the block touches the backtrace, and everything before it
  is the same whatever the capture returns. The emission returns in every case, and a
  capture that is compiled out or returns no frame writes nothing.
\<close>

theorem fatal_backtrace:
  "(\<not> lvl < min_level g \<longrightarrow> vsnprintf E 2048 fmt ap = Inr msg \<longrightarrow>
     snd (vemit P E g lvl has_errno errnum fmt ap) = Returned \<and>
     (\<forall>n. (Backtrace n \<in> set (fst (vemit P E g lvl has_errno errnum fmt ap))) =
        (n = 128 \<and> have_backtrace P \<and> DERR_FATAL \<le> lvl)) \<and>
     (\<forall>fs fd. (Backtrace_symbols_fd fs fd \<in> set (fst (vemit P E g lvl has_errno errnum fmt ap))) =
        (fs = backtrace E 128 \<and> fd = STDERR_FILENO \<and> have_backtrace P \<and> DERR_FATAL \<le> lvl \<and>
         backtrace E 128 \<noteq> [])) \<and>
     length (backtrace E 128) \<le> 128 \<and>
     (\<exists>pre line mid.
        (\<forall>stk. fst (vemit P (E\<lparr>call_stack := stk\<rparr>) g lvl has_errno errnum fmt ap) =
           pre @ lock P @ line # mid @
           emit_backtrace P (E\<lparr>call_stack := stk\<rparr>) lvl (level_color g lvl) (color_reset g) @
           unlock P) \<and>
        writes pre = [] \<and> (\<exists>lfmt lap. line = Fprintf Stderr lfmt lap \<and> S msg \<in> set lap) \<and>
        (\<forall>e\<in>set (pre @ lock P @ line # mid). \<not> is_backtrace e)) \<and>
     (posix P \<longrightarrow>
        (\<exists>pre line mid.
          (\<forall>stk. fst (vemit P (E\<lparr>call_stack := stk\<rparr>) g lvl has_errno errnum fmt ap) =
             pre @ Mutex_lock # line # mid @
             emit_backtrace P (E\<lparr>call_stack := stk\<rparr>) lvl (level_color g lvl) (color_reset g) @
             [Mutex_unlock]) \<and>
          writes pre = [] \<and> (\<exists>lfmt lap. line = Fprintf Stderr lfmt lap \<and> S msg \<in> set lap) \<and>
          (\<forall>e\<in>set (pre @ line # mid). \<not> is_backtrace e \<and> \<not> is_mutex_call e) \<and>
          (\<forall>stk. \<forall>e\<in>set (emit_backtrace P (E\<lparr>call_stack := stk\<rparr>) lvl
                            (level_color g lvl) (color_reset g)). \<not> is_mutex_call e))) \<and>
     (\<not> have_backtrace P \<or> backtrace E 128 = [] \<longrightarrow>
        writes (emit_backtrace P E lvl (level_color g lvl) (color_reset g)) = [])) \<and>
   emit_backtrace P E lvl c r =
       (if have_backtrace P \<and> DERR_FATAL \<le> lvl then
          Backtrace 128 #
          (if backtrace E 128 \<noteq> [] then
             [Fprintf Stderr ''%sBacktrace (%d frames):%s\<newline>''
                [S c, I (int (length (backtrace E 128))), S r],
              Fileno Stderr,
              Backtrace_symbols_fd (backtrace E 128) STDERR_FILENO,
              Fputc CHR ''\<newline>'' Stderr]
           else [])
        else []) \<and>
   backtrace E 128 = (case call_stack E of None \<Rightarrow> [] | Some fs \<Rightarrow> take 128 fs)"
proof (intro impI conjI allI)
  show "emit_backtrace P E lvl c r =
       (if have_backtrace P \<and> DERR_FATAL \<le> lvl then
          Backtrace 128 #
          (if backtrace E 128 \<noteq> [] then
             [Fprintf Stderr ''%sBacktrace (%d frames):%s\<newline>''
                [S c, I (int (length (backtrace E 128))), S r],
              Fileno Stderr,
              Backtrace_symbols_fd (backtrace E 128) STDERR_FILENO,
              Fputc CHR ''\<newline>'' Stderr]
           else [])
        else [])"
    by (rule emit_backtrace_block)
  show "backtrace E 128 = (case call_stack E of None \<Rightarrow> [] | Some fs \<Rightarrow> take 128 fs)"
    by (simp add: backtrace_def)
next
  assume a: "\<not> lvl < min_level g" "vsnprintf E 2048 fmt ap = Inr msg"
  show "snd (vemit P E g lvl has_errno errnum fmt ap) = Returned"
    by (simp add: vemit_emitted [OF a])
  show "(Backtrace n \<in> set (fst (vemit P E g lvl has_errno errnum fmt ap))) =
        (n = 128 \<and> have_backtrace P \<and> DERR_FATAL \<le> lvl)" for n
    by (simp add: vemit_backtrace_events [OF a] emit_backtrace_events)
  show "(Backtrace_symbols_fd fs fd \<in> set (fst (vemit P E g lvl has_errno errnum fmt ap))) =
        (fs = backtrace E 128 \<and> fd = STDERR_FILENO \<and> have_backtrace P \<and> DERR_FATAL \<le> lvl \<and>
         backtrace E 128 \<noteq> [])" for fs fd
    by (simp add: vemit_backtrace_events [OF a] emit_backtrace_events)
  show "length (backtrace E 128) \<le> 128" by (rule backtrace_length)
  show "\<exists>pre line mid.
        (\<forall>stk. fst (vemit P (E\<lparr>call_stack := stk\<rparr>) g lvl has_errno errnum fmt ap) =
           pre @ lock P @ line # mid @
           emit_backtrace P (E\<lparr>call_stack := stk\<rparr>) lvl (level_color g lvl) (color_reset g) @
           unlock P) \<and>
        writes pre = [] \<and> (\<exists>lfmt lap. line = Fprintf Stderr lfmt lap \<and> S msg \<in> set lap) \<and>
        (\<forall>e\<in>set (pre @ lock P @ line # mid). \<not> is_backtrace e)"
    using vemit_shape [OF a, where P = P and has_errno = has_errno and errnum = errnum] by blast
  show "\<exists>pre line mid.
          (\<forall>stk. fst (vemit P (E\<lparr>call_stack := stk\<rparr>) g lvl has_errno errnum fmt ap) =
             pre @ Mutex_lock # line # mid @
             emit_backtrace P (E\<lparr>call_stack := stk\<rparr>) lvl (level_color g lvl) (color_reset g) @
             [Mutex_unlock]) \<and>
          writes pre = [] \<and> (\<exists>lfmt lap. line = Fprintf Stderr lfmt lap \<and> S msg \<in> set lap) \<and>
          (\<forall>e\<in>set (pre @ line # mid). \<not> is_backtrace e \<and> \<not> is_mutex_call e) \<and>
          (\<forall>stk. \<forall>e\<in>set (emit_backtrace P (E\<lparr>call_stack := stk\<rparr>) lvl
                            (level_color g lvl) (color_reset g)). \<not> is_mutex_call e)" if "posix P"
    using vemit_shape_posix [OF a that, where has_errno = has_errno and errnum = errnum]
    by blast
  assume "\<not> have_backtrace P \<or> backtrace E 128 = []"
  then show "writes (emit_backtrace P E lvl (level_color g lvl) (color_reset g)) = []"
    by (auto simp add: writes_emit_backtrace)
qed

text \<open>C6 at a concrete input: a FATAL and an ERROR record on Linux with a stack of two
  frames, and a FATAL record whose capture fails. In the FATAL record the only calls on
  the mutex are one lock and one unlock, the unlock last, and the block under the lock
  is the capture, the header, the two frames on descriptor 2 and a newline.\<close>

theorem fatal_backtrace_witness:
  "Backtrace 128 \<in> set (fst (vemit linux_gcc env0 g_derr DERR_FATAL False 0 ''boom'' [])) \<and>
   Backtrace_symbols_fd [17, 42] 2 \<in> set (fst (vemit linux_gcc env0 g_derr DERR_FATAL False 0 ''boom'' [])) \<and>
   Backtrace 128 \<notin> set (fst (vemit linux_gcc env0 g_derr DERR_ERROR False 0 ''boom'' [])) \<and>
   snd (vemit linux_gcc (env0\<lparr>call_stack := None\<rparr>) g_derr DERR_FATAL False 0 ''boom'' []) = Returned \<and>
   writes (emit_backtrace linux_gcc (env0\<lparr>call_stack := None\<rparr>) DERR_FATAL
     (level_color g_derr DERR_FATAL) (color_reset g_derr)) = [] \<and>
   filter is_mutex_call (fst (vemit linux_gcc env0 g_derr DERR_FATAL False 0 ''boom'' [])) =
     [Mutex_lock, Mutex_unlock] \<and>
   last (fst (vemit linux_gcc env0 g_derr DERR_FATAL False 0 ''boom'' [])) = Mutex_unlock \<and>
   emit_backtrace linux_gcc env0 DERR_FATAL (level_color g_derr DERR_FATAL) (color_reset g_derr) =
     [Backtrace 128,
      Fprintf Stderr ''%sBacktrace (%d frames):%s\<newline>''
        [S (CHR 0x1B # ''[1;31m''), I 2, S (CHR 0x1B # ''[0m'')],
      Fileno Stderr, Backtrace_symbols_fd [17, 42] 2, Fputc CHR ''\<newline>'' Stderr]"
proof -
  have m: "vsnprintf env0 2048 ''boom'' [] = Inr ''boom''" by (simp add: vsnprintf_def)
  have m': "vsnprintf (env0\<lparr>call_stack := None\<rparr>) 2048 ''boom'' [] = Inr ''boom''"
    by (simp add: vsnprintf_def)
  have l1: "\<not> DERR_FATAL < min_level g_derr" and l2: "\<not> DERR_ERROR < min_level g_derr"
    by (simp_all add: g_derr_def level_defs)
  have hb: "have_backtrace linux_gcc" by (simp add: have_backtrace_def linux_gcc_def)
  have px: "posix linux_gcc" by (simp add: linux_gcc_def)
  have bt: "backtrace env0 128 = [17, 42]" by (simp add: backtrace_def env0_def)
  have nb: "backtrace (env0\<lparr>call_stack := None\<rparr>) 128 = []" by (simp add: backtrace_def)
  note A = fatal_backtrace [where lvl = DERR_FATAL and g = g_derr and fmt = "''boom''"
      and ap = "[]" and msg = "''boom''" and P = linux_gcc and E = env0 and has_errno = False
      and errnum = 0 and c = "level_color g_derr DERR_FATAL" and r = "color_reset g_derr",
      THEN conjunct1, rule_format, OF l1 m]
  note B = fatal_backtrace [where lvl = DERR_ERROR and g = g_derr and fmt = "''boom''"
      and ap = "[]" and msg = "''boom''" and P = linux_gcc and E = env0 and has_errno = False
      and errnum = 0, THEN conjunct1, rule_format, OF l2 m]
  note C = fatal_backtrace [where lvl = DERR_FATAL and g = g_derr and fmt = "''boom''"
      and ap = "[]" and msg = "''boom''" and P = linux_gcc
      and E = "env0\<lparr>call_stack := None\<rparr>" and has_errno = False
      and errnum = 0, THEN conjunct1, rule_format, OF l1 m']
  note D = fatal_backtrace [where lvl = DERR_FATAL and g = g_derr and fmt = "''boom''"
      and ap = "[]" and msg = "''boom''" and P = linux_gcc and E = env0 and has_errno = False
      and errnum = 0 and c = "level_color g_derr DERR_FATAL" and r = "color_reset g_derr",
      THEN conjunct2, THEN conjunct1]
  have 1: "Backtrace 128 \<in> set (fst (vemit linux_gcc env0 g_derr DERR_FATAL False 0 ''boom'' []))"
    using A hb by simp
  have 2: "Backtrace_symbols_fd [17, 42] 2 \<in> set (fst (vemit linux_gcc env0 g_derr DERR_FATAL False 0 ''boom'' []))"
    using A hb bt by (simp add: STDERR_FILENO_def)
  have 3: "Backtrace 128 \<notin> set (fst (vemit linux_gcc env0 g_derr DERR_ERROR False 0 ''boom'' []))"
    using B by (simp add: level_defs)
  have 4: "snd (vemit linux_gcc (env0\<lparr>call_stack := None\<rparr>) g_derr DERR_FATAL False 0 ''boom'' []) = Returned"
    using C by simp
  have 5: "writes (emit_backtrace linux_gcc (env0\<lparr>call_stack := None\<rparr>) DERR_FATAL
     (level_color g_derr DERR_FATAL) (color_reset g_derr)) = []"
    using C nb by simp
  note Ap = A [THEN conjunct2, THEN conjunct2, THEN conjunct2, THEN conjunct2, THEN conjunct2,
      THEN conjunct1, rule_format, OF px]
  from Ap obtain pre line mid where
    sh: "\<forall>stk. fst (vemit linux_gcc (env0\<lparr>call_stack := stk\<rparr>) g_derr DERR_FATAL False 0 ''boom'' []) =
         pre @ Mutex_lock # line # mid @
         emit_backtrace linux_gcc (env0\<lparr>call_stack := stk\<rparr>) DERR_FATAL
           (level_color g_derr DERR_FATAL) (color_reset g_derr) @ [Mutex_unlock]"
    and nm: "\<forall>e\<in>set (pre @ line # mid). \<not> is_backtrace e \<and> \<not> is_mutex_call e"
    and bm: "\<forall>stk. \<forall>e\<in>set (emit_backtrace linux_gcc (env0\<lparr>call_stack := stk\<rparr>) DERR_FATAL
               (level_color g_derr DERR_FATAL) (color_reset g_derr)). \<not> is_mutex_call e"
    by blast
  have e0: "env0\<lparr>call_stack := Some [17, 42]\<rparr> = env0" by (simp add: env0_def)
  have eq: "fst (vemit linux_gcc env0 g_derr DERR_FATAL False 0 ''boom'' []) =
         pre @ Mutex_lock # line # mid @
         emit_backtrace linux_gcc env0 DERR_FATAL
           (level_color g_derr DERR_FATAL) (color_reset g_derr) @ [Mutex_unlock]"
    using sh [THEN spec, of "Some [17, 42]"] unfolding e0 .
  have bm0: "\<forall>e\<in>set (emit_backtrace linux_gcc env0 DERR_FATAL
               (level_color g_derr DERR_FATAL) (color_reset g_derr)). \<not> is_mutex_call e"
    using bm [THEN spec, of "Some [17, 42]"] unfolding e0 .
  have f1: "filter is_mutex_call pre = []" "filter is_mutex_call mid = []" "\<not> is_mutex_call line"
    using nm by (simp_all add: filter_empty_conv ball_Un)
  have f2: "filter is_mutex_call (emit_backtrace linux_gcc env0 DERR_FATAL
               (level_color g_derr DERR_FATAL) (color_reset g_derr)) = []"
    using bm0 by (simp add: filter_empty_conv)
  have 6: "filter is_mutex_call (fst (vemit linux_gcc env0 g_derr DERR_FATAL False 0 ''boom'' [])) =
     [Mutex_lock, Mutex_unlock]"
    unfolding eq by (simp add: f1 f2)
  have 7: "last (fst (vemit linux_gcc env0 g_derr DERR_FATAL False 0 ''boom'' [])) = Mutex_unlock"
    unfolding eq by simp
  have 8: "emit_backtrace linux_gcc env0 DERR_FATAL (level_color g_derr DERR_FATAL) (color_reset g_derr) =
     [Backtrace 128,
      Fprintf Stderr ''%sBacktrace (%d frames):%s\<newline>''
        [S (CHR 0x1B # ''[1;31m''), I 2, S (CHR 0x1B # ''[0m'')],
      Fileno Stderr, Backtrace_symbols_fd [17, 42] 2, Fputc CHR ''\<newline>'' Stderr]"
    unfolding D using hb bt
    by (simp add: level_color_def color_reset_def g_derr_def level_defs STDERR_FILENO_def)
  from 1 2 3 4 5 6 7 8 show ?thesis by blast
qed

subsection \<open>The translation of an error code\<close>

lemma dec_nat_length: "0 < k \<Longrightarrow> n < 10 ^ k \<Longrightarrow> length (dec_nat n) \<le> k"
proof (induction n arbitrary: k rule: dec_nat.induct)
  case (1 n)
  show ?case
  proof (cases "n < 10")
    case True
    then show ?thesis using "1.prems"(1) by (subst dec_nat.simps) simp
  next
    case False
    from "1.prems" obtain k' where k: "k = Suc k'" by (cases k) auto
    have "0 < k'" using False "1.prems"(2) k by (cases k') auto
    moreover have "n div 10 < 10 ^ k'" using "1.prems"(2) k by (simp add: less_mult_imp_div_less)
    ultimately have "length (dec_nat (n div 10)) \<le> k'" using "1.IH" [OF False] by blast
    then show ?thesis using False k by (subst dec_nat.simps) simp
  qed
qed

lemma dec_length_int32:
  assumes "- 2147483648 \<le> i" and "i \<le> 2147483647"
  shows "length (dec i) \<le> 11"
proof -
  have "nat \<bar>i\<bar> < 10 ^ 10" using assms by simp
  then have "length (dec_nat (nat \<bar>i\<bar>)) \<le> 10" by (intro dec_nat_length) simp_all
  then show ?thesis by (cases "i < 0") (simp_all add: dec_def abs_if)
qed

lemma no_static_parts:
  "\<forall>e\<in>set (snd (ts_now E g buf n)). text_destination e \<noteq> Some Libc_static"
  "\<forall>e\<in>set (snd (strerror_portable P E errnum buf n)). text_destination e \<noteq> Some Libc_static"
  "\<forall>e\<in>set (emit_stderr he lvl errnum tbuf msg ebuf pname c r).
     text_destination e \<noteq> Some Libc_static"
  "\<forall>e\<in>set (emit_syslog P g he lvl errnum msg ebuf pname).
     text_destination e \<noteq> Some Libc_static"
  "\<forall>e\<in>set (emit_backtrace P E lvl c r). text_destination e \<noteq> Some Libc_static"
  "\<forall>e\<in>set (lock P @ unlock P). text_destination e \<noteq> Some Libc_static"
  by (auto simp add: ts_now_def strerror_portable_def emit_stderr_def emit_syslog_def
        emit_backtrace_def lock_def unlock_def Let_def split: gnu_result.splits prod.splits)

lemma no_static_file:
  "\<forall>e\<in>set (emit_file g he lvl errnum tbuf msg ebuf pname).
     text_destination e \<noteq> Some Libc_static"
  by (cases "file_fp g"; simp add: emit_file_def)

lemma strerror_parts:
  "\<forall>e\<in>set (snd (ts_now E g buf n)). \<not> is_strerror e"
  "\<forall>e\<in>set (emit_stderr he lvl errnum tbuf msg ebuf pname c r). \<not> is_strerror e"
  "\<forall>e\<in>set (emit_syslog P g he lvl errnum msg ebuf pname). \<not> is_strerror e"
  "\<forall>e\<in>set (emit_backtrace P E lvl c r). \<not> is_strerror e"
  "\<forall>e\<in>set (lock P @ unlock P). \<not> is_strerror e"
  "\<forall>e\<in>set (snd (strerror_portable P E errnum buf n)).
     is_strerror e \<longrightarrow> e = Strerror_r errnum buf n"
  by (auto simp add: ts_now_def strerror_portable_def emit_stderr_def emit_syslog_def
        emit_backtrace_def lock_def unlock_def Let_def split: gnu_result.splits prod.splits)

lemma strerror_file:
  "\<forall>e\<in>set (emit_file g he lvl errnum tbuf msg ebuf pname). \<not> is_strerror e"
  by (cases "file_fp g"; simp add: emit_file_def)

lemma vemit_translation_calls:
  "\<forall>e\<in>set (fst (vemit P E g lvl has_errno errnum fmt ap)).
     text_destination e \<noteq> Some Libc_static \<and>
     (is_strerror e \<longrightarrow> e = Strerror_r errnum Buf_ebuf 256)"
proof (cases "lvl < min_level g")
  case True
  then show ?thesis by (simp add: vemit_filtered)
next
  case False
  show ?thesis
  proof (cases "vsnprintf E 2048 fmt ap")
    case (Inl err)
    show ?thesis
      using no_static_parts(1) [of E g Buf_tbuf 40] strerror_parts(1) [of E g Buf_tbuf 40]
      by (simp add: vemit_stuck [OF False Inl] ball_Un)
  next
    case (Inr msg)
    define he where "he = (has_errno \<and> include_errno g)"
    define ebuf where "ebuf = (if he then fst (strerror_portable P E errnum Buf_ebuf 256) else [])"
    define tr where "tr = fst (vemit P E g lvl has_errno errnum fmt ap)"
    have eq: "tr = snd (ts_now E g Buf_tbuf 40) @ [Vsnprintf Buf_msg 2048 fmt ap] @
       (if he then snd (strerror_portable P E errnum Buf_ebuf 256) else []) @
       lock P @
       emit_stderr he lvl errnum (fst (ts_now E g Buf_tbuf 40)) msg ebuf (pname_of g)
         (level_color g lvl) (color_reset g) @
       emit_file g he lvl errnum (fst (ts_now E g Buf_tbuf 40)) msg ebuf (pname_of g) @
       emit_syslog P g he lvl errnum msg ebuf (pname_of g) @
       emit_backtrace P E lvl (level_color g lvl) (color_reset g) @
       unlock P"
      unfolding tr_def ebuf_def he_def by (simp add: vemit_emitted [OF False Inr])
    have "\<forall>e\<in>set tr. text_destination e \<noteq> Some Libc_static"
      unfolding eq
      using no_static_parts(1) [of E g Buf_tbuf 40]
        no_static_parts(2) [of P E errnum Buf_ebuf 256]
        no_static_parts(3) [of he lvl errnum "fst (ts_now E g Buf_tbuf 40)" msg ebuf "pname_of g"
          "level_color g lvl" "color_reset g"]
        no_static_file [of g he lvl errnum "fst (ts_now E g Buf_tbuf 40)" msg ebuf "pname_of g"]
        no_static_parts(4) [of P g he lvl errnum msg ebuf "pname_of g"]
        no_static_parts(5) [of P E lvl "level_color g lvl" "color_reset g"]
        no_static_parts(6) [of P]
      by (simp add: ball_Un)
    moreover have "\<forall>e\<in>set tr. is_strerror e \<longrightarrow> e = Strerror_r errnum Buf_ebuf 256"
      unfolding eq
      using strerror_parts(1) [of E g Buf_tbuf 40]
        strerror_parts(6) [of P E errnum Buf_ebuf 256]
        strerror_parts(2) [of he lvl errnum "fst (ts_now E g Buf_tbuf 40)" msg ebuf "pname_of g"
          "level_color g lvl" "color_reset g"]
        strerror_file [of g he lvl errnum "fst (ts_now E g Buf_tbuf 40)" msg ebuf "pname_of g"]
        strerror_parts(3) [of P g he lvl errnum msg ebuf "pname_of g"]
        strerror_parts(4) [of P E lvl "level_color g lvl" "color_reset g"]
        strerror_parts(5) [of P]
      by (simp add: ball_Un)
    ultimately show ?thesis unfolding tr_def by blast
  qed
qed

text \<open>
  C7. \<open>strerror_portable\<close> calls only the re-entrant \<open>strerror_r\<close>, first, on the caller's
  buffer and its size, and then at most \<open>snprintf\<close> into that same buffer with that same
  size: every call it makes leaves its text in the caller's buffer, none in a buffer of
  libc's, and \<open>strerror\<close> is never called. The same holds of a whole emission, whose only
  translation call is \<open>strerror_r(errnum, ebuf, 256)\<close> on the array \<open>ebuf\<close> of \<open>vemit\<close>'s
  own frame. With the XSI \<open>strerror_r\<close>, a non-zero return is followed by
  \<open>snprintf(buf, n, "errno %d", errnum)\<close>, so the buffer holds "errno N" (cut to the
  buffer; whole for a 32-bit code in the 256 bytes \<open>vemit\<close> gives it), and a zero return
  leaves what \<open>strerror_r\<close> wrote. The GNU \<open>strerror_r\<close> has no failure to report: the
  buffer holds the message it returned, copied with \<open>snprintf(buf, n, "%s", msg)\<close> when
  it was not written there.
\<close>

theorem strerror_portable_fallback:
  "(\<not> gnu_strerror P \<longrightarrow> fst (strerror_r_xsi E errnum n) \<noteq> 0 \<longrightarrow>
      strerror_portable P E errnum buf n =
        (take (n - 1) (''errno '' @ dec errnum),
         [Strerror_r errnum buf n, Snprintf buf n ''errno %d'' [I errnum]]) \<and>
      c_format ''errno %d'' [I errnum] = Inr (''errno '' @ dec errnum) \<and>
      (n = 256 \<longrightarrow> - 2147483648 \<le> errnum \<longrightarrow> errnum \<le> 2147483647 \<longrightarrow>
         fst (strerror_portable P E errnum buf n) = ''errno '' @ dec errnum)) \<and>
   (\<not> gnu_strerror P \<longrightarrow> fst (strerror_r_xsi E errnum n) = 0 \<longrightarrow>
      strerror_portable P E errnum buf n = (snd (strerror_r_xsi E errnum n), [Strerror_r errnum buf n])) \<and>
   (gnu_strerror P \<longrightarrow>
      fst (strerror_portable P E errnum buf n) =
        (case strerror_r_gnu E errnum n of Into_buf s \<Rightarrow> s | Static_msg m \<Rightarrow> take (n - 1) m)) \<and>
   (\<forall>e\<in>set (snd (strerror_portable P E errnum buf n)).
      e = Strerror_r errnum buf n \<or> (\<exists>fmt ap. e = Snprintf buf n fmt ap)) \<and>
   (gnu_strerror P \<longrightarrow>
      strerror_portable P E errnum buf n =
        (case strerror_r_gnu E errnum n of
           Into_buf s \<Rightarrow> (s, [Strerror_r errnum buf n])
         | Static_msg m \<Rightarrow>
             (take (n - 1) m, [Strerror_r errnum buf n, Snprintf buf n ''%s'' [S m]]))) \<and>
   (\<exists>rest. snd (strerror_portable P E errnum buf n) = Strerror_r errnum buf n # rest \<and>
      (rest = [] \<or> (\<exists>fmt ap. rest = [Snprintf buf n fmt ap]))) \<and>
   (\<forall>e\<in>set (snd (strerror_portable P E errnum buf n)).
      text_destination e = Some (Caller buf n)) \<and>
   (\<forall>e. Strerror e \<notin> set (snd (strerror_portable P E errnum buf n))) \<and>
   (\<forall>e\<in>set (fst (vemit P E g lvl has_errno errnum fmt ap)).
      text_destination e \<noteq> Some Libc_static \<and>
      (is_strerror e \<longrightarrow> e = Strerror_r errnum Buf_ebuf 256))"
proof (intro conjI impI)
  assume x: "\<not> gnu_strerror P" and f: "fst (strerror_r_xsi E errnum n) \<noteq> 0"
  then show fb: "strerror_portable P E errnum buf n =
        (take (n - 1) (''errno '' @ dec errnum),
         [Strerror_r errnum buf n, Snprintf buf n ''errno %d'' [I errnum]])"
    by (cases "strerror_r_xsi E errnum n") (simp add: strerror_portable_def)
  show "c_format ''errno %d'' [I errnum] = Inr (''errno '' @ dec errnum)" by simp
  assume n: "n = 256" and r: "- 2147483648 \<le> errnum" "errnum \<le> 2147483647"
  have "length (''errno '' @ dec errnum) \<le> n - 1"
    using dec_length_int32 [OF r] by (simp add: n)
  then have "take (n - 1) (''errno '' @ dec errnum) = ''errno '' @ dec errnum"
    by (rule take_all)
  then show "fst (strerror_portable P E errnum buf n) = ''errno '' @ dec errnum"
    unfolding fb by (simp only: fst_conv)
next
  assume "\<not> gnu_strerror P" "fst (strerror_r_xsi E errnum n) = 0"
  then show "strerror_portable P E errnum buf n = (snd (strerror_r_xsi E errnum n), [Strerror_r errnum buf n])"
    by (cases "strerror_r_xsi E errnum n") (simp add: strerror_portable_def)
next
  assume "gnu_strerror P"
  then show "fst (strerror_portable P E errnum buf n) =
        (case strerror_r_gnu E errnum n of Into_buf s \<Rightarrow> s | Static_msg m \<Rightarrow> take (n - 1) m)"
    by (simp add: strerror_portable_def split: gnu_result.splits)
next
  show "\<forall>e\<in>set (snd (strerror_portable P E errnum buf n)).
      e = Strerror_r errnum buf n \<or> (\<exists>fmt ap. e = Snprintf buf n fmt ap)"
    by (simp add: strerror_portable_def split: gnu_result.splits prod.splits)
next
  assume "gnu_strerror P"
  then show "strerror_portable P E errnum buf n =
        (case strerror_r_gnu E errnum n of
           Into_buf s \<Rightarrow> (s, [Strerror_r errnum buf n])
         | Static_msg m \<Rightarrow>
             (take (n - 1) m, [Strerror_r errnum buf n, Snprintf buf n ''%s'' [S m]]))"
    by (simp add: strerror_portable_def)
next
  show "\<exists>rest. snd (strerror_portable P E errnum buf n) = Strerror_r errnum buf n # rest \<and>
      (rest = [] \<or> (\<exists>fmt ap. rest = [Snprintf buf n fmt ap]))"
    by (simp add: strerror_portable_def split: gnu_result.splits prod.splits)
next
  show "\<forall>e\<in>set (snd (strerror_portable P E errnum buf n)).
      text_destination e = Some (Caller buf n)"
    by (simp add: strerror_portable_def split: gnu_result.splits prod.splits)
next
  show "\<forall>e. Strerror e \<notin> set (snd (strerror_portable P E errnum buf n))"
    by (simp add: strerror_portable_def split: gnu_result.splits prod.splits)
next
  show "\<forall>e\<in>set (fst (vemit P E g lvl has_errno errnum fmt ap)).
      text_destination e \<noteq> Some Libc_static \<and>
      (is_strerror e \<longrightarrow> e = Strerror_r errnum Buf_ebuf 256)"
    by (rule vemit_translation_calls)
qed

lemma dec_9999: "dec 9999 = ''9999''"
  by (simp add: dec_def dec_nat.simps digit_char_def)

text \<open>C7 at a concrete input: code 9999, which the environment's XSI \<open>strerror_r\<close>
  rejects, and code 2, which it knows, on both builds; on the GNU build the message for
  code 2 is a string of libc's and is copied into the caller's buffer. In an ERROR record
  for code 2 the calls that translate are the one \<open>strerror_r\<close> on \<open>ebuf\<close>.\<close>

theorem strerror_portable_fallback_witness:
  "strerror_portable linux_gcc env0 9999 Buf_ebuf 256 =
     (''errno 9999'', [Strerror_r 9999 Buf_ebuf 256, Snprintf Buf_ebuf 256 ''errno %d'' [I 9999]]) \<and>
   strerror_portable linux_gcc env0 2 Buf_ebuf 256 = (''No such file or directory'', [Strerror_r 2 Buf_ebuf 256]) \<and>
   fst (strerror_portable (linux_gcc\<lparr>gnu_strerror := True\<rparr>) env0 2 Buf_ebuf 256) =
     ''No such file or directory'' \<and>
   strerror_portable (linux_gcc\<lparr>gnu_strerror := True\<rparr>) env0 2 Buf_ebuf 256 =
     (''No such file or directory'',
      [Strerror_r 2 Buf_ebuf 256, Snprintf Buf_ebuf 256 ''%s'' [S ''No such file or directory'']]) \<and>
   list_all (\<lambda>e. text_destination e = Some (Caller Buf_ebuf 256))
     (snd (strerror_portable linux_gcc env0 9999 Buf_ebuf 256)) \<and>
   Strerror 9999 \<notin> set (snd (strerror_portable linux_gcc env0 9999 Buf_ebuf 256)) \<and>
   filter is_strerror (fst (vemit linux_gcc env0 g_derr DERR_ERROR True 2 ''boom'' [])) =
     [Strerror_r 2 Buf_ebuf 256]"
proof -
  have x: "\<not> gnu_strerror linux_gcc" by (simp add: linux_gcc_def)
  have gn: "gnu_strerror (linux_gcc\<lparr>gnu_strerror := True\<rparr>)" by simp
  have f: "fst (strerror_r_xsi env0 9999 256) \<noteq> 0" by (simp add: env0_def)
  have s: "fst (strerror_r_xsi env0 2 256) = 0" by (simp add: env0_def)
  note A = strerror_portable_fallback [where P = linux_gcc and E = env0 and errnum = 9999
      and n = 256 and buf = Buf_ebuf]
  note B = strerror_portable_fallback [where P = linux_gcc and E = env0 and errnum = 2
      and n = 256 and buf = Buf_ebuf and g = g_derr and lvl = DERR_ERROR and has_errno = True
      and fmt = "''boom''" and ap = "[]"]
  note C = strerror_portable_fallback [where P = "linux_gcc\<lparr>gnu_strerror := True\<rparr>"
      and E = env0 and errnum = 2 and n = 256 and buf = Buf_ebuf]
  have 1: "strerror_portable linux_gcc env0 9999 Buf_ebuf 256 =
     (''errno 9999'', [Strerror_r 9999 Buf_ebuf 256, Snprintf Buf_ebuf 256 ''errno %d'' [I 9999]])"
    using A [THEN conjunct1, rule_format, OF x f, THEN conjunct1] by (simp add: dec_9999)
  have 2: "strerror_portable linux_gcc env0 2 Buf_ebuf 256 = (''No such file or directory'', [Strerror_r 2 Buf_ebuf 256])"
    using B [THEN conjunct2, THEN conjunct1, rule_format, OF x s] by (simp add: env0_def)
  have 3: "fst (strerror_portable (linux_gcc\<lparr>gnu_strerror := True\<rparr>) env0 2 Buf_ebuf 256) =
     ''No such file or directory''"
    using C [THEN conjunct2, THEN conjunct2, THEN conjunct1, rule_format, OF gn]
    by (simp add: env0_def)
  have 4: "strerror_portable (linux_gcc\<lparr>gnu_strerror := True\<rparr>) env0 2 Buf_ebuf 256 =
     (''No such file or directory'',
      [Strerror_r 2 Buf_ebuf 256, Snprintf Buf_ebuf 256 ''%s'' [S ''No such file or directory'']])"
    using C [THEN conjunct2, THEN conjunct2, THEN conjunct2, THEN conjunct2, THEN conjunct1,
        rule_format, OF gn]
    by (simp add: env0_def)
  have 5: "list_all (\<lambda>e. text_destination e = Some (Caller Buf_ebuf 256))
     (snd (strerror_portable linux_gcc env0 9999 Buf_ebuf 256))"
    using A [THEN conjunct2, THEN conjunct2, THEN conjunct2, THEN conjunct2, THEN conjunct2,
        THEN conjunct2, THEN conjunct1]
    by (simp add: list_all_iff)
  have 6: "Strerror 9999 \<notin> set (snd (strerror_portable linux_gcc env0 9999 Buf_ebuf 256))"
    using A [THEN conjunct2, THEN conjunct2, THEN conjunct2, THEN conjunct2, THEN conjunct2,
        THEN conjunct2, THEN conjunct2, THEN conjunct1, THEN spec, of 9999] .
  have he: "include_errno g_derr" by (simp add: g_derr_def)
  have l: "\<not> DERR_ERROR < min_level g_derr" by (simp add: g_derr_def level_defs)
  have m: "vsnprintf env0 2048 ''boom'' [] = Inr ''boom''" by (simp add: vsnprintf_def)
  have 7: "filter is_strerror (fst (vemit linux_gcc env0 g_derr DERR_ERROR True 2 ''boom'' [])) =
     [Strerror_r 2 Buf_ebuf 256]"
    unfolding vemit_emitted [OF l m]
    by (simp add: he 2)
  from 1 2 3 4 5 6 7 show ?thesis by blast
qed

subsection \<open>The initial configuration\<close>

lemma progname_irrelevant [simp]:
  "ts_now E (g\<lparr>progname := x\<rparr>) buf n = ts_now E g buf n"
  "level_color (g\<lparr>progname := x\<rparr>) lvl = level_color g lvl"
  "color_reset (g\<lparr>progname := x\<rparr>) = color_reset g"
  "emit_file (g\<lparr>progname := x\<rparr>) he lvl errnum tbuf msg ebuf pname =
     emit_file g he lvl errnum tbuf msg ebuf pname"
  "emit_syslog P (g\<lparr>progname := x\<rparr>) he lvl errnum msg ebuf pname =
     emit_syslog P g he lvl errnum msg ebuf pname"
  by (simp_all add: ts_now_def level_color_def color_reset_def emit_file_def emit_syslog_def)

lemma vemit_unset_progname:
  assumes "progname g = None"
  shows "vemit P E g lvl has_errno errnum fmt ap =
   vemit P E (g\<lparr>progname := Some ''program''\<rparr>) lvl has_errno errnum fmt ap"
proof -
  have "pname_of (g\<lparr>progname := Some ''program''\<rparr>) = pname_of g"
    using assms by (simp add: pname_of_def)
  then show ?thesis unfolding vemit_def by (simp add: Let_def split: prod.splits sum.splits)
qed

text \<open>
  C9. The initialiser of \<open>g_derr\<close>: no program name, threshold DEBUG, colour on, UTC off,
  errno details on, no log file, system log off. Under it none of the five levels is
  below the threshold, and the timestamp is taken with \<open>localtime_r\<close>, never \<open>gmtime_r\<close>.
  In any configuration without a program name the name shown is "program": the
  emission is the one a configuration with that name set would make, and its primary
  line on \<open>stderr\<close> carries "program" in the name's place.
\<close>

theorem initial_configuration:
  "progname g_derr = None \<and> min_level g_derr = DERR_DEBUG \<and> color g_derr \<and> \<not> utc g_derr \<and>
   include_errno g_derr \<and> file_fp g_derr = None \<and> \<not> use_syslog g_derr \<and>
   (\<forall>lvl\<in>{DERR_DEBUG, DERR_INFO, DERR_WARN, DERR_ERROR, DERR_FATAL}. \<not> lvl < min_level g_derr) \<and>
   Localtime_r (fst (clock_realtime E)) \<in> set (snd (ts_now E g_derr buf n)) \<and>
   (\<forall>t. Gmtime_r t \<notin> set (snd (ts_now E g_derr buf n))) \<and>
   (progname g = None \<longrightarrow>
      pname_of g = ''program'' \<and>
      vemit P E g lvl has_errno errnum fmt ap =
        vemit P E (g\<lparr>progname := Some ''program''\<rparr>) lvl has_errno errnum fmt ap \<and>
      (\<not> lvl < min_level g \<longrightarrow> vsnprintf E 2048 fmt ap = Inr msg \<longrightarrow>
         (if has_errno \<and> include_errno g then
            Fprintf Stderr ''%s%s%s [%s] %s: %s (errno=%d)\<newline>''
              [S (level_color g lvl), S (fst (ts_now E g Buf_tbuf 40)), S (color_reset g),
               S (level_str lvl), S ''program'', S msg, I errnum]
          else
            Fprintf Stderr ''%s%s%s [%s] %s: %s\<newline>''
              [S (level_color g lvl), S (fst (ts_now E g Buf_tbuf 40)), S (color_reset g),
               S (level_str lvl), S ''program'', S msg])
         \<in> set (fst (vemit P E g lvl has_errno errnum fmt ap))))"
proof (intro conjI impI allI)
  show "\<forall>lvl\<in>{DERR_DEBUG, DERR_INFO, DERR_WARN, DERR_ERROR, DERR_FATAL}. \<not> lvl < min_level g_derr"
    by (simp add: g_derr_def level_defs)
  show "Localtime_r (fst (clock_realtime E)) \<in> set (snd (ts_now E g_derr buf n))"
    by (simp add: ts_now_def g_derr_def Let_def)
  show "Gmtime_r t \<notin> set (snd (ts_now E g_derr buf n))" for t
    by (simp add: ts_now_def g_derr_def Let_def)
next
  assume u: "progname g = None"
  then show pn: "pname_of g = ''program''" by (simp add: pname_of_def)
  from u show "vemit P E g lvl has_errno errnum fmt ap =
        vemit P E (g\<lparr>progname := Some ''program''\<rparr>) lvl has_errno errnum fmt ap"
    by (rule vemit_unset_progname)
  assume a: "\<not> lvl < min_level g" "vsnprintf E 2048 fmt ap = Inr msg"
  show "(if has_errno \<and> include_errno g then
            Fprintf Stderr ''%s%s%s [%s] %s: %s (errno=%d)\<newline>''
              [S (level_color g lvl), S (fst (ts_now E g Buf_tbuf 40)), S (color_reset g),
               S (level_str lvl), S ''program'', S msg, I errnum]
          else
            Fprintf Stderr ''%s%s%s [%s] %s: %s\<newline>''
              [S (level_color g lvl), S (fst (ts_now E g Buf_tbuf 40)), S (color_reset g),
               S (level_str lvl), S ''program'', S msg])
         \<in> set (fst (vemit P E g lvl has_errno errnum fmt ap))"
    using vemit_primary_line [OF a, where has_errno = has_errno and errnum = errnum and P = P]
    unfolding pn .
qed (simp_all add: g_derr_def)

text \<open>C9 at a concrete input: an INFO record under the initial configuration.\<close>

theorem initial_configuration_witness:
  "Fprintf Stderr ''%s%s%s [%s] %s: %s\<newline>''
     [S (CHR 0x1B # ''[0m''), S ''2025-01-07T09:05:03.042'', S (CHR 0x1B # ''[0m''),
      S ''INFO'', S ''program'', S ''Avvio'']
   \<in> set (fst (vemit linux_gcc env0 g_derr DERR_INFO False 0 ''Avvio'' []))"
proof -
  have u: "progname g_derr = None" by (simp add: g_derr_def)
  have l: "\<not> DERR_INFO < min_level g_derr" by (simp add: g_derr_def level_defs)
  have m: "vsnprintf env0 2048 ''Avvio'' [] = Inr ''Avvio''" by (simp add: vsnprintf_def)
  have g: "level_color g_derr DERR_INFO = CHR 0x1B # ''[0m''"
    "color_reset g_derr = CHR 0x1B # ''[0m''" "level_str DERR_INFO = ''INFO''"
    by (simp_all add: g_derr_def level_color_def color_reset_def level_str_def level_defs)
  note A = initial_configuration [where E = env0 and buf = Buf_tbuf and n = 40 and g = g_derr
      and P = linux_gcc and lvl = DERR_INFO and has_errno = False and errnum = 0
      and fmt = "''Avvio''" and ap = "[]" and msg = "''Avvio''"]
  note B = A [THEN conjunct2, THEN conjunct2, THEN conjunct2, THEN conjunct2, THEN conjunct2,
      THEN conjunct2, THEN conjunct2, THEN conjunct2, THEN conjunct2, THEN conjunct2,
      rule_format, OF u, THEN conjunct2, THEN conjunct2, rule_format, OF l m]
  show ?thesis using B by (simp only: g ts_now_env0 if_False simp_thms)
qed

subsection \<open>A level outside the enumeration\<close>

lemma unknown_level_tables:
  assumes "lvl \<notin> {DERR_DEBUG, DERR_INFO, DERR_WARN, DERR_ERROR, DERR_FATAL}"
  shows "level_str lvl = ''LOG''"
    and "level_color g lvl = (if color g then CHR 0x1B # ''[0m'' else '''')"
    and "syslog_level lvl = LOG_INFO"
  using assms by (simp_all add: level_str_def level_color_def syslog_level_def)

text \<open>
  C10. A level that is none of the five enumerators falls to the \<open>default\<close> of each
  table: the label is "LOG", the colour, when colour is on, is the reset code, the
  system-log priority is \<open>LOG_INFO\<close>. A \<open>derr_log\<close> at such a level that is not below the
  threshold returns with the line on \<open>stderr\<close> labelled "LOG" in that colour, the line in
  the log file labelled "LOG" when a file is set, and the message at \<open>LOG_INFO\<close> in the
  system log when it is enabled.
\<close>

theorem unknown_level_is_LOG:
  "lvl \<notin> {DERR_DEBUG, DERR_INFO, DERR_WARN, DERR_ERROR, DERR_FATAL} \<longrightarrow>
     level_str lvl = ''LOG'' \<and>
     (color g \<longrightarrow> level_color g lvl = CHR 0x1B # ''[0m'') \<and>
     syslog_level lvl = LOG_INFO \<and>
     (\<not> lvl < min_level g \<longrightarrow> vsnprintf E 2048 fmt ap = Inr msg \<longrightarrow>
        snd (derr_log P E g lvl fmt ap) = Returned \<and>
        Fprintf Stderr ''%s%s%s [%s] %s: %s\<newline>''
          [S (if color g then CHR 0x1B # ''[0m'' else ''''), S (fst (ts_now E g Buf_tbuf 40)),
           S (color_reset g), S ''LOG'', S (pname_of g), S msg]
          \<in> set (fst (derr_log P E g lvl fmt ap)) \<and>
        (\<forall>f. file_fp g = Some f \<longrightarrow>
           Fprintf f ''%s [%s] %s: %s\<newline>'' [S (fst (ts_now E g Buf_tbuf 40)), S ''LOG'', S (pname_of g), S msg]
             \<in> set (fst (derr_log P E g lvl fmt ap))) \<and>
        (posix P \<longrightarrow> use_syslog g \<longrightarrow>
           Syslog LOG_INFO ''%s: %s'' [S (pname_of g), S msg]
             \<in> set (fst (derr_log P E g lvl fmt ap))))"
proof (intro impI conjI allI)
  assume u: "lvl \<notin> {DERR_DEBUG, DERR_INFO, DERR_WARN, DERR_ERROR, DERR_FATAL}"
  note t = unknown_level_tables [OF u]
  show "level_str lvl = ''LOG''" by (rule t(1))
  show "syslog_level lvl = LOG_INFO" by (rule t(3))
  show "level_color g lvl = CHR 0x1B # ''[0m''" if "color g" using that by (simp add: t(2))
  assume a: "\<not> lvl < min_level g" "vsnprintf E 2048 fmt ap = Inr msg"
  have run: "derr_log P E g lvl fmt ap =
    (snd (ts_now E g Buf_tbuf 40) @ [Vsnprintf Buf_msg 2048 fmt ap] @ lock P @
     emit_stderr False lvl 0 (fst (ts_now E g Buf_tbuf 40)) msg [] (pname_of g)
       (level_color g lvl) (color_reset g) @
     emit_file g False lvl 0 (fst (ts_now E g Buf_tbuf 40)) msg [] (pname_of g) @
     emit_syslog P g False lvl 0 msg [] (pname_of g) @
     emit_backtrace P E lvl (level_color g lvl) (color_reset g) @
     unlock P, Returned)"
    unfolding derr_log_def vemit_emitted [OF a] by simp
  show "snd (derr_log P E g lvl fmt ap) = Returned" by (simp add: run)
  show "Fprintf Stderr ''%s%s%s [%s] %s: %s\<newline>''
          [S (if color g then CHR 0x1B # ''[0m'' else ''''), S (fst (ts_now E g Buf_tbuf 40)),
           S (color_reset g), S ''LOG'', S (pname_of g), S msg]
          \<in> set (fst (derr_log P E g lvl fmt ap))"
    unfolding run by (simp add: emit_stderr_def t)
  show "Fprintf f ''%s [%s] %s: %s\<newline>'' [S (fst (ts_now E g Buf_tbuf 40)), S ''LOG'', S (pname_of g), S msg]
             \<in> set (fst (derr_log P E g lvl fmt ap))" if "file_fp g = Some f" for f
    unfolding run using that by (simp add: emit_file_def t)
  show "Syslog LOG_INFO ''%s: %s'' [S (pname_of g), S msg] \<in> set (fst (derr_log P E g lvl fmt ap))"
    if "posix P" "use_syslog g"
    unfolding run using that by (simp add: emit_syslog_def t)
qed

text \<open>C10 at a concrete input: level 35 with threshold WARN, a log file and the system
  log.\<close>

theorem unknown_level_is_LOG_witness:
  "level_str 35 = ''LOG'' \<and>
   Fprintf (File 3) ''%s [%s] %s: %s\<newline>''
     [S (fst (ts_now env0 g_full Buf_tbuf 40)), S ''LOG'', S ''program'', S ''odd'']
     \<in> set (fst (derr_log linux_gcc env0 g_full 35 ''odd'' [])) \<and>
   Syslog LOG_INFO ''%s: %s'' [S ''program'', S ''odd'']
     \<in> set (fst (derr_log linux_gcc env0 g_full 35 ''odd'' []))"
proof -
  have u: "35 \<notin> {DERR_DEBUG, DERR_INFO, DERR_WARN, DERR_ERROR, DERR_FATAL}"
    by (simp add: level_defs)
  have l: "\<not> 35 < min_level g_full" by (simp add: g_full_eq)
  have m: "vsnprintf env0 2048 ''odd'' [] = Inr ''odd''" by (simp add: vsnprintf_def)
  have f: "file_fp g_full = Some (File 3)" and s: "use_syslog g_full"
    and pn: "pname_of g_full = ''program''" and p: "posix linux_gcc"
    by (simp_all add: g_full_eq pname_of_def linux_gcc_def)
  note A = unknown_level_is_LOG [where lvl = 35 and g = g_full and fmt = "''odd''"
      and ap = "[]" and msg = "''odd''" and P = linux_gcc and E = env0, rule_format, OF u]
  note B = A [THEN conjunct2, THEN conjunct2, THEN conjunct2, rule_format, OF l m]
  have 1: "level_str 35 = ''LOG''" by (rule A [THEN conjunct1])
  have 2: "Fprintf (File 3) ''%s [%s] %s: %s\<newline>''
     [S (fst (ts_now env0 g_full Buf_tbuf 40)), S ''LOG'', S ''program'', S ''odd'']
     \<in> set (fst (derr_log linux_gcc env0 g_full 35 ''odd'' []))"
    using B [THEN conjunct2, THEN conjunct2, THEN conjunct1, rule_format, OF f]
    unfolding pn .
  have 3: "Syslog LOG_INFO ''%s: %s'' [S ''program'', S ''odd'']
     \<in> set (fst (derr_log linux_gcc env0 g_full 35 ''odd'' []))"
    using B [THEN conjunct2, THEN conjunct2, THEN conjunct2, rule_format, OF p s]
    unfolding pn .
  from 1 2 3 show ?thesis by blast
qed

end
